theory Spec2Isabelle
  imports Complex_Main
begin

section \<open>Numbers, errors and strings of the scripts\<close>

text \<open>
  The scripts compute with Python floats. The model computes with the real numbers:
  every arithmetic operation is the exact one, and rounding is not modelled. The two
  arithmetic operations of the scripts that can raise are the true division \<open>/\<close>
  and the modulo \<open>%\<close> on a zero divisor; both raise \<open>ZeroDivisionError\<close>, and the
  model records which of the two operations raised. The other exceptions are those of
  the host's operators (\<open>RuntimeError\<close>), of a path joined to \<open>None\<close>
  (\<open>TypeError\<close>), of a missing custom property (\<open>KeyError\<close>) and of a list index
  out of range (\<open>IndexError\<close>).
\<close>

datatype arith_op = TrueDiv | Modulo

datatype py_error = ZeroDivisionError arith_op | RuntimeError | TypeError | KeyError string | IndexError

definition py_truediv :: "real \<Rightarrow> real \<Rightarrow> py_error + real" where
  "py_truediv a b = (if b = 0 then Inl (ZeroDivisionError TrueDiv) else Inr (a / b))"

text \<open>Python's \<open>a % b\<close> on floats takes the sign of the divisor: \<open>a - b * floor (a / b)\<close>.\<close>

definition py_mod :: "real \<Rightarrow> real \<Rightarrow> py_error + real" where
  "py_mod a b =
     (if b = 0 then Inl (ZeroDivisionError Modulo)
      else Inr (a - b * of_int \<lfloor>a / b\<rfloor>))"

text \<open>\<open>math.radians\<close>.\<close>

definition radians :: "real \<Rightarrow> real" where
  "radians deg = deg * pi / 180"

section \<open>Gauge configuration\<close>

text \<open>
  \<open>GaugeConfig\<close> (arc gauge) and \<open>BarGaugeConfig\<close> (bar gauge) are two classes read by
  attribute name; \<open>value_to_angle\<close> and \<open>value_to_normalized\<close> read only the attributes
  of the scale, which both classes have. The shared attributes form the base record and
  each class extends it. The attributes that share their name with a parameter of the
  scripts' functions (\<open>name\<close>, \<open>label\<close>, \<open>units\<close>, \<open>depth\<close>, \<open>radius\<close>, \<open>height\<close>, \<open>width\<close>)
  carry the prefix \<open>cfg_\<close>. A colour zone is a pair \<open>(start_value, end_value)\<close> or an empty
  sequence (\<open>None\<close> here), which Python takes as false. The RGBA colour attributes only
  feed the shader nodes of the materials and are left out.
\<close>

record scale_config =
  cfg_name :: string
  cfg_label :: string
  cfg_units :: string
  cfg_depth :: real
  min_value :: real
  max_value :: real
  major_tick_interval :: real
  minor_tick_interval :: real
  zone_normal :: "(real \<times> real) option"
  zone_warning :: "(real \<times> real) option"
  zone_danger :: "(real \<times> real) option"
  zone_width :: real
  label_size :: real
  units_size :: real
  number_size :: real

record gauge_config = scale_config +
  cfg_radius :: real
  bezel_width :: real
  sweep_angle :: real
  start_angle :: real
  needle_length :: real
  needle_width :: real
  needle_pivot_offset :: real

datatype gauge_style = Bar | Thermometer

record bar_gauge_config = scale_config +
  cfg_height :: real
  cfg_width :: real
  tube_width :: real
  tube_margin :: real
  style :: gauge_style
  bulb_radius :: real
  corner_radius :: real
  initial_fill :: real

section \<open>Value conversion\<close>

text \<open>\<open>value_to_angle\<close> of BlenderArcGauge_v1.py.\<close>

definition value_to_angle :: "real \<Rightarrow> gauge_config \<Rightarrow> py_error + real" where
  "value_to_angle v config =
     (case py_truediv (v - min_value config) (max_value config - min_value config) of
        Inl e \<Rightarrow> Inl e
      | Inr normalized \<Rightarrow>
          (let normalized = max 0 (min 1 normalized);
               angle_deg = start_angle config - normalized * sweep_angle config
           in Inr (radians angle_deg)))"

text \<open>\<open>value_to_normalized\<close> and \<open>value_to_y_position\<close> of BlenderTemperatureGauge_v1.py.\<close>

definition value_to_normalized :: "real \<Rightarrow> bar_gauge_config \<Rightarrow> py_error + real" where
  "value_to_normalized v config =
     (case py_truediv (v - min_value config) (max_value config - min_value config) of
        Inl e \<Rightarrow> Inl e
      | Inr normalized \<Rightarrow> Inr (max 0 (min 1 normalized)))"

definition value_to_y_position :: "real \<Rightarrow> bar_gauge_config \<Rightarrow> real \<Rightarrow> py_error + real" where
  "value_to_y_position v config tube_height =
     (case value_to_normalized v config of
        Inl e \<Rightarrow> Inl e
      | Inr normalized \<Rightarrow> Inr (normalized * tube_height))"

text \<open>The class attributes of \<open>GaugeConfig\<close> and \<open>BarGaugeConfig\<close> (the default gauges).\<close>

definition GaugeConfig :: gauge_config where
  "GaugeConfig = \<lparr>
     cfg_name = ''Temperature'', cfg_label = ''T-HOT'',
     cfg_units = [CHR 0xC2, CHR 0xB0, CHR ''F''],
     cfg_depth = 0.08,
     min_value = 100, max_value = 700,
     major_tick_interval = 100, minor_tick_interval = 20,
     zone_normal = Some (100, 550), zone_warning = Some (550, 620),
     zone_danger = Some (620, 700), zone_width = 0.06,
     label_size = 0.12, units_size = 0.08, number_size = 0.06,
     cfg_radius = 1, bezel_width = 0.08,
     sweep_angle = 270, start_angle = 225,
     needle_length = 0.75, needle_width = 0.03, needle_pivot_offset = 0 \<rparr>"

definition BarGaugeConfig :: bar_gauge_config where
  "BarGaugeConfig = \<lparr>
     cfg_name = ''Temperature'', cfg_label = ''TEMP'',
     cfg_units = [CHR 0xC2, CHR 0xB0, CHR ''F''],
     cfg_depth = 0.15,
     min_value = 100, max_value = 700,
     major_tick_interval = 100, minor_tick_interval = 20,
     zone_normal = Some (100, 550), zone_warning = Some (550, 620),
     zone_danger = Some (620, 700), zone_width = 0.03,
     label_size = 0.08, units_size = 0.06, number_size = 0.05,
     cfg_height = 2, cfg_width = 0.4,
     tube_width = 0.12, tube_margin = 0.08,
     style = Bar, bulb_radius = 0.1, corner_radius = 0.02,
     initial_fill = 0.5 \<rparr>"

section \<open>Scene objects\<close>

text \<open>
  The host keeps the scene as a collection of objects. An object has a name, its data
  (none for an empty, a mesh, a text curve, a light, a camera), a parent, a location, a
  rotation, a scale, modifiers and material slots. The model keeps the parameters a
  mesh is generated from in place of its vertex and face lists, refers to a parent by
  its name, and to a material by the name it is created under. The host renames an
  object whose name is taken; the model does not. \<open>CubePrim s (w, h, d)\<close> is the
  host's cube of edge \<open>s\<close> resized by \<open>(w, h, d)\<close>; the cylinder, sphere, cone and
  torus primitives carry their radii, depth and segment counts. A joined mesh keeps the
  parts it was joined from, and \<open>obj_props\<close> are the custom properties of an object.
\<close>

type_synonym vec3 = "real \<times> real \<times> real"

datatype rotation =
    Euler real real real
  | RotationDifference vec3 vec3

datatype shape =
    ArcMesh real real real real nat real
  | DiskMesh real nat real
  | TickMesh real real real real real
  | NeedleMesh real real real
  | BoxMesh real real real bool
  | RoundedBoxMesh real real real real nat
  | TubeOutlineMesh real real real real
  | UVSphereMesh real nat nat
  | CubePrim real vec3
  | CylinderPrim real real nat
  | SpherePrim real nat nat
  | ConePrim real real real nat
  | TorusPrim real real nat nat

record part =
  part_name :: string
  part_shape :: shape
  part_location :: vec3
  part_rotation :: rotation
  part_scale :: vec3

datatype light_type = AreaLight | SunLight

datatype obj_data =
    NoData
  | Mesh shape
  | JoinedMesh "part list"
  | FontCurve string real real
  | LightData light_type real
  | CameraData

datatype modifier = Bevel real nat real

record obj =
  obj_name :: string
  obj_data :: obj_data
  obj_parent :: "string option"
  obj_location :: vec3
  obj_rotation :: rotation
  obj_scale :: vec3
  obj_modifiers :: "(string \<times> modifier) list"
  obj_materials :: "string list"
  obj_props :: "(string \<times> real) list"

text \<open>\<open>bpy.data.objects.new(name, data)\<close>: at the origin, unrotated, unscaled.\<close>

definition new_object :: "string \<Rightarrow> obj_data \<Rightarrow> obj" where
  "new_object nm d = \<lparr>
     obj_name = nm, obj_data = d, obj_parent = None,
     obj_location = (0, 0, 0), obj_rotation = Euler 0 0 0, obj_scale = (1, 1, 1),
     obj_modifiers = [], obj_materials = [], obj_props = [] \<rparr>"

definition set_z :: "real \<Rightarrow> vec3 \<Rightarrow> vec3" where
  "set_z z p = (case p of (x, y, _) \<Rightarrow> (x, y, z))"

definition set_y :: "real \<Rightarrow> vec3 \<Rightarrow> vec3" where
  "set_y y p = (case p of (x, _, z) \<Rightarrow> (x, y, z))"

definition set_x :: "real \<Rightarrow> vec3 \<Rightarrow> vec3" where
  "set_x x p = (case p of (_, y, z) \<Rightarrow> (x, y, z))"

section \<open>Formatting numbers\<close>

text \<open>\<open>str\<close> of a non-negative and of any integer, in decimal.\<close>

fun str_nat :: "nat \<Rightarrow> string" where
  "str_nat n =
     (if n < 10 then [char_of (48 + n)]
      else str_nat (n div 10) @ [char_of (48 + n mod 10)])"

declare str_nat.simps [simp del]

definition str_int :: "int \<Rightarrow> string" where
  "str_int i = (if i < 0 then CHR ''-'' # str_nat (nat (- i)) else str_nat (nat i))"

text \<open>\<open>int(value)\<close> truncates towards zero.\<close>

definition py_int :: "real \<Rightarrow> int" where
  "py_int v = (if 0 \<le> v then \<lfloor>v\<rfloor> else \<lceil>v\<rceil>)"

text \<open>
  \<open>f"{value:.df}"\<close>: the value rounded to \<open>d\<close> decimals, ties to even, the fraction
  padded with zeros, no decimal point when \<open>d = 0\<close>.
\<close>

definition round_half_even :: "real \<Rightarrow> nat" where
  "round_half_even x =
     (let f = nat \<lfloor>x\<rfloor>; r = x - real f
      in if r < 1 / 2 then f else if 1 / 2 < r then f + 1
         else if even f then f else f + 1)"

definition format_fixed :: "nat \<Rightarrow> real \<Rightarrow> string" where
  "format_fixed d v =
     (let q = round_half_even (\<bar>v\<bar> * 10 ^ d);
          ip = str_nat (q div 10 ^ d);
          fp = str_nat (q mod 10 ^ d)
      in (if v < 0 then [CHR ''-''] else []) @ ip
         @ (if d = 0 then [] else CHR ''.'' # replicate (d - length fp) (CHR ''0'') @ fp))"

section \<open>Double-precision arithmetic\<close>

text \<open>
  A Python float is an IEEE 754 double. The model takes a double as the real number it
  stands for. \<open>fl\<close> rounds a real number to the nearest number with 53 significant
  bits, ties to the even significand: it is what a float literal denotes and what each
  arithmetic operation applies to its exact result. The range of the exponent is not
  bounded in the model: the overflow to infinity above \<open>2 ^ 1024\<close>, the coarser spacing
  below \<open>2 ^ - 1022\<close>, infinities and NaN are not modelled.
\<close>

definition ulp :: "real \<Rightarrow> real" where
  "ulp x = 2 powr (of_int \<lfloor>log 2 \<bar>x\<bar>\<rfloor> - 52)"

definition fl :: "real \<Rightarrow> real" where
  "fl x = (if x = 0 then 0 else sgn x * real (round_half_even (\<bar>x\<bar> / ulp x)) * ulp x)"


definition fmul :: "real \<Rightarrow> real \<Rightarrow> real" where
  "fmul a b = fl (a * b)"

section \<open>The scale loops of the gauges\<close>

text \<open>
  Each gauge walks its scale three times (major ticks, minor ticks, numbers) with
  \<^verbatim>\<open>
    value = config.min_value
    index = 0
    while value <= config.max_value + 0.001:
        <body>
        value += <interval>
  \<close>
  The body creates and links objects, may advance the index, and may raise. With an
  interval that is not positive the loop does not end: the result is \<open>None\<close>. Where
  the script raises, the result is the exception alone: the objects linked before it
  stay in the host's scene, and the model does not return them.
\<close>

partial_function (option) while_value ::
  "(real \<Rightarrow> nat \<Rightarrow> py_error + obj list \<times> nat) \<Rightarrow> real \<Rightarrow> real \<Rightarrow> real \<Rightarrow> nat
     \<Rightarrow> (py_error + obj list) option" where
  "while_value body limit step v idx =
     (if v \<le> limit then
        (case body v idx of
           Inl e \<Rightarrow> Some (Inl e)
         | Inr (objs, idx') \<Rightarrow>
             Option.bind (while_value body limit step (v + step) idx')
               (\<lambda>rest. Some (case rest of Inl e \<Rightarrow> Inl e | Inr later \<Rightarrow> Inr (objs @ later))))
      else Some (Inr []))"

text \<open>One statement after another: an exception or a loop that does not end stops the rest.\<close>

definition then_run ::
  "(py_error + 'a) option \<Rightarrow> ('a \<Rightarrow> (py_error + 'b) option) \<Rightarrow> (py_error + 'b) option" where
  "then_run m f = (case m of None \<Rightarrow> None | Some (Inl e) \<Rightarrow> Some (Inl e) | Some (Inr x) \<Rightarrow> f x)"

section \<open>The arc gauge (BlenderArcGauge_v1.py)\<close>

definition create_arc_mesh ::
  "string \<Rightarrow> real \<Rightarrow> real \<Rightarrow> real \<Rightarrow> real \<Rightarrow> nat \<Rightarrow> real \<Rightarrow> obj" where
  "create_arc_mesh nm inner_radius outer_radius start_a end_a segments depth =
     new_object nm (Mesh (ArcMesh inner_radius outer_radius start_a end_a segments depth))"

definition create_disk :: "string \<Rightarrow> real \<Rightarrow> nat \<Rightarrow> real \<Rightarrow> obj" where
  "create_disk nm r segments depth = new_object nm (Mesh (DiskMesh r segments depth))"

definition create_tick_mark :: "string \<Rightarrow> real \<Rightarrow> real \<Rightarrow> real \<Rightarrow> real \<Rightarrow> real \<Rightarrow> obj" where
  "create_tick_mark nm inner_radius outer_radius angle w depth =
     new_object nm (Mesh (TickMesh inner_radius outer_radius angle w depth))"

definition create_needle :: "string \<Rightarrow> real \<Rightarrow> real \<Rightarrow> real \<Rightarrow> obj" where
  "create_needle nm len w depth = new_object nm (Mesh (NeedleMesh len w depth))"

definition create_text_object :: "string \<Rightarrow> string \<Rightarrow> real \<Rightarrow> real \<Rightarrow> obj" where
  "create_text_object nm txt sz depth = new_object nm (FontCurve txt sz (depth / 2))"

text \<open>
  The body of the major tick loop of \<open>create_gauge\<close>: the tick it creates at an angle,
  and the body, which computes the angle first.
\<close>

definition gauge_major_tick_obj :: "gauge_config \<Rightarrow> real \<Rightarrow> nat \<Rightarrow> obj" where
  "gauge_major_tick_obj config angle tick_index =
     (let tick_inner = cfg_radius config - bezel_width config - 0.12;
          tick_outer = cfg_radius config - bezel_width config - 0.02;
          tick = create_tick_mark (''MajorTick_'' @ str_nat tick_index)
                   tick_inner tick_outer angle 0.015 0.008
      in tick\<lparr>obj_parent := Some ''MajorTicks'',
              obj_location := set_z (cfg_depth config * 0.5 + 0.002) (obj_location tick),
              obj_materials := [''tick'']\<rparr>)"

definition gauge_major_tick :: "gauge_config \<Rightarrow> real \<Rightarrow> nat \<Rightarrow> py_error + obj list \<times> nat" where
  "gauge_major_tick config v tick_index =
     (case value_to_angle v config of
        Inl e \<Rightarrow> Inl e
      | Inr angle \<Rightarrow> Inr ([gauge_major_tick_obj config angle tick_index], tick_index + 1))"

text \<open>
  The body of the minor tick loop: a tick only where the guard
  \<open>abs((value - config.min_value) % config.major_tick_interval) > 0.001\<close> holds.
\<close>

definition minor_tick_guard :: "real \<Rightarrow> real \<Rightarrow> real \<Rightarrow> py_error + bool" where
  "minor_tick_guard v lo major =
     (case py_mod (v - lo) major of Inl e \<Rightarrow> Inl e | Inr m \<Rightarrow> Inr (\<bar>m\<bar> > 0.001))"

definition gauge_minor_tick_obj :: "gauge_config \<Rightarrow> real \<Rightarrow> nat \<Rightarrow> obj" where
  "gauge_minor_tick_obj config angle tick_index =
     (let tick_inner_minor = cfg_radius config - bezel_width config - 0.08;
          tick_outer_minor = cfg_radius config - bezel_width config - 0.02;
          tick = create_tick_mark (''MinorTick_'' @ str_nat tick_index)
                   tick_inner_minor tick_outer_minor angle 0.008 0.006
      in tick\<lparr>obj_parent := Some ''MinorTicks'',
              obj_location := set_z (cfg_depth config * 0.5 + 0.002) (obj_location tick),
              obj_materials := [''tick'']\<rparr>)"

definition gauge_minor_tick :: "gauge_config \<Rightarrow> real \<Rightarrow> nat \<Rightarrow> py_error + obj list \<times> nat" where
  "gauge_minor_tick config v tick_index =
     (case minor_tick_guard v (min_value config) (major_tick_interval config) of
        Inl e \<Rightarrow> Inl e
      | Inr False \<Rightarrow> Inr ([], tick_index)
      | Inr True \<Rightarrow>
         (case value_to_angle v config of
            Inl e \<Rightarrow> Inl e
          | Inr angle \<Rightarrow> Inr ([gauge_minor_tick_obj config angle tick_index], tick_index + 1)))"

text \<open>The body of the number loop: the label text drops the decimals of a whole value.\<close>

definition gauge_number_text :: "real \<Rightarrow> string" where
  "gauge_number_text v = (if v = of_int (py_int v) then str_int (py_int v) else format_fixed 1 v)"

definition gauge_number_obj :: "gauge_config \<Rightarrow> real \<Rightarrow> real \<Rightarrow> nat \<Rightarrow> obj" where
  "gauge_number_obj config v angle num_index =
     (let number_radius = cfg_radius config - bezel_width config - 0.20;
          num_obj = create_text_object (''Number_'' @ str_nat num_index)
                      (gauge_number_text v) (number_size config) 0.004
      in num_obj\<lparr>obj_parent := Some ''Numbers'',
                 obj_location := (number_radius * cos angle, number_radius * sin angle,
                                  cfg_depth config * 0.5 + 0.003),
                 obj_rotation := Euler (radians 90) 0 0\<rparr>)"

definition gauge_number :: "gauge_config \<Rightarrow> real \<Rightarrow> nat \<Rightarrow> py_error + obj list \<times> nat" where
  "gauge_number config v num_index =
     (case value_to_angle v config of
        Inl e \<Rightarrow> Inl e
      | Inr angle \<Rightarrow> Inr ([gauge_number_obj config v angle num_index], num_index + 1))"

text \<open>
  One colour zone: a band only for a zone that is set and has \<open>start < end\<close>. The three
  zone blocks of \<open>create_gauge\<close> differ in the zone, the object name and the material.
\<close>

definition gauge_zone ::
  "gauge_config \<Rightarrow> string \<Rightarrow> (real \<times> real) option \<Rightarrow> string \<Rightarrow> py_error + obj list" where
  "gauge_zone config nm zone material =
     (let zone_inner = cfg_radius config - bezel_width config - zone_width config - 0.02;
          zone_outer = cfg_radius config - bezel_width config - 0.02
      in case zone of
           None \<Rightarrow> Inr []
         | Some (z0, z1) \<Rightarrow>
             if z0 < z1 then
               (case value_to_angle z1 config of
                  Inl e \<Rightarrow> Inl e
                | Inr start_a \<Rightarrow>
                   (case value_to_angle z0 config of
                      Inl e \<Rightarrow> Inl e
                    | Inr end_a \<Rightarrow>
                        (let band = create_arc_mesh nm zone_inner zone_outer start_a end_a 32 0.004
                         in Inr [band\<lparr>obj_parent := Some ''Zones'',
                                      obj_location := set_z (cfg_depth config * 0.5 + 0.001) (obj_location band),
                                      obj_materials := [material]\<rparr>])))
             else Inr [])"

definition gauge_zones :: "gauge_config \<Rightarrow> py_error + obj list" where
  "gauge_zones config =
     (case gauge_zone config ''Zone_Normal'' (zone_normal config) ''zone_normal'' of
        Inl e \<Rightarrow> Inl e
      | Inr zn \<Rightarrow>
         (case gauge_zone config ''Zone_Warning'' (zone_warning config) ''zone_warning'' of
            Inl e \<Rightarrow> Inl e
          | Inr zw \<Rightarrow>
             (case gauge_zone config ''Zone_Danger'' (zone_danger config) ''zone_danger'' of
                Inl e \<Rightarrow> Inl e
              | Inr zd \<Rightarrow> Inr (zn @ zw @ zd))))"

text \<open>The needle, set to the middle of the range.\<close>

definition gauge_needle :: "gauge_config \<Rightarrow> py_error + obj" where
  "gauge_needle config =
     (let needle = create_needle ''Needle'' (cfg_radius config * needle_length config)
                     (needle_width config) 0.015;
          mid_value = (min_value config + max_value config) / 2
      in case value_to_angle mid_value config of
           Inl e \<Rightarrow> Inl e
         | Inr mid_angle \<Rightarrow>
             Inr (needle\<lparr>obj_parent := Some (''Gauge_'' @ cfg_name config),
                         obj_location := set_z (cfg_depth config * 0.5 + 0.01) (obj_location needle),
                         obj_materials := [''needle''],
                         obj_rotation := Euler 0 0 (mid_angle - radians 90)\<rparr>))"

text \<open>
  \<open>create_gauge\<close>: the objects it links to the scene collection, in the order it links
  them.
\<close>

definition create_gauge :: "gauge_config \<Rightarrow> (py_error + obj list) option" where
  "create_gauge config =
     (let root_name = ''Gauge_'' @ cfg_name config;
          root = new_object root_name NoData;
          bezel = (create_arc_mesh ''Bezel'' (cfg_radius config - bezel_width config)
                     (cfg_radius config) 0 (2 * pi) 64 (cfg_depth config))
                   \<lparr>obj_parent := Some root_name, obj_materials := [''bezel'']\<rparr>;
          face = (create_disk ''Face'' (cfg_radius config - bezel_width config - 0.005) 64
                    (cfg_depth config * 0.5))
                   \<lparr>obj_parent := Some root_name,
                    obj_location := (0, 0, cfg_depth config * 0.25),
                    obj_materials := [''face'']\<rparr>;
          scale_empty = (new_object ''Scale'' NoData)\<lparr>obj_parent := Some root_name\<rparr>;
          major_ticks_empty = (new_object ''MajorTicks'' NoData)\<lparr>obj_parent := Some ''Scale''\<rparr>;
          minor_ticks_empty = (new_object ''MinorTicks'' NoData)\<lparr>obj_parent := Some ''Scale''\<rparr>;
          numbers_empty = (new_object ''Numbers'' NoData)\<lparr>obj_parent := Some ''Scale''\<rparr>;
          zones_empty = (new_object ''Zones'' NoData)\<lparr>obj_parent := Some ''Scale''\<rparr>;
          hub = (create_disk ''NeedleHub'' (needle_width config * 2) 32 0.02)
                   \<lparr>obj_parent := Some root_name,
                    obj_location := (0, 0, cfg_depth config * 0.5 + 0.015),
                    obj_materials := [''hub'']\<rparr>;
          label = (create_text_object ''Label'' (cfg_label config) (label_size config) 0.005)
                   \<lparr>obj_parent := Some root_name,
                    obj_location := (0, - cfg_radius config * 0.35, cfg_depth config * 0.5 + 0.005),
                    obj_rotation := Euler (radians 90) 0 0\<rparr>;
          units = (create_text_object ''Units'' (cfg_units config) (units_size config) 0.004)
                   \<lparr>obj_parent := Some root_name,
                    obj_location := (0, - cfg_radius config * 0.55, cfg_depth config * 0.5 + 0.005),
                    obj_rotation := Euler (radians 90) 0 0\<rparr>;
          limit = max_value config + 0.001
      in then_run (while_value (gauge_major_tick config) limit (major_tick_interval config)
                     (min_value config) 0) (\<lambda>major_ticks.
         then_run (while_value (gauge_minor_tick config) limit (minor_tick_interval config)
                     (min_value config) 0) (\<lambda>minor_ticks.
         then_run (while_value (gauge_number config) limit (major_tick_interval config)
                     (min_value config) 0) (\<lambda>numbers.
         then_run (Some (gauge_zones config)) (\<lambda>zones.
         then_run (Some (gauge_needle config)) (\<lambda>needle.
           Some (Inr ([root, bezel, face, scale_empty, major_ticks_empty] @ major_ticks
                      @ [minor_ticks_empty] @ minor_ticks
                      @ [numbers_empty] @ numbers
                      @ [zones_empty] @ zones
                      @ [needle, hub, label, units]))))))))"

section \<open>The bar gauge (BlenderTemperatureGauge_v1.py)\<close>

definition create_box_mesh :: "string \<Rightarrow> real \<Rightarrow> real \<Rightarrow> real \<Rightarrow> bool \<Rightarrow> obj" where
  "create_box_mesh nm w h depth center_bottom = new_object nm (Mesh (BoxMesh w h depth center_bottom))"

definition create_rounded_box :: "string \<Rightarrow> real \<Rightarrow> real \<Rightarrow> real \<Rightarrow> real \<Rightarrow> obj" where
  "create_rounded_box nm w h depth corner = new_object nm (Mesh (RoundedBoxMesh w h depth corner 4))"

definition create_tube_outline :: "string \<Rightarrow> real \<Rightarrow> real \<Rightarrow> real \<Rightarrow> real \<Rightarrow> obj" where
  "create_tube_outline nm w h thickness depth = new_object nm (Mesh (TubeOutlineMesh w h thickness depth))"

definition create_sphere_mesh :: "string \<Rightarrow> real \<Rightarrow> obj" where
  "create_sphere_mesh nm r = new_object nm (Mesh (UVSphereMesh r 16 8))"

text \<open>\<open>tube_height\<close> and \<open>tube_bottom_y\<close>, computed at the start of \<open>create_bar_gauge\<close>.\<close>

definition bar_tube_height :: "bar_gauge_config \<Rightarrow> real" where
  "bar_tube_height config =
     (let tube_height = cfg_height config - (tube_margin config * 2)
      in if style config = Thermometer then tube_height - bulb_radius config else tube_height)"

definition bar_tube_bottom_y :: "bar_gauge_config \<Rightarrow> real" where
  "bar_tube_bottom_y config =
     (let tube_bottom_y = - cfg_height config / 2 + tube_margin config
      in if style config = Thermometer then tube_bottom_y + bulb_radius config else tube_bottom_y)"

definition bar_tick_x :: "bar_gauge_config \<Rightarrow> real" where
  "bar_tick_x config = cfg_width config / 2 - tube_margin config / 2"

text \<open>The bodies of the three scale loops of \<open>create_bar_gauge\<close>.\<close>

definition bar_major_tick_obj :: "bar_gauge_config \<Rightarrow> real \<Rightarrow> nat \<Rightarrow> obj" where
  "bar_major_tick_obj config y_pos tick_idx =
     (let tick = create_box_mesh (''MajorTick_'' @ str_nat tick_idx) 0.06 0.012
                   (cfg_depth config * 0.1) False
      in tick\<lparr>obj_parent := Some ''MajorTicks'',
              obj_location := (bar_tick_x config, y_pos, cfg_depth config * 0.55),
              obj_materials := [''tick'']\<rparr>)"

definition bar_major_tick :: "bar_gauge_config \<Rightarrow> real \<Rightarrow> nat \<Rightarrow> py_error + obj list \<times> nat" where
  "bar_major_tick config v tick_idx =
     (case value_to_y_position v config (bar_tube_height config) of
        Inl e \<Rightarrow> Inl e
      | Inr y \<Rightarrow>
          Inr ([bar_major_tick_obj config (bar_tube_bottom_y config + y) tick_idx], tick_idx + 1))"

definition bar_minor_tick_obj :: "bar_gauge_config \<Rightarrow> real \<Rightarrow> nat \<Rightarrow> obj" where
  "bar_minor_tick_obj config y_pos tick_idx =
     (let tick = create_box_mesh (''MinorTick_'' @ str_nat tick_idx) 0.03 0.008
                   (cfg_depth config * 0.08) False
      in tick\<lparr>obj_parent := Some ''MinorTicks'',
              obj_location := (bar_tick_x config, y_pos, cfg_depth config * 0.55),
              obj_materials := [''tick'']\<rparr>)"

definition bar_minor_tick :: "bar_gauge_config \<Rightarrow> real \<Rightarrow> nat \<Rightarrow> py_error + obj list \<times> nat" where
  "bar_minor_tick config v tick_idx =
     (case minor_tick_guard v (min_value config) (major_tick_interval config) of
        Inl e \<Rightarrow> Inl e
      | Inr False \<Rightarrow> Inr ([], tick_idx)
      | Inr True \<Rightarrow>
         (case value_to_y_position v config (bar_tube_height config) of
            Inl e \<Rightarrow> Inl e
          | Inr y \<Rightarrow>
              Inr ([bar_minor_tick_obj config (bar_tube_bottom_y config + y) tick_idx],
                   tick_idx + 1)))"

definition bar_number_text :: "real \<Rightarrow> string" where
  "bar_number_text v = (if v = of_int (py_int v) then str_int (py_int v) else format_fixed 0 v)"

definition bar_number_obj :: "bar_gauge_config \<Rightarrow> real \<Rightarrow> real \<Rightarrow> nat \<Rightarrow> obj" where
  "bar_number_obj config v y_pos num_idx =
     (let number_x = bar_tick_x config + 0.06 / 2 + 0.04;
          num_obj = create_text_object (''Number_'' @ str_nat num_idx)
                      (bar_number_text v) (number_size config) 0.005
      in num_obj\<lparr>obj_parent := Some ''Numbers'',
                 obj_location := (number_x, y_pos, cfg_depth config * 0.55),
                 obj_rotation := Euler (radians 90) 0 0\<rparr>)"

definition bar_number :: "bar_gauge_config \<Rightarrow> real \<Rightarrow> nat \<Rightarrow> py_error + obj list \<times> nat" where
  "bar_number config v num_idx =
     (case value_to_y_position v config (bar_tube_height config) of
        Inl e \<Rightarrow> Inl e
      | Inr y \<Rightarrow>
          Inr ([bar_number_obj config v (bar_tube_bottom_y config + y) num_idx], num_idx + 1))"

text \<open>The nested function \<open>create_zone\<close> of \<open>create_bar_gauge\<close>.\<close>

definition create_zone ::
  "bar_gauge_config \<Rightarrow> string \<Rightarrow> (real \<times> real) option \<Rightarrow> string \<Rightarrow> py_error + obj list" where
  "create_zone config zone_name zone_range material =
     (let zone_x = - cfg_width config / 2 + tube_margin config / 2 + zone_width config / 2
      in case zone_range of
           None \<Rightarrow> Inr []
         | Some (z0, z1) \<Rightarrow>
             if z0 < z1 then
               (case value_to_y_position z0 config (bar_tube_height config) of
                  Inl e \<Rightarrow> Inl e
                | Inr y0 \<Rightarrow>
                   (case value_to_y_position z1 config (bar_tube_height config) of
                      Inl e \<Rightarrow> Inl e
                    | Inr y1 \<Rightarrow>
                        (let y_start = bar_tube_bottom_y config + y0;
                             y_end = bar_tube_bottom_y config + y1;
                             zone_height = y_end - y_start;
                             zone = create_box_mesh zone_name (zone_width config) zone_height
                                      (cfg_depth config * 0.1) False
                         in Inr [zone\<lparr>obj_parent := Some ''Zones'',
                                      obj_location := (zone_x, y_start + zone_height / 2,
                                                       cfg_depth config * 0.55),
                                      obj_materials := [material]\<rparr>])))
             else Inr [])"

definition bar_zones :: "bar_gauge_config \<Rightarrow> py_error + obj list" where
  "bar_zones config =
     (case create_zone config ''Zone_Normal'' (zone_normal config) ''zone_normal'' of
        Inl e \<Rightarrow> Inl e
      | Inr zn \<Rightarrow>
         (case create_zone config ''Zone_Warning'' (zone_warning config) ''zone_warning'' of
            Inl e \<Rightarrow> Inl e
          | Inr zw \<Rightarrow>
             (case create_zone config ''Zone_Danger'' (zone_danger config) ''zone_danger'' of
                Inl e \<Rightarrow> Inl e
              | Inr zd \<Rightarrow> Inr (zn @ zw @ zd))))"

definition create_bar_gauge :: "bar_gauge_config \<Rightarrow> (py_error + obj list) option" where
  "create_bar_gauge config =
     (let root_name = ''BarGauge_'' @ cfg_name config;
          root = new_object root_name NoData;
          tube_height = bar_tube_height config;
          tube_bottom_y = bar_tube_bottom_y config;
          housing = (if corner_radius config > 0.001
                     then create_rounded_box ''Housing'' (cfg_width config) (cfg_height config)
                            (cfg_depth config) (corner_radius config)
                     else create_box_mesh ''Housing'' (cfg_width config) (cfg_height config)
                            (cfg_depth config) False)
                    \<lparr>obj_parent := Some root_name, obj_materials := [''housing'']\<rparr>;
          background = (create_box_mesh ''Background'' (cfg_width config - 0.02 * 2)
                          (cfg_height config - 0.02 * 2) (cfg_depth config * 0.3) False)
                    \<lparr>obj_parent := Some root_name,
                     obj_location := (0, 0, cfg_depth config * 0.35),
                     obj_materials := [''background'']\<rparr>;
          tube = (create_tube_outline ''Tube'' (tube_width config + 0.01 * 2)
                    (tube_height + 0.01 * 2) 0.01 (cfg_depth config * 0.2))
                    \<lparr>obj_parent := Some root_name,
                     obj_location := (0, tube_bottom_y + tube_height / 2, cfg_depth config * 0.5),
                     obj_materials := [''tube'']\<rparr>;
          fill = (create_box_mesh ''Fill'' (tube_width config) tube_height
                    (cfg_depth config * 0.15) True)
                    \<lparr>obj_parent := Some root_name,
                     obj_location := (0, tube_bottom_y, cfg_depth config * 0.5),
                     obj_scale := (1, initial_fill config, 1),
                     obj_materials := [''fill'']\<rparr>;
          bulb = (if style config = Thermometer
                  then [(create_sphere_mesh ''Bulb'' (bulb_radius config))
                          \<lparr>obj_parent := Some root_name,
                           obj_location := (0, - cfg_height config / 2 + tube_margin config
                                                 + bulb_radius config * 0.3,
                                            cfg_depth config * 0.5),
                           obj_materials := [''bulb'']\<rparr>]
                  else []);
          scale_empty = (new_object ''Scale'' NoData)\<lparr>obj_parent := Some root_name\<rparr>;
          major_ticks_empty = (new_object ''MajorTicks'' NoData)\<lparr>obj_parent := Some ''Scale''\<rparr>;
          minor_ticks_empty = (new_object ''MinorTicks'' NoData)\<lparr>obj_parent := Some ''Scale''\<rparr>;
          numbers_empty = (new_object ''Numbers'' NoData)\<lparr>obj_parent := Some ''Scale''\<rparr>;
          zones_empty = (new_object ''Zones'' NoData)\<lparr>obj_parent := Some root_name\<rparr>;
          label = (create_text_object ''Label'' (cfg_label config) (label_size config) 0.005)
                    \<lparr>obj_parent := Some root_name,
                     obj_location := (0, cfg_height config / 2 - tube_margin config * 0.7,
                                      cfg_depth config * 0.55),
                     obj_rotation := Euler (radians 90) 0 0\<rparr>;
          units = (create_text_object ''Units'' (cfg_units config) (units_size config) 0.005)
                    \<lparr>obj_parent := Some root_name,
                     obj_location := (0, - cfg_height config / 2 + tube_margin config * 0.5,
                                      cfg_depth config * 0.55),
                     obj_rotation := Euler (radians 90) 0 0\<rparr>;
          limit = max_value config + 0.001
      in then_run (while_value (bar_major_tick config) limit (major_tick_interval config)
                     (min_value config) 0) (\<lambda>major_ticks.
         then_run (while_value (bar_minor_tick config) limit (minor_tick_interval config)
                     (min_value config) 0) (\<lambda>minor_ticks.
         then_run (while_value (bar_number config) limit (major_tick_interval config)
                     (min_value config) 0) (\<lambda>numbers.
         then_run (Some (bar_zones config)) (\<lambda>zones.
           Some (Inr ([root, housing, background, tube, fill] @ bulb
                      @ [scale_empty, major_ticks_empty] @ major_ticks
                      @ [minor_ticks_empty] @ minor_ticks
                      @ [numbers_empty] @ numbers
                      @ [zones_empty] @ zones
                      @ [label, units])))))))"

section \<open>Views of a scene\<close>

text \<open>
  What the statements below read off the objects of a scene: the children of a parent,
  the angle a tick mark is drawn at, the text of a label.
\<close>

definition children_of :: "string \<Rightarrow> obj list \<Rightarrow> obj list" where
  "children_of p objs = filter (\<lambda>ob. obj_parent ob = Some p) objs"

definition tick_angle :: "obj \<Rightarrow> real option" where
  "tick_angle ob = (case obj_data ob of Mesh (TickMesh _ _ a _ _) \<Rightarrow> Some a | _ \<Rightarrow> None)"


definition loc_x :: "obj \<Rightarrow> real" where
  "loc_x ob = fst (obj_location ob)"

definition loc_y :: "obj \<Rightarrow> real" where
  "loc_y ob = fst (snd (obj_location ob))"

definition loc_z :: "obj \<Rightarrow> real" where
  "loc_z ob = snd (snd (obj_location ob))"

section \<open>Notions for the analysis of the gauges\<close>

text \<open>
  The definitions of this section belong to the proofs, not to the scripts. A scale
  loop started at \<open>v\<close> with a positive step visits \<open>v\<close>, \<open>v + step\<close>, \<open>v + 2 * step\<close>, ...
  as long as the value does not exceed the limit: \<open>scale_count\<close> values in all.
  \<open>run_bodies\<close> runs a loop body over a list of values, and \<open>indexed\<close> numbers the
  objects made for a list of values.
\<close>

definition scale_count :: "real \<Rightarrow> real \<Rightarrow> real \<Rightarrow> nat" where
  "scale_count limit step v = (if v \<le> limit then nat \<lfloor>(limit - v) / step\<rfloor> + 1 else 0)"

definition scale_values :: "real \<Rightarrow> real \<Rightarrow> real \<Rightarrow> real list" where
  "scale_values limit step v = map (\<lambda>k. v + real k * step) [0..<scale_count limit step v]"

fun run_bodies ::
  "(real \<Rightarrow> nat \<Rightarrow> py_error + obj list \<times> nat) \<Rightarrow> real list \<Rightarrow> nat \<Rightarrow> py_error + obj list" where
  "run_bodies body [] idx = Inr []"
| "run_bodies body (v # vs) idx =
     (case body v idx of
        Inl e \<Rightarrow> Inl e
      | Inr (objs, idx') \<Rightarrow>
          (case run_bodies body vs idx' of
             Inl e \<Rightarrow> Inl e
           | Inr later \<Rightarrow> Inr (objs @ later)))"

definition indexed :: "(real \<Rightarrow> nat \<Rightarrow> obj) \<Rightarrow> nat \<Rightarrow> real list \<Rightarrow> obj list" where
  "indexed mk idx vs = map (\<lambda>(i, v). mk v i) (zip [idx..<idx + length vs] vs)"

text \<open>
  The angle and the height of a value, where the conversion does not raise; whether the
  guard of the minor tick loop holds at a value; whether a zone is drawn as a band.
\<close>

definition the_angle :: "gauge_config \<Rightarrow> real \<Rightarrow> real" where
  "the_angle config v = (case value_to_angle v config of Inr a \<Rightarrow> a | Inl _ \<Rightarrow> 0)"

definition the_y_pos :: "bar_gauge_config \<Rightarrow> real \<Rightarrow> real" where
  "the_y_pos config v =
     (case value_to_y_position v config (bar_tube_height config) of
        Inr y \<Rightarrow> bar_tube_bottom_y config + y | Inl _ \<Rightarrow> 0)"

definition guard_holds :: "real \<Rightarrow> real \<Rightarrow> real \<Rightarrow> bool" where
  "guard_holds lo major v = (minor_tick_guard v lo major = Inr True)"

definition has_band :: "(real \<times> real) option \<Rightarrow> bool" where
  "has_band zone = (case zone of None \<Rightarrow> False | Some (z0, z1) \<Rightarrow> z0 < z1)"

section \<open>The operator panel (create_reactor_panel.py)\<close>

text \<open>
  The panel lies in the XY plane with its surface at \<open>z = 0\<close>; all sizes are in the
  host's units. \<open>clear_scene\<close> selects and deletes every object. The width and the
  height of the panel are the doubles that the literals \<open>19.20\<close> and \<open>10.80\<close> denote,
  and \<open>anchor_to_panel\<close> multiplies in double precision; the other sizes and the
  placing of the boxes are computed exactly.
\<close>

definition PANEL_WIDTH :: real where "PANEL_WIDTH = fl 19.20"
definition PANEL_HEIGHT :: real where "PANEL_HEIGHT = fl 10.80"
definition PANEL_DEPTH :: real where "PANEL_DEPTH = 0.15"
definition BEZEL_DEPTH :: real where "BEZEL_DEPTH = 0.08"
definition BEZEL_BEVEL :: real where "BEZEL_BEVEL = 0.02"
definition RECESS_DEPTH :: real where "RECESS_DEPTH = 0.06"
definition SECTION_DIVIDER_WIDTH :: real where "SECTION_DIVIDER_WIDTH = 0.03"
definition LABEL_DEPTH :: real where "LABEL_DEPTH = 0.005"

definition BANK_NAMES_SHORT :: "string list" where
  "BANK_NAMES_SHORT = [''SA'', ''SB'', ''SC'', ''SD'', ''D'', ''C'', ''B'', ''A'']"

definition clear_scene :: "obj list \<Rightarrow> obj list" where
  "clear_scene scene = []"

definition create_box ::
  "string \<Rightarrow> real \<Rightarrow> real \<Rightarrow> real \<Rightarrow> real \<Rightarrow> real \<Rightarrow> real
     \<Rightarrow> string option \<Rightarrow> real \<Rightarrow> string option \<Rightarrow> obj" where
  "create_box nm x y z w h d material bevel_width parent =
     (new_object nm (Mesh (CubePrim 1 (w, h, d))))
       \<lparr>obj_location := (x + w / 2, y + h / 2, z + d / 2),
        obj_modifiers := (if bevel_width > 0 then [(''Bevel'', Bevel bevel_width 3 (radians 60))] else []),
        obj_materials := (case material of None \<Rightarrow> [] | Some m \<Rightarrow> [m]),
        obj_parent := parent\<rparr>"

definition create_recessed_area ::
  "string \<Rightarrow> real \<Rightarrow> real \<Rightarrow> real \<Rightarrow> real \<Rightarrow> string option \<Rightarrow> string option \<Rightarrow> obj" where
  "create_recessed_area nm x y w h material parent =
     create_box nm x y (- RECESS_DEPTH) w h RECESS_DEPTH material 0 parent"

definition create_bezel ::
  "string \<Rightarrow> real \<Rightarrow> real \<Rightarrow> real \<Rightarrow> real \<Rightarrow> string option \<Rightarrow> string option \<Rightarrow> obj list" where
  "create_bezel nm x y w h material parent =
     (let frame_w = 0.04;
          bezel_mat = material;
          recess_mat = Some ''Recess_Display''
      in [create_box (nm @ ''_top'') x (y + h - frame_w) 0 w frame_w BEZEL_DEPTH
            bezel_mat BEZEL_BEVEL parent,
          create_box (nm @ ''_bot'') x y 0 w frame_w BEZEL_DEPTH bezel_mat BEZEL_BEVEL parent,
          create_box (nm @ ''_left'') x y 0 frame_w h BEZEL_DEPTH bezel_mat BEZEL_BEVEL parent,
          create_box (nm @ ''_right'') (x + w - frame_w) y 0 frame_w h BEZEL_DEPTH
            bezel_mat BEZEL_BEVEL parent,
          create_recessed_area (nm @ ''_display'') (x + frame_w) (y + frame_w)
            (w - 2 * frame_w) (h - 2 * frame_w) recess_mat parent])"

definition create_gauge_bezel ::
  "string \<Rightarrow> real \<Rightarrow> real \<Rightarrow> real \<Rightarrow> real \<Rightarrow> string option \<Rightarrow> obj list" where
  "create_gauge_bezel nm x y w h parent = create_bezel nm x y w h (Some ''Bezel'') parent"

definition create_section_divider :: "real \<Rightarrow> real \<Rightarrow> real \<Rightarrow> real \<Rightarrow> string option \<Rightarrow> obj" where
  "create_section_divider x y w h parent =
     create_box ''Divider'' x y 0 w h 0.02 (Some ''Divider'') 0.005 parent"

definition create_text_label ::
  "string \<Rightarrow> string \<Rightarrow> real \<Rightarrow> real \<Rightarrow> real \<Rightarrow> real \<Rightarrow> string option \<Rightarrow> obj" where
  "create_text_label nm txt x y z sz parent =
     (new_object nm (FontCurve txt sz LABEL_DEPTH))
       \<lparr>obj_location := (x, y, z),
        obj_materials := [''Label_Engraved''],
        obj_parent := parent\<rparr>"

definition anchor_to_panel :: "real \<Rightarrow> real \<Rightarrow> real \<Rightarrow> real \<Rightarrow> real \<times> real \<times> real \<times> real" where
  "anchor_to_panel ax ay aw ah =
     (let x = fmul ax PANEL_WIDTH;
          y = fmul ay PANEL_HEIGHT;
          w = fmul aw PANEL_WIDTH;
          h = fmul ah PANEL_HEIGHT
      in (x, y, w, h))"


text \<open>\<open>str.replace\<close> of one character by a string.\<close>

definition str_replace :: "char \<Rightarrow> string \<Rightarrow> string \<Rightarrow> string" where
  "str_replace c r s = concat (map (\<lambda>ch. if ch = c then r else [ch]) s)"

text \<open>\<open>f"{idx:02d}"\<close>.\<close>

definition str_02d :: "nat \<Rightarrow> string" where
  "str_02d n = (if n < 10 then CHR ''0'' # str_nat n else str_nat n)"

definition panel_root_name :: string where
  "panel_root_name = ''ReactorOperatorPanel''"

definition main_panel_body :: "obj list" where
  "main_panel_body =
     [(new_object panel_root_name NoData),
      create_box ''MainPanel'' 0 0 (- PANEL_DEPTH) PANEL_WIDTH PANEL_HEIGHT PANEL_DEPTH
        (Some ''Panel_Base'') 0.03 (Some panel_root_name)]"

definition left_gauge_panel :: "obj list" where
  "left_gauge_panel =
     (case anchor_to_panel 0.00 0.26 0.15 0.74 of (lx, ly, lw, lh) \<Rightarrow>
      let gauge_names_left = [''NeutronPower'', ''ThermalPower'', ''StartupRate'', ''Period'',
                              ''Reactivity'', ''Keff'', ''Boron'', ''Xenon'', ''RCSFlow''];
          gauge_padding = 0.08;
          gauge_top_margin = 0.35;
          available_height = lh - gauge_top_margin - gauge_padding;
          gauge_h = (available_height - gauge_padding * 8) / 9;
          gauge_w = lw - gauge_padding * 2
      in create_text_label ''Label_LeftPanel'' ''NUCLEAR INSTRUMENTATION''
           (lx + lw / 2) (ly + lh - 0.1) 0.001 0.12 (Some panel_root_name)
         # concat (map (\<lambda>(i, gname).
             let gx = lx + gauge_padding;
                 gy = ly + lh - gauge_top_margin - (real i + 1) * (gauge_h + gauge_padding)
                      + gauge_padding
             in create_gauge_bezel (''Gauge_L_'' @ gname) gx gy gauge_w gauge_h
                  (Some panel_root_name))
           (enumerate 0 gauge_names_left)))"

definition core_map_panel :: "obj list" where
  "core_map_panel =
     (case anchor_to_panel 0.15 0.26 0.50 0.74 of (cx, cy, cw, ch) \<Rightarrow>
      let btn_row_y = cy + ch * 0.90;
          btn_row_h = ch * 0.08;
          btn_w = (cw * 0.90) / 4;
          btn_start_x = cx + cw * 0.05;
          mode_labels = [''POWER'', ''FUEL TEMP'', ''COOLANT'', ''ROD BANKS''];
          map_x = cx + cw * 0.05;
          map_y = cy + ch * 0.12;
          map_w = cw * 0.90;
          map_h = ch * 0.76;
          filt_row_y = cy + ch * 0.02;
          filt_row_h = ch * 0.08;
          filt_btn_w = (cw * 0.90) / 9;
          filt_start_x = cx + cw * 0.05;
          bank_labels = [''ALL'', ''SA'', ''SB'', ''SC'', ''SD'', ''D'', ''C'', ''B'', ''A'']
      in create_text_label ''Label_CoreMap'' ''REACTOR CORE''
           (cx + cw / 2) (cy + ch - 0.1) 0.001 0.18 (Some panel_root_name)
         # concat (map (\<lambda>(i, label).
             let bx = btn_start_x + real i * btn_w + 0.04 * real i
             in create_bezel (''ModeBtn_'' @ str_replace (CHR '' '') [] label)
                  bx btn_row_y (btn_w - 0.02) btn_row_h (Some ''Bezel'') (Some panel_root_name))
           (enumerate 0 mode_labels))
         @ create_bezel ''CoreMapFrame'' map_x map_y map_w map_h (Some ''Bezel'')
             (Some panel_root_name)
         @ concat (map (\<lambda>(i, label).
             let bx = filt_start_x + real i * filt_btn_w + 0.02 * real i
             in create_bezel (''BankBtn_'' @ label)
                  bx filt_row_y (filt_btn_w - 0.01) filt_row_h (Some ''Bezel'') (Some panel_root_name))
           (enumerate 0 bank_labels)))"

definition right_gauge_panel :: "obj list" where
  "right_gauge_panel =
     (case anchor_to_panel 0.65 0.26 0.15 0.74 of (rx, ry, rw, rh) \<Rightarrow>
      let gauge_names_right = [''Tavg'', ''Thot'', ''Tcold'', ''DeltaT'',
                               ''FuelCenterline'', ''HotChannel'', ''Pressure'', ''PZRLevel''];
          gauge_padding = 0.08;
          gauge_top_margin = 0.35;
          available_height_r = rh - gauge_top_margin - gauge_padding;
          gauge_h_r = (available_height_r - gauge_padding * 7) / 8;
          gauge_w_r = rw - gauge_padding * 2
      in create_text_label ''Label_RightPanel'' ''THERMAL-HYDRAULIC''
           (rx + rw / 2) (ry + rh - 0.1) 0.001 0.12 (Some panel_root_name)
         # concat (map (\<lambda>(i, gname).
             let gx = rx + gauge_padding;
                 gy = ry + rh - gauge_top_margin - (real i + 1) * (gauge_h_r + gauge_padding)
                      + gauge_padding
             in create_gauge_bezel (''Gauge_R_'' @ gname) gx gy gauge_w_r gauge_h_r
                  (Some panel_root_name))
           (enumerate 0 gauge_names_right)))"

definition detail_panel :: "obj list" where
  "detail_panel =
     (case anchor_to_panel 0.80 0.26 0.20 0.74 of (dx, dy, dw, dh) \<Rightarrow>
        [create_text_label ''Label_Detail'' ''ASSEMBLY DETAIL''
           (dx + dw / 2) (dy + dh - 0.1) 0.001 0.12 (Some panel_root_name),
         create_recessed_area ''DetailDisplay'' (dx + 0.06) (dy + 0.06) (dw - 0.12) (dh - 0.45)
           (Some ''Recess_Display'') (Some panel_root_name)])"

definition ann_labels :: "string list" where
  "ann_labels =
     [''REACTOR'' @ [CHR 0x0A] @ ''TRIPPED'', ''NEUTRON'' @ [CHR 0x0A] @ ''POWER HI'',
      ''STARTUP'' @ [CHR 0x0A] @ ''RATE HI'', ''ROD BOTTOM'' @ [CHR 0x0A] @ ''ALARM'',
      ''PRESS'' @ [CHR 0x0A] @ ''LOW'', ''PRESS'' @ [CHR 0x0A] @ ''HIGH'',
      ''T-AVG'' @ [CHR 0x0A] @ ''LOW'', ''T-AVG'' @ [CHR 0x0A] @ ''HIGH'',
      ''SUBCOOL'' @ [CHR 0x0A] @ ''LOW'', ''PZR LVL'' @ [CHR 0x0A] @ ''LOW'',
      ''PZR LVL'' @ [CHR 0x0A] @ ''HIGH'', ''OVERPOWER'' @ [CHR 0x0A] @ ''DT'',
      ''REACTOR'' @ [CHR 0x0A] @ ''CRITICAL'', ''AUTO ROD'' @ [CHR 0x0A] @ ''CONTROL'',
      ''PZR HTRS'' @ [CHR 0x0A] @ ''ON'', ''LOW'' @ [CHR 0x0A] @ ''FLOW'']"

definition bottom_panel :: "obj list" where
  "bottom_panel =
     (case anchor_to_panel 0.0 0.0 1.0 0.26 of (bx_base, by_base, bw_base, bh_base) \<Rightarrow>
      let parent = Some panel_root_name;
          rc_x = bx_base + bw_base * 0.01;
          rc_y = by_base + bh_base * 0.55;
          rc_w = bw_base * 0.14;
          rc_h = bh_base * 0.40;
          bp_x = bx_base + bw_base * 0.16;
          bp_y = by_base + bh_base * 0.55;
          bp_w = bw_base * 0.29;
          bp_h = bh_base * 0.40;
          bar_w = (bp_w - 0.20) / 8;
          bc_x = bx_base + bw_base * 0.46;
          bc_y = by_base + bh_base * 0.55;
          bc_w = bw_base * 0.14;
          bc_h = bh_base * 0.40;
          tc_x = bx_base + bw_base * 0.61;
          tc_y = by_base + bh_base * 0.55;
          tc_w = bw_base * 0.14;
          tc_h = bh_base * 0.40;
          trip_btn_x = tc_x + tc_w * 0.15;
          trip_btn_y = tc_y + tc_h * 0.25;
          trip_btn_size = min (tc_w * 0.40) (tc_h * 0.50);
          tm_x = bx_base + bw_base * 0.76;
          tm_y = by_base + bh_base * 0.55;
          tm_w = bw_base * 0.23;
          tm_h = bh_base * 0.40;
          al_x = bx_base + bw_base * 0.01;
          al_y = by_base + bh_base * 0.05;
          al_w = bw_base * 0.98;
          al_h = bh_base * 0.45;
          ann_frame_w = 0.04;
          ann_inner_x = al_x + ann_frame_w + 0.06;
          ann_inner_y = al_y + ann_frame_w + 0.04;
          ann_inner_w = al_w - 2 * ann_frame_w - 0.12;
          ann_inner_h = al_h - 2 * ann_frame_w - 0.08;
          ann_cols = 8;
          ann_rows = 2;
          ann_gap = 0.03;
          ann_tile_w = (ann_inner_w - (real ann_cols - 1) * ann_gap) / real ann_cols;
          ann_tile_h = (ann_inner_h - (real ann_rows - 1) * ann_gap) / real ann_rows
      in [create_section_divider 0 bh_base PANEL_WIDTH SECTION_DIVIDER_WIDTH parent]
         @ create_bezel ''RodControlFrame'' rc_x rc_y rc_w rc_h (Some ''Bezel'') parent
         @ [create_text_label ''Label_RodControl'' ''ROD CONTROL''
              (rc_x + rc_w / 2) (rc_y + rc_h + 0.04) 0.001 0.10 parent]
         @ create_bezel ''BankPositionsFrame'' bp_x bp_y bp_w bp_h (Some ''Bezel'') parent
         @ [create_text_label ''Label_BankPos'' ''BANK POSITIONS''
              (bp_x + bp_w / 2) (bp_y + bp_h + 0.04) 0.001 0.10 parent]
         @ map (\<lambda>i.
             let bar_x = bp_x + 0.10 + real i * (bar_w + 0.005)
             in create_recessed_area (''BankBar_'' @ BANK_NAMES_SHORT ! i)
                  bar_x (bp_y + 0.10) bar_w (bp_h - 0.20) (Some ''Recess_Display'') parent)
           [0..<8]
         @ create_bezel ''BoronControlFrame'' bc_x bc_y bc_w bc_h (Some ''Bezel'') parent
         @ [create_text_label ''Label_Boron'' ''BORON CONTROL''
              (bc_x + bc_w / 2) (bc_y + bc_h + 0.04) 0.001 0.10 parent,
            create_recessed_area ''BoronReadout'' (bc_x + 0.08) (bc_y + 0.06) (bc_w - 0.16)
              (bc_h * 0.30) (Some ''Recess_Display'') parent]
         @ create_bezel ''TripControlFrame'' tc_x tc_y tc_w tc_h (Some ''Bezel'') parent
         @ [create_text_label ''Label_Trip'' ''TRIP CONTROL''
              (tc_x + tc_w / 2) (tc_y + tc_h + 0.04) 0.001 0.10 parent,
            create_box ''TripBtnRing'' trip_btn_x trip_btn_y 0 trip_btn_size trip_btn_size
              (BEZEL_DEPTH * 0.8) (Some ''Accent_Red'') 0.015 parent]
         @ create_bezel ''TimeControlFrame'' tm_x tm_y tm_w tm_h (Some ''Bezel'') parent
         @ [create_text_label ''Label_Time'' ''TIME CONTROL''
              (tm_x + tm_w / 2) (tm_y + tm_h + 0.04) 0.001 0.10 parent,
            create_recessed_area ''SimTimeReadout'' (tm_x + 0.06) (tm_y + tm_h * 0.50)
              (tm_w * 0.45) (tm_h * 0.30) (Some ''Recess_Display'') parent,
            create_recessed_area ''TimeCompReadout'' (tm_x + tm_w * 0.55) (tm_y + tm_h * 0.50)
              (tm_w * 0.35) (tm_h * 0.30) (Some ''Recess_Display'') parent]
         @ create_bezel ''AnnunciatorFrame'' al_x al_y al_w al_h (Some ''Bezel'') parent
         @ [create_text_label ''Label_Annunciator'' ''ANNUNCIATOR PANEL''
              (al_x + al_w / 2) (al_y + al_h + 0.04) 0.001 0.10 parent]
         @ concat (map (\<lambda>row. concat (map (\<lambda>col.
             let idx = row * ann_cols + col;
                 tile_x = ann_inner_x + real col * (ann_tile_w + ann_gap);
                 tile_y = ann_inner_y + (real ann_rows - 1 - real row) * (ann_tile_h + ann_gap);
                 label_text = str_replace (CHR 0x0A) '' '' (ann_labels ! idx)
             in [create_recessed_area (''AnnTile_'' @ str_02d idx) tile_x tile_y
                   ann_tile_w ann_tile_h (Some ''Recess_Display'') parent,
                 create_text_label (''AnnLabel_'' @ str_02d idx) label_text
                   (tile_x + ann_tile_w / 2) (tile_y + ann_tile_h / 2)
                   (- RECESS_DEPTH + 0.002) 0.06 parent])
             [0..<ann_cols])) [0..<ann_rows]))"

definition section_dividers :: "obj list" where
  "section_dividers =
     (let parent = Some panel_root_name;
          fst4 = (\<lambda>(x, y, w, h). x); snd4 = (\<lambda>(x, y, w, h). y); frth4 = (\<lambda>(x, y, w, h). h);
          div_x = fst4 (anchor_to_panel 0.15 0.26 0 0.74);
          div_x2 = fst4 (anchor_to_panel 0.65 0.26 0 0.74);
          div_x3 = fst4 (anchor_to_panel 0.80 0.26 0 0.74)
      in [create_section_divider (div_x - SECTION_DIVIDER_WIDTH / 2)
            (snd4 (anchor_to_panel 0 0.26 0 0)) SECTION_DIVIDER_WIDTH
            (frth4 (anchor_to_panel 0 0 0 0.74)) parent,
          create_section_divider (div_x2 - SECTION_DIVIDER_WIDTH / 2)
            (snd4 (anchor_to_panel 0 0.26 0 0)) SECTION_DIVIDER_WIDTH
            (frth4 (anchor_to_panel 0 0 0 0.74)) parent,
          create_section_divider (div_x3 - SECTION_DIVIDER_WIDTH / 2)
            (snd4 (anchor_to_panel 0 0.26 0 0)) SECTION_DIVIDER_WIDTH
            (frth4 (anchor_to_panel 0 0 0 0.74)) parent])"


text \<open>
  The host keeps the names of its objects unique: an object asked to take a name that
  is in use gets that name followed by \<open>.001\<close>, \<open>.002\<close>, and so on, the first that is
  free. \<open>name_objects\<close> adds objects to a scene, in the order they are created, under
  the names the host gives them.
\<close>

definition numbered_name :: "string \<Rightarrow> nat \<Rightarrow> string" where
  "numbered_name nm k = nm @ ''.'' @ replicate (3 - length (str_nat k)) (CHR ''0'') @ str_nat k"

definition unique_name :: "string list \<Rightarrow> string \<Rightarrow> string" where
  "unique_name taken nm =
     (if nm \<in> set taken then
        (case find (\<lambda>c. c \<notin> set taken) (map (numbered_name nm) [1..<length taken + 2]) of
           Some c \<Rightarrow> c
         | None \<Rightarrow> nm)
      else nm)"

fun name_objects :: "obj list \<Rightarrow> obj list \<Rightarrow> obj list" where
  "name_objects scene [] = scene"
| "name_objects scene (ob # obs) =
     name_objects (scene @ [ob\<lparr>obj_name := unique_name (map obj_name scene) (obj_name ob)\<rparr>]) obs"

text \<open>
  The last part of \<open>build_panel\<close> applies the modifiers:
  \<^verbatim>\<open>
    for obj in bpy.data.objects:
        if obj.type == 'MESH' and obj.modifiers:
            bpy.context.view_layer.objects.active = obj
            for mod in obj.modifiers:
                try:
                    bpy.ops.object.modifier_apply(modifier=mod.name)
                except:
                    pass
  \<close>
  Two things here are the host's. \<open>modifier_apply\<close> works on the active object: given
  the object and the name of the modifier it returns the object with the modifier
  applied, or raises. \<open>objects_order\<close> is the order in which \<open>bpy.data.objects\<close> yields
  the objects of the scene, as positions in the order of creation; a position outside
  the scene is passed over. The inner loop walks the modifiers the object has when the
  outer loop reaches it.
\<close>

record host =
  modifier_apply :: "obj \<Rightarrow> string \<Rightarrow> py_error + obj"
  objects_order :: "obj list \<Rightarrow> nat list"

definition is_mesh :: "obj \<Rightarrow> bool" where
  "is_mesh ob = (case obj_data ob of Mesh _ \<Rightarrow> True | JoinedMesh _ \<Rightarrow> True | _ \<Rightarrow> False)"

definition try_modifier_apply :: "host \<Rightarrow> obj \<Rightarrow> string \<Rightarrow> py_error + obj" where
  "try_modifier_apply host ob mod_name =
     (case modifier_apply host ob mod_name of
        Inl e \<Rightarrow> Inr ob
      | Inr ob' \<Rightarrow> Inr ob')"

fun apply_object_modifiers :: "host \<Rightarrow> obj \<Rightarrow> (string \<times> modifier) list \<Rightarrow> py_error + obj" where
  "apply_object_modifiers host ob [] = Inr ob"
| "apply_object_modifiers host ob (m # ms) =
     (case try_modifier_apply host ob (fst m) of
        Inl e \<Rightarrow> Inl e
      | Inr ob' \<Rightarrow> apply_object_modifiers host ob' ms)"

fun apply_all_modifiers :: "host \<Rightarrow> nat list \<Rightarrow> obj list \<Rightarrow> py_error + obj list" where
  "apply_all_modifiers host [] scene = Inr scene"
| "apply_all_modifiers host (i # is) scene =
     (if i < length scene \<and> is_mesh (scene ! i) \<and> obj_modifiers (scene ! i) \<noteq> [] then
        (case apply_object_modifiers host (scene ! i) (obj_modifiers (scene ! i)) of
           Inl e \<Rightarrow> Inl e
         | Inr ob' \<Rightarrow> apply_all_modifiers host is (scene[i := ob']))
      else apply_all_modifiers host is scene)"

definition panel_lights :: "obj list" where
  "panel_lights =
     [(new_object ''KeyLight'' (LightData AreaLight 500))
        \<lparr>obj_location := (PANEL_WIDTH / 2, PANEL_HEIGHT / 2, 5.0),
         obj_parent := Some panel_root_name\<rparr>,
      (new_object ''FillLight'' (LightData AreaLight 150))
        \<lparr>obj_location := (PANEL_WIDTH / 2, - 2.0, 3.0),
         obj_parent := Some panel_root_name\<rparr>,
      (new_object ''RimLight'' (LightData AreaLight 200))
        \<lparr>obj_location := (PANEL_WIDTH / 2, PANEL_HEIGHT + 2.0, 4.0),
         obj_parent := Some panel_root_name\<rparr>]"

text \<open>
  \<open>build_panel\<close>: the scene it leaves. The host's scene is the argument: the script
  runs in whatever scene is open.
\<close>

definition panel_objects :: "obj list" where
  "panel_objects = main_panel_body @ left_gauge_panel @ core_map_panel
                   @ right_gauge_panel @ detail_panel @ bottom_panel @ section_dividers"

definition build_panel :: "host \<Rightarrow> obj list \<Rightarrow> py_error + obj list" where
  "build_panel host scene =
     (let scene = clear_scene scene;
          scene = name_objects scene panel_objects
      in case apply_all_modifiers host (objects_order host scene) scene of
           Inl e \<Rightarrow> Inl e
         | Inr scene \<Rightarrow> Inr (name_objects scene panel_lights))"

text \<open>
  What the modifier loops are to leave of one object: each of its modifiers tried in
  turn, a failure leaving the object as it was.
\<close>

definition after_modifiers :: "(obj \<Rightarrow> string \<Rightarrow> py_error + obj) \<Rightarrow> obj \<Rightarrow> obj" where
  "after_modifiers apply ob =
     (if is_mesh ob then
        fold (\<lambda>m ob. case apply ob (fst m) of Inl e \<Rightarrow> ob | Inr ob' \<Rightarrow> ob') (obj_modifiers ob) ob
      else ob)"

text \<open>
  Views: the extent of a box along each axis, as (low, high). The host resizes the cube
  of edge \<open>s\<close> about its centre by \<open>(w, h, d)\<close>; a negative factor mirrors it, so the
  extent along an axis is the absolute value of the product.
\<close>

definition x_faces :: "obj \<Rightarrow> real \<times> real" where
  "x_faces ob = (case (obj_location ob, obj_data ob) of
     ((cx, cy, cz), Mesh (CubePrim s (w, h, d))) \<Rightarrow> (cx - \<bar>s * w\<bar> / 2, cx + \<bar>s * w\<bar> / 2)
   | _ \<Rightarrow> (0, 0))"

definition y_faces :: "obj \<Rightarrow> real \<times> real" where
  "y_faces ob = (case (obj_location ob, obj_data ob) of
     ((cx, cy, cz), Mesh (CubePrim s (w, h, d))) \<Rightarrow> (cy - \<bar>s * h\<bar> / 2, cy + \<bar>s * h\<bar> / 2)
   | _ \<Rightarrow> (0, 0))"

definition z_faces :: "obj \<Rightarrow> real \<times> real" where
  "z_faces ob = (case (obj_location ob, obj_data ob) of
     ((cx, cy, cz), Mesh (CubePrim s (w, h, d))) \<Rightarrow> (cz - \<bar>s * d\<bar> / 2, cz + \<bar>s * d\<bar> / 2)
   | _ \<Rightarrow> (0, 0))"

section \<open>The render script (render_panel_textures.py)\<close>

text \<open>
  What \<open>find_output_dir\<close> asks of the operating system is a parameter: whether a path
  is a directory, whether \<open>os.makedirs\<close> succeeds there (an exception is swallowed by
  the script), \<open>os.path.dirname\<close>, \<open>os.path.join\<close>, the home directory and the
  path of the open file (empty when it was never saved). The function returns its
  result together with the global \<open>OUTPUT_DIR\<close> it leaves. The render itself is the
  host's: \<open>render_ok\<close> tells whether it succeeds for an output path.
\<close>

record os_env =
  os_isdir :: "string \<Rightarrow> bool"
  os_makedirs :: "string \<Rightarrow> bool"
  os_dirname :: "string \<Rightarrow> string"
  os_join :: "string list \<Rightarrow> string"
  os_home :: string
  data_filepath :: string

definition raw_windows_path :: "string list \<Rightarrow> string" where
  "raw_windows_path parts = foldr (\<lambda>p acc. if acc = [] then p else p @ CHR 0x5C # acc) parts []"

definition candidates :: "os_env \<Rightarrow> string list" where
  "candidates env =
     (let candidates =
            [raw_windows_path [''C:'', ''Users'', ''craig'', ''Projects'', ''Critical'', ''Assets'',
                               ''Resources'', ''ReactorOperatorPanel''],
             raw_windows_path [''C:'', ''Users'', ''craig'', ''Projects'', ''Critical'', ''Assets'',
                               ''Textures'', ''ReactorOperatorPanel''],
             os_join env [os_home env, ''Projects'', ''Critical'', ''Assets'', ''Resources'',
                          ''ReactorOperatorPanel''],
             os_join env [os_home env, ''Projects'', ''Critical'', ''Assets'', ''Textures'',
                          ''ReactorOperatorPanel'']];
          blend_path = data_filepath env
      in if blend_path \<noteq> [] then
           (let project_root = os_dirname env (os_dirname env (os_dirname env blend_path))
            in os_join env [project_root, ''Textures'', ''ReactorOperatorPanel''] # candidates)
         else candidates)"

fun try_candidates :: "os_env \<Rightarrow> string list \<Rightarrow> string option" where
  "try_candidates env [] = None"
| "try_candidates env (path # rest) =
     (if os_isdir env path then Some path
      else if os_isdir env (os_dirname env path) then
        (if os_makedirs env path then Some path else try_candidates env rest)
      else try_candidates env rest)"

definition find_output_dir :: "os_env \<Rightarrow> bool \<times> string option" where
  "find_output_dir env =
     (case try_candidates env (candidates env) of
        Some path \<Rightarrow> (True, Some path)
      | None \<Rightarrow>
          if data_filepath env \<noteq> [] then (True, Some (os_dirname env (data_filepath env)))
          else (True, Some (os_join env [os_home env, ''Desktop''])))"

definition is_camera :: "obj \<Rightarrow> bool" where
  "is_camera ob = (obj_data ob = CameraData)"

definition setup_camera :: "obj list \<Rightarrow> obj list" where
  "setup_camera scene =
     filter (\<lambda>ob. \<not> is_camera ob) scene
     @ [(new_object ''RenderCamera'' CameraData)
          \<lparr>obj_location := (PANEL_WIDTH / 2, PANEL_HEIGHT / 2, 8.0)\<rparr>]"

definition render_panel ::
  "os_env \<Rightarrow> (string \<Rightarrow> bool) \<Rightarrow> obj list \<Rightarrow> py_error + bool \<times> obj list" where
  "render_panel env render_ok scene =
     (case find (\<lambda>ob. obj_name ob = ''ReactorOperatorPanel'') scene of
        None \<Rightarrow> Inr (False, scene)
      | Some panel_root \<Rightarrow>
          (case find_output_dir env of
             (False, _) \<Rightarrow> Inr (False, scene)
           | (True, OUTPUT_DIR) \<Rightarrow>
               (let scene = setup_camera scene
                in case OUTPUT_DIR of
                     None \<Rightarrow> Inl TypeError
                   | Some d \<Rightarrow>
                       (let output_path = os_join env [d, ''panel_base_color.png'']
                        in if render_ok output_path then Inr (True, scene)
                           else Inl RuntimeError))))"

section \<open>The primary loop (RCS_Primary_Loop_Blender.py)\<close>

text \<open>The constants of \<open>Config\<close> and the primitives the script adds.\<close>

definition SCALE :: real where "SCALE = 1.0"
definition DETAIL_LEVEL :: nat where "DETAIL_LEVEL = 32"
definition RV_RADIUS :: real where "RV_RADIUS = 7.2"
definition RV_HEIGHT :: real where "RV_HEIGHT = 40.0"
definition HOT_LEG_RADIUS :: real where "HOT_LEG_RADIUS = 1.21"
definition COLD_LEG_RADIUS :: real where "COLD_LEG_RADIUS = 1.15"
definition CROSSOVER_RADIUS :: real where "CROSSOVER_RADIUS = 1.29"
definition SG_LOWER_RADIUS :: real where "SG_LOWER_RADIUS = 5.6"
definition SG_UPPER_RADIUS :: real where "SG_UPPER_RADIUS = 7.3"
definition SG_HEIGHT :: real where "SG_HEIGHT = 67.75"
definition SG_TRANSITION_HEIGHT :: real where "SG_TRANSITION_HEIGHT = 25.0"
definition RCP_BODY_RADIUS :: real where "RCP_BODY_RADIUS = 4.0"
definition RCP_BODY_HEIGHT :: real where "RCP_BODY_HEIGHT = 8.0"
definition RCP_MOTOR_RADIUS :: real where "RCP_MOTOR_RADIUS = 3.0"
definition RCP_MOTOR_HEIGHT :: real where "RCP_MOTOR_HEIGHT = 20.0"
definition PZR_RADIUS :: real where "PZR_RADIUS = 3.5"
definition PZR_HEIGHT :: real where "PZR_HEIGHT = 53.0"
definition SURGE_LINE_RADIUS :: real where "SURGE_LINE_RADIUS = 0.58"
definition LOOP_RADIUS :: real where "LOOP_RADIUS = 35.0"
definition RV_NOZZLE_HEIGHT :: real where "RV_NOZZLE_HEIGHT = 10.0"
definition SG_INLET_HEIGHT :: real where "SG_INLET_HEIGHT = 12.0"
definition RCP_HEIGHT :: real where "RCP_HEIGHT = 8.0"
definition PZR_ELEVATION :: real where "PZR_ELEVATION = 15.0"
definition ARROW_LENGTH :: real where "ARROW_LENGTH = 3.0"
definition ARROW_RADIUS :: real where "ARROW_RADIUS = 0.3"

definition scaled :: "vec3 \<Rightarrow> vec3" where
  "scaled p = (case p of (x, y, z) \<Rightarrow> (x * SCALE, y * SCALE, z * SCALE))"

definition create_cylinder :: "string \<Rightarrow> real \<Rightarrow> real \<Rightarrow> nat \<Rightarrow> vec3 \<Rightarrow> obj" where
  "create_cylinder nm r h segments location =
     (new_object nm (Mesh (CylinderPrim (r * SCALE) (h * SCALE) segments)))
       \<lparr>obj_location := scaled location\<rparr>"

definition create_sphere :: "string \<Rightarrow> real \<Rightarrow> nat \<Rightarrow> vec3 \<Rightarrow> obj" where
  "create_sphere nm r segments location =
     (new_object nm (Mesh (SpherePrim (r * SCALE) segments (segments div 2))))
       \<lparr>obj_location := scaled location\<rparr>"

definition create_torus :: "string \<Rightarrow> real \<Rightarrow> real \<Rightarrow> vec3 \<Rightarrow> real \<times> real \<times> real \<Rightarrow> obj" where
  "create_torus nm major_radius minor_radius location rot =
     (new_object nm (Mesh (TorusPrim (major_radius * SCALE) (minor_radius * SCALE) 48 DETAIL_LEVEL)))
       \<lparr>obj_location := scaled location,
        obj_rotation := (case rot of (rx, ry, rz) \<Rightarrow> Euler rx ry rz)\<rparr>"

definition create_cone :: "string \<Rightarrow> real \<Rightarrow> real \<Rightarrow> real \<Rightarrow> vec3 \<Rightarrow> obj" where
  "create_cone nm radius1 radius2 h location =
     (new_object nm (Mesh (ConePrim (radius1 * SCALE) (radius2 * SCALE) (h * SCALE) DETAIL_LEVEL)))
       \<lparr>obj_location := scaled location\<rparr>"

text \<open>
  \<open>bpy.ops.object.join()\<close> merges the selected objects into the active one: the result
  keeps the active object's transform, and its mesh holds the parts where they stood.
\<close>

definition as_part :: "obj \<Rightarrow> part list" where
  "as_part ob =
     (case obj_data ob of
        Mesh s \<Rightarrow> [\<lparr>part_name = obj_name ob, part_shape = s, part_location = obj_location ob,
                    part_rotation = obj_rotation ob, part_scale = obj_scale ob\<rparr>]
      | JoinedMesh ps \<Rightarrow> ps
      | _ \<Rightarrow> [])"

definition join :: "obj \<Rightarrow> obj list \<Rightarrow> obj" where
  "join active selected = active\<lparr>obj_data := JoinedMesh (concat (map as_part selected))\<rparr>"

definition create_arrow :: "string \<Rightarrow> real \<Rightarrow> real \<Rightarrow> vec3 \<Rightarrow> real \<times> real \<times> real \<Rightarrow> obj" where
  "create_arrow nm len r location rot =
     (let shaft = new_object (nm @ ''_shaft'')
                    (Mesh (CylinderPrim (r * SCALE * 0.5) (len * SCALE * 0.7) 12));
          head = (new_object (nm @ ''_head'')
                    (Mesh (ConePrim (r * SCALE) 0 (len * SCALE * 0.3) 12)))
                   \<lparr>obj_location := (0, 0, len * SCALE * 0.5)\<rparr>;
          arrow = join shaft [shaft, head]
      in arrow\<lparr>obj_name := nm,
               obj_rotation := (case rot of (rx, ry, rz) \<Rightarrow> Euler rx ry rz),
               obj_location := scaled location\<rparr>)"

definition create_empty :: "string \<Rightarrow> vec3 \<Rightarrow> obj" where
  "create_empty nm location = (new_object nm NoData)\<lparr>obj_location := scaled location\<rparr>"

text \<open>\<open>obj.scale[2] = 0.5\<close> followed by \<open>transform_apply(scale=True)\<close>.\<close>

definition flatten_z :: "obj \<Rightarrow> obj" where
  "flatten_z ob = ob\<lparr>obj_scale := (case obj_scale ob of (sx, sy, _) \<Rightarrow> (sx, sy, 0.5))\<rparr>"

text \<open>The angle of loop \<open>i\<close> (counted from 0): \<open>math.radians(45 + i * 90)\<close>.\<close>

definition loop_angle :: "nat \<Rightarrow> real" where
  "loop_angle i = radians (45 + real i * 90)"

definition rv_nozzles :: "nat \<Rightarrow> obj list" where
  "rv_nozzles i =
     (let angle = loop_angle i;
          outlet_x = cos angle * RV_RADIUS;
          outlet_y = sin angle * RV_RADIUS;
          nozzle_out = (create_cylinder (''RV_Outlet_Nozzle_'' @ str_nat (i + 1)) HOT_LEG_RADIUS 3.0 16
                          (outlet_x + cos angle * 1.5, outlet_y + sin angle * 1.5,
                           RV_NOZZLE_HEIGHT + 2))
                         \<lparr>obj_rotation := Euler 0 (pi / 2) angle\<rparr>;
          inlet_angle = angle + radians 45;
          inlet_x = cos inlet_angle * RV_RADIUS;
          inlet_y = sin inlet_angle * RV_RADIUS;
          nozzle_in = (create_cylinder (''RV_Inlet_Nozzle_'' @ str_nat (i + 1)) COLD_LEG_RADIUS 3.0 16
                         (inlet_x + cos inlet_angle * 1.5, inlet_y + sin inlet_angle * 1.5,
                          RV_NOZZLE_HEIGHT))
                        \<lparr>obj_rotation := Euler 0 (pi / 2) inlet_angle\<rparr>
      in [nozzle_out, nozzle_in])"

definition create_reactor_vessel :: obj where
  "create_reactor_vessel =
     (let body = create_cylinder ''RV_Body'' RV_RADIUS (RV_HEIGHT - RV_RADIUS * 2) DETAIL_LEVEL
                   (0, 0, RV_HEIGHT / 2);
          bottom_head = flatten_z (create_sphere ''RV_BottomHead'' RV_RADIUS DETAIL_LEVEL
                                     (0, 0, RV_RADIUS));
          top_head = flatten_z (create_sphere ''RV_TopHead'' RV_RADIUS DETAIL_LEVEL
                                  (0, 0, RV_HEIGHT - RV_RADIUS * 0.5));
          parts = [body, bottom_head, top_head] @ concat (map rv_nozzles [0..<4]);
          rv = join body parts
      in rv\<lparr>obj_name := ''ReactorVessel'', obj_materials := [''MAT_ReactorVessel'']\<rparr>)"

definition create_steam_generator :: "nat \<Rightarrow> real \<Rightarrow> obj" where
  "create_steam_generator loop_number angle =
     (let x = cos angle * LOOP_RADIUS;
          y = sin angle * LOOP_RADIUS;
          base_z = 0;
          sg_name = ''SG'' @ str_nat loop_number;
          lower_shell = create_cylinder (sg_name @ ''_LowerShell'') SG_LOWER_RADIUS
                          SG_TRANSITION_HEIGHT DETAIL_LEVEL
                          (x, y, base_z + SG_TRANSITION_HEIGHT / 2);
          transition = create_cone (sg_name @ ''_Transition'') SG_LOWER_RADIUS SG_UPPER_RADIUS 8.0
                         (x, y, base_z + SG_TRANSITION_HEIGHT + 4);
          upper_height = SG_HEIGHT - SG_TRANSITION_HEIGHT - 8.0 - SG_UPPER_RADIUS;
          upper_shell = create_cylinder (sg_name @ ''_UpperShell'') SG_UPPER_RADIUS upper_height
                          DETAIL_LEVEL (x, y, base_z + SG_TRANSITION_HEIGHT + 8 + upper_height / 2);
          top_dome = flatten_z (create_sphere (sg_name @ ''_TopDome'') SG_UPPER_RADIUS DETAIL_LEVEL
                                  (x, y, base_z + SG_HEIGHT - SG_UPPER_RADIUS * 0.5));
          bottom_head = flatten_z (create_sphere (sg_name @ ''_BottomHead'') SG_LOWER_RADIUS
                                     DETAIL_LEVEL (x, y, base_z + SG_LOWER_RADIUS * 0.5));
          parts = [lower_shell, transition, upper_shell, top_dome, bottom_head];
          sg = join lower_shell parts
      in sg\<lparr>obj_name := ''SteamGenerator_'' @ str_nat loop_number,
            obj_materials := [''MAT_SteamGenerator'']\<rparr>)"

definition create_rcp :: "nat \<Rightarrow> real \<Rightarrow> obj" where
  "create_rcp loop_number angle =
     (let rcp_radius = LOOP_RADIUS * 0.6;
          rcp_angle = angle + radians 25;
          x = cos rcp_angle * rcp_radius;
          y = sin rcp_angle * rcp_radius;
          base_z = RCP_HEIGHT;
          rcp_name = ''RCP'' @ str_nat loop_number;
          casing = create_cylinder (rcp_name @ ''_Casing'') RCP_BODY_RADIUS RCP_BODY_HEIGHT
                     DETAIL_LEVEL (x, y, base_z + RCP_BODY_HEIGHT / 2);
          motor = create_cylinder (rcp_name @ ''_Motor'') RCP_MOTOR_RADIUS RCP_MOTOR_HEIGHT
                    DETAIL_LEVEL (x, y, base_z + RCP_BODY_HEIGHT + RCP_MOTOR_HEIGHT / 2);
          flywheel = create_cylinder (rcp_name @ ''_Flywheel'') (RCP_MOTOR_RADIUS * 1.3) 1.5
                       DETAIL_LEVEL (x, y, base_z + RCP_BODY_HEIGHT + RCP_MOTOR_HEIGHT + 0.75);
          parts = [casing, motor, flywheel];
          rcp = join casing parts
      in rcp\<lparr>obj_name := ''RCP_'' @ str_nat loop_number,
             obj_materials := [''MAT_RCP''],
             obj_props := [(''position_x'', x), (''position_y'', y), (''position_z'', base_z)]\<rparr>)"

definition create_pressurizer :: obj where
  "create_pressurizer =
     (let pzr_angle = radians (135 + 30);
          pzr_radius = LOOP_RADIUS * 0.5;
          x = cos pzr_angle * pzr_radius;
          y = sin pzr_angle * pzr_radius;
          base_z = PZR_ELEVATION;
          body = create_cylinder ''PZR_Body'' PZR_RADIUS (PZR_HEIGHT - PZR_RADIUS * 2) DETAIL_LEVEL
                   (x, y, base_z + PZR_HEIGHT / 2);
          bottom_head = flatten_z (create_sphere ''PZR_BottomHead'' PZR_RADIUS DETAIL_LEVEL
                                     (x, y, base_z + PZR_RADIUS));
          top_head = flatten_z (create_sphere ''PZR_TopHead'' PZR_RADIUS DETAIL_LEVEL
                                  (x, y, base_z + PZR_HEIGHT - PZR_RADIUS * 0.5));
          parts = [body, bottom_head, top_head];
          pzr = join body parts
      in pzr\<lparr>obj_name := ''Pressurizer'',
             obj_materials := [''MAT_Pressurizer''],
             obj_props := [(''position_x'', x), (''position_y'', y), (''position_z'', base_z)]\<rparr>)"

text \<open>\<open>Vector.normalized()\<close>; the host leaves a vector of length zero as it is.\<close>

definition normalized :: "vec3 \<Rightarrow> vec3" where
  "normalized v =
     (case v of (x, y, z) \<Rightarrow>
        let len = sqrt (x * x + y * y + z * z)
        in if len = 0 then v else (x / len, y / len, z / len))"

definition create_hot_leg :: "nat \<Rightarrow> real \<Rightarrow> obj" where
  "create_hot_leg loop_number angle =
     (let rv_x = cos angle * (RV_RADIUS + 2);
          rv_y = sin angle * (RV_RADIUS + 2);
          rv_z = RV_NOZZLE_HEIGHT + 2;
          sg_x = cos angle * LOOP_RADIUS;
          sg_y = sin angle * LOOP_RADIUS;
          sg_z = SG_INLET_HEIGHT;
          dx = sg_x - rv_x;
          dy = sg_y - rv_y;
          dz = sg_z - rv_z;
          len = sqrt (dx * dx + dy * dy + dz * dz);
          pipe = create_cylinder (''HotLeg_'' @ str_nat loop_number) HOT_LEG_RADIUS len DETAIL_LEVEL
                   ((rv_x + sg_x) / 2, (rv_y + sg_y) / 2, (rv_z + sg_z) / 2);
          direction = normalized (dx, dy, dz);
          up = (0, 0, 1)
      in pipe\<lparr>obj_rotation := RotationDifference up direction,
              obj_materials := [''MAT_HotLeg'']\<rparr>)"

definition create_cold_leg :: "nat \<Rightarrow> real \<Rightarrow> vec3 \<Rightarrow> obj" where
  "create_cold_leg loop_number angle rcp_pos =
     (case rcp_pos of (p0, p1, p2) \<Rightarrow>
      let rcp_x = p0;
          rcp_y = p1;
          rcp_z = p2 + RCP_BODY_HEIGHT / 2;
          inlet_angle = angle + radians 45;
          rv_x = cos inlet_angle * (RV_RADIUS + 2);
          rv_y = sin inlet_angle * (RV_RADIUS + 2);
          rv_z = RV_NOZZLE_HEIGHT;
          dx = rv_x - rcp_x;
          dy = rv_y - rcp_y;
          dz = rv_z - rcp_z;
          len = sqrt (dx * dx + dy * dy + dz * dz);
          pipe = create_cylinder (''ColdLeg_'' @ str_nat loop_number) COLD_LEG_RADIUS len DETAIL_LEVEL
                   ((rcp_x + rv_x) / 2, (rcp_y + rv_y) / 2, (rcp_z + rv_z) / 2);
          direction = normalized (dx, dy, dz);
          up = (0, 0, 1)
      in pipe\<lparr>obj_rotation := RotationDifference up direction,
              obj_materials := [''MAT_ColdLeg'']\<rparr>)"

definition create_crossover_leg :: "nat \<Rightarrow> real \<Rightarrow> vec3 \<Rightarrow> obj" where
  "create_crossover_leg loop_number angle rcp_pos =
     (case rcp_pos of (p0, p1, p2) \<Rightarrow>
      let sg_x = cos angle * LOOP_RADIUS;
          sg_y = sin angle * LOOP_RADIUS;
          sg_z = SG_LOWER_RADIUS + 2;
          rcp_x = p0;
          rcp_y = p1;
          rcp_z = p2;
          dx = rcp_x - sg_x;
          dy = rcp_y - sg_y;
          dz = rcp_z - sg_z;
          len = sqrt (dx * dx + dy * dy + dz * dz);
          pipe = create_cylinder (''CrossoverLeg_'' @ str_nat loop_number) CROSSOVER_RADIUS len
                   DETAIL_LEVEL ((sg_x + rcp_x) / 2, (sg_y + rcp_y) / 2, (sg_z + rcp_z) / 2);
          direction = normalized (dx, dy, dz);
          up = (0, 0, 1)
      in pipe\<lparr>obj_rotation := RotationDifference up direction,
              obj_materials := [''MAT_CrossoverLeg'']\<rparr>)"

definition create_surge_line :: "vec3 \<Rightarrow> obj" where
  "create_surge_line pzr_pos =
     (case pzr_pos of (pzr_x, pzr_y, pzr_z) \<Rightarrow>
      let loop2_angle = radians 135;
          hl_x = cos loop2_angle * (RV_RADIUS + 5);
          hl_y = sin loop2_angle * (RV_RADIUS + 5);
          hl_z = RV_NOZZLE_HEIGHT + 2;
          dx = hl_x - pzr_x;
          dy = hl_y - pzr_y;
          dz = hl_z - pzr_z;
          len = sqrt (dx * dx + dy * dy + dz * dz);
          pipe = create_cylinder ''SurgeLine'' SURGE_LINE_RADIUS len 16
                   ((pzr_x + hl_x) / 2, (pzr_y + hl_y) / 2, (pzr_z + hl_z) / 2);
          direction = normalized (dx, dy, dz);
          up = (0, 0, 1)
      in pipe\<lparr>obj_rotation := RotationDifference up direction,
              obj_materials := [''MAT_HotLeg'']\<rparr>)"

definition create_flow_arrows :: "obj list" where
  "create_flow_arrows =
     concat (map (\<lambda>i.
       let angle = loop_angle i;
           hl_x = cos angle * (RV_RADIUS + 10);
           hl_y = sin angle * (RV_RADIUS + 10);
           hl_z = RV_NOZZLE_HEIGHT + 2;
           hot = (create_arrow (''FlowArrow_HotLeg_'' @ str_nat (i + 1)) ARROW_LENGTH ARROW_RADIUS
                    (hl_x, hl_y, hl_z) (0, pi / 2, angle))
                   \<lparr>obj_materials := [''MAT_FlowArrow'']\<rparr>;
           inlet_angle = angle + radians 45;
           cl_x = cos inlet_angle * (RV_RADIUS + 10);
           cl_y = sin inlet_angle * (RV_RADIUS + 10);
           cl_z = RV_NOZZLE_HEIGHT;
           cold = (create_arrow (''FlowArrow_ColdLeg_'' @ str_nat (i + 1)) ARROW_LENGTH ARROW_RADIUS
                     (cl_x, cl_y, cl_z) (0, pi / 2, inlet_angle + pi))
                    \<lparr>obj_materials := [''MAT_FlowArrow'']\<rparr>
       in [hot, cold]) [0..<4])"

definition create_loop_labels :: "obj list" where
  "create_loop_labels =
     map (\<lambda>i.
       let angle = loop_angle i;
           x = cos angle * (LOOP_RADIUS + 10);
           y = sin angle * (LOOP_RADIUS + 10)
       in (new_object (''Label_Loop_'' @ str_nat (i + 1)) (FontCurve (''LOOP '' @ str_nat (i + 1)) 3.0 0))
            \<lparr>obj_location := (x * SCALE, y * SCALE, 70 * SCALE),
             obj_rotation := Euler (pi / 2) 0 (angle + pi / 2)\<rparr>) [0..<4]"

text \<open>\<open>obj[key]\<close> on the custom properties of an object raises \<open>KeyError\<close> for a missing key.\<close>

definition get_prop :: "obj \<Rightarrow> string \<Rightarrow> py_error + real" where
  "get_prop ob key = (case map_of (obj_props ob) key of None \<Rightarrow> Inl (KeyError key) | Some v \<Rightarrow> Inr v)"

definition position_of :: "obj \<Rightarrow> py_error + vec3" where
  "position_of ob =
     (case get_prop ob ''position_x'' of Inl e \<Rightarrow> Inl e | Inr x \<Rightarrow>
      case get_prop ob ''position_y'' of Inl e \<Rightarrow> Inl e | Inr y \<Rightarrow>
      case get_prop ob ''position_z'' of Inl e \<Rightarrow> Inl e | Inr z \<Rightarrow> Inr (x, y, z))"

text \<open>The first loop of \<open>main\<close>: the components of each loop and the pump positions.\<close>

fun loop_components :: "nat list \<Rightarrow> obj list \<Rightarrow> vec3 list \<Rightarrow> py_error + obj list \<times> vec3 list" where
  "loop_components [] scene rcp_positions = Inr (scene, rcp_positions)"
| "loop_components (i # is) scene rcp_positions =
     (let loop_num = i + 1;
          angle = loop_angle i;
          sg = (create_steam_generator loop_num angle)\<lparr>obj_parent := Some ''Components''\<rparr>;
          rcp = (create_rcp loop_num angle)\<lparr>obj_parent := Some ''Components''\<rparr>
      in case position_of rcp of
           Inl e \<Rightarrow> Inl e
         | Inr pos \<Rightarrow> loop_components is (scene @ [sg, rcp]) (rcp_positions @ [pos]))"

text \<open>The second loop of \<open>main\<close>: the piping; \<open>rcp_positions[i]\<close> raises out of range.\<close>

fun loop_piping :: "nat list \<Rightarrow> vec3 list \<Rightarrow> obj list \<Rightarrow> py_error + obj list" where
  "loop_piping [] rcp_positions scene = Inr scene"
| "loop_piping (i # is) rcp_positions scene =
     (if i < length rcp_positions then
        (let loop_num = i + 1;
             angle = loop_angle i;
             hot_leg = (create_hot_leg loop_num angle)\<lparr>obj_parent := Some ''Piping''\<rparr>;
             crossover = (create_crossover_leg loop_num angle (rcp_positions ! i))
                           \<lparr>obj_parent := Some ''Piping''\<rparr>;
             cold_leg = (create_cold_leg loop_num angle (rcp_positions ! i))
                           \<lparr>obj_parent := Some ''Piping''\<rparr>
         in loop_piping is rcp_positions (scene @ [hot_leg, crossover, cold_leg]))
      else Inl IndexError)"

definition rcs_main :: "obj list \<Rightarrow> py_error + obj list" where
  "rcs_main scene =
     (let scene = clear_scene scene;
          root = create_empty ''RCS_Primary_Loop'' (0, 0, 0);
          components_group = (create_empty ''Components'' (0, 0, 0))\<lparr>obj_parent := Some ''RCS_Primary_Loop''\<rparr>;
          piping_group = (create_empty ''Piping'' (0, 0, 0))\<lparr>obj_parent := Some ''RCS_Primary_Loop''\<rparr>;
          arrows_group = (create_empty ''FlowArrows'' (0, 0, 0))\<lparr>obj_parent := Some ''RCS_Primary_Loop''\<rparr>;
          labels_group = (create_empty ''Labels'' (0, 0, 0))\<lparr>obj_parent := Some ''RCS_Primary_Loop''\<rparr>;
          rv = create_reactor_vessel\<lparr>obj_parent := Some ''Components''\<rparr>;
          scene = scene @ [root, components_group, piping_group, arrows_group, labels_group, rv]
      in case loop_components [0..<4] scene [] of
           Inl e \<Rightarrow> Inl e
         | Inr (scene, rcp_positions) \<Rightarrow>
             (let pzr = create_pressurizer\<lparr>obj_parent := Some ''Components''\<rparr>
              in case position_of pzr of
                   Inl e \<Rightarrow> Inl e
                 | Inr pzr_pos \<Rightarrow>
                    (case loop_piping [0..<4] rcp_positions (scene @ [pzr]) of
                       Inl e \<Rightarrow> Inl e
                     | Inr scene \<Rightarrow>
                         (let surge = (create_surge_line pzr_pos)\<lparr>obj_parent := Some ''Piping''\<rparr>;
                              arrows = map (\<lambda>arrow. arrow\<lparr>obj_parent := Some ''FlowArrows''\<rparr>)
                                         create_flow_arrows;
                              labels = map (\<lambda>label. label\<lparr>obj_parent := Some ''Labels''\<rparr>)
                                         create_loop_labels;
                              sun = (new_object ''Sun'' (LightData SunLight 3.0))
                                      \<lparr>obj_location := (50, 50, 100)\<rparr>;
                              camera = (new_object ''Camera'' CameraData)
                                      \<lparr>obj_location := (100, - 100, 80),
                                       obj_rotation := Euler (radians 60) 0 (radians 45)\<rparr>
                          in Inr (scene @ [surge] @ arrows @ labels @ [sun, camera])))))"

text \<open>
  Views of the loop model: points on the axis of a cylinder, the two ends of a pipe, the
  parts of a joined object, and which primitives an object is made of.
\<close>

definition vadd :: "vec3 \<Rightarrow> vec3 \<Rightarrow> vec3" where
  "vadd p q = (case (p, q) of ((x1, y1, z1), (x2, y2, z2)) \<Rightarrow> (x1 + x2, y1 + y2, z1 + z2))"

definition smul :: "real \<Rightarrow> vec3 \<Rightarrow> vec3" where
  "smul t p = (case p of (x, y, z) \<Rightarrow> (t * x, t * y, t * z))"

text \<open>
  Where the local Z axis of an object points: for Euler angles (the host's default order
  XYZ) the image of \<open>(0, 0, 1)\<close> under \<open>Rz * Ry * Rx\<close>; for the rotation difference from
  the Z axis to a direction, that direction.
\<close>

definition local_z_axis :: "rotation \<Rightarrow> vec3" where
  "local_z_axis rot =
     (case rot of
        Euler a b c \<Rightarrow>
          (cos a * sin b * cos c + sin a * sin c,
           cos a * sin b * sin c - sin a * cos c,
           cos a * cos b)
      | RotationDifference u d \<Rightarrow> (if normalized u = (0, 0, 1) then normalized d else (0, 0, 1)))"

definition shape_depth :: "shape \<Rightarrow> real" where
  "shape_depth s = (case s of CylinderPrim r d n \<Rightarrow> d | ConePrim r1 r2 d n \<Rightarrow> d | _ \<Rightarrow> 0)"

definition axis_point :: "vec3 \<Rightarrow> rotation \<Rightarrow> real \<Rightarrow> vec3" where
  "axis_point location rot t = vadd location (smul t (local_z_axis rot))"

definition cyl_start :: "obj \<Rightarrow> vec3" where
  "cyl_start ob = (case obj_data ob of
     Mesh s \<Rightarrow> axis_point (obj_location ob) (obj_rotation ob) (- shape_depth s / 2)
   | _ \<Rightarrow> obj_location ob)"

definition cyl_end :: "obj \<Rightarrow> vec3" where
  "cyl_end ob = (case obj_data ob of
     Mesh s \<Rightarrow> axis_point (obj_location ob) (obj_rotation ob) (shape_depth s / 2)
   | _ \<Rightarrow> obj_location ob)"

definition parts_of :: "obj \<Rightarrow> part list" where
  "parts_of ob = (case obj_data ob of JoinedMesh ps \<Rightarrow> ps | _ \<Rightarrow> [])"

definition part_axis_point :: "part \<Rightarrow> real \<Rightarrow> vec3" where
  "part_axis_point p t = axis_point (part_location p) (part_rotation p) t"

definition basic_primitive :: "shape \<Rightarrow> bool" where
  "basic_primitive s =
     (case s of CylinderPrim _ _ _ \<Rightarrow> True | SpherePrim _ _ _ \<Rightarrow> True
      | ConePrim _ _ _ _ \<Rightarrow> True | _ \<Rightarrow> False)"

definition is_torus :: "shape \<Rightarrow> bool" where
  "is_torus s = (case s of TorusPrim _ _ _ _ \<Rightarrow> True | _ \<Rightarrow> False)"

definition only_basic_primitives :: "obj \<Rightarrow> bool" where
  "only_basic_primitives ob =
     (case obj_data ob of
        Mesh s \<Rightarrow> basic_primitive s
      | JoinedMesh ps \<Rightarrow> list_all (\<lambda>p. basic_primitive (part_shape p)) ps
      | _ \<Rightarrow> True)"

definition has_torus :: "obj \<Rightarrow> bool" where
  "has_torus ob =
     (case obj_data ob of
        Mesh s \<Rightarrow> is_torus s
      | JoinedMesh ps \<Rightarrow> list_ex (\<lambda>p. is_torus (part_shape p)) ps
      | _ \<Rightarrow> False)"

definition rcp_position :: "nat \<Rightarrow> vec3" where
  "rcp_position i =
     (cos (loop_angle i + radians 25) * (LOOP_RADIUS * 0.6),
      sin (loop_angle i + radians 25) * (LOOP_RADIUS * 0.6), RCP_HEIGHT)"

definition outlet_nozzle_part :: "nat \<Rightarrow> part" where
  "outlet_nozzle_part i = hd (as_part (rv_nozzles i ! 0))"

definition inlet_nozzle_part :: "nat \<Rightarrow> part" where
  "inlet_nozzle_part i = hd (as_part (rv_nozzles i ! 1))"

section \<open>Entry points of the gauge scripts\<close>

text \<open>
  \<open>main\<close> of BlenderArcGauge_v1.py and of BlenderTemperatureGauge_v1.py: the gauge of
  the default configuration is added to the scene that is open. In the arc gauge script
  the two statements that would select and delete the existing objects are commented
  out; the bar gauge script has none.
\<close>

definition arc_gauge_main :: "obj list \<Rightarrow> (py_error + obj list) option" where
  "arc_gauge_main scene =
     then_run (create_gauge GaugeConfig) (\<lambda>gauge. Some (Inr (scene @ gauge)))"

definition bar_gauge_main :: "obj list \<Rightarrow> (py_error + obj list) option" where
  "bar_gauge_main scene =
     then_run (create_bar_gauge BarGaugeConfig) (\<lambda>gauge. Some (Inr (scene @ gauge)))"

section \<open>Rounding to double precision\<close>



lemma ulp_eq:
  assumes "2 powr of_int e \<le> \<bar>x\<bar>" and "\<bar>x\<bar> < 2 powr (of_int e + 1)"
  shows "ulp x = 2 powr (of_int e - 52)"
proof -
  have p: "0 < \<bar>x\<bar>" using assms(1) by (smt (verit) powr_gt_zero)
  have "\<lfloor>log 2 \<bar>x\<bar>\<rfloor> = e"
    using assms by (subst floor_log_eq_powr_iff [OF p]) simp_all
  then show ?thesis by (simp add: ulp_def)
qed





lemma fl_pos_scaled:
  assumes "2 ^ 52 \<le> x * 2 ^ k" and "x * 2 ^ k < 2 ^ 53"
  shows "fl x = real (round_half_even (x * 2 ^ k)) / 2 ^ k"
proof -
  have p: "(0::real) < 2 ^ k" by simp
  have x: "0 < x"
  proof (rule ccontr)
    assume "\<not> 0 < x"
    then have "x * 2 ^ k \<le> 0" by (simp add: mult_le_0_iff)
    with assms(1) show False by (smt (verit) zero_less_power)
  qed
  have a: "\<bar>x\<bar> = x" using x by simp
  have e1: "(2::real) powr of_int (52 - int k) = 2 ^ 52 / 2 ^ k"
    by (simp add: powr_diff powr_realpow)
  have e2: "(2::real) powr (of_int (52 - int k) + 1) = 2 ^ 53 / 2 ^ k"
    by (simp add: powr_diff powr_add powr_realpow)
  have "2 powr of_int (52 - int k) \<le> \<bar>x\<bar>"
    unfolding e1 a using assms(1) p by (simp add: field_simps)
  moreover have "\<bar>x\<bar> < 2 powr (of_int (52 - int k) + 1)"
    unfolding e2 a using assms(2) p by (simp add: field_simps)
  ultimately have "ulp x = 2 powr (of_int (52 - int k) - 52)" by (rule ulp_eq)
  also have "\<dots> = 1 / 2 ^ k"
    by (simp add: powr_minus powr_realpow field_simps)
  finally have u: "ulp x = 1 / 2 ^ k" .
  show ?thesis using x by (simp add: fl_def u)
qed


section \<open>Properties of the value conversion\<close>

lemma radians_mono: "a \<le> b \<Longrightarrow> radians a \<le> radians b"
  by (simp add: radians_def divide_right_mono mult_right_mono)

text \<open>
  C1. For a configuration with \<open>min_value < max_value\<close>, \<open>value_to_angle\<close> returns
  \<open>radians (start_angle - n * sweep_angle)\<close> with
  \<open>n = max 0 (min 1 ((v - min_value) / (max_value - min_value)))\<close>, and the result lies
  between \<open>radians (start_angle - sweep_angle)\<close> and \<open>radians start_angle\<close> (in either
  order, as the sweep may be negative).
\<close>

theorem value_to_angle_clamped_interpolation:
  assumes "min_value config < max_value config"
  shows "let n = max 0 (min 1 ((v - min_value config) / (max_value config - min_value config)));
             a = radians (start_angle config - n * sweep_angle config);
             lo = radians (start_angle config - sweep_angle config);
             hi = radians (start_angle config)
         in value_to_angle v config = Inr a \<and> min lo hi \<le> a \<and> a \<le> max lo hi"
proof -
  define n where "n = max 0 (min 1 ((v - min_value config) / (max_value config - min_value config)))"
  have n01: "0 \<le> n" "n \<le> 1" by (simp_all add: n_def)
  have val: "value_to_angle v config = Inr (radians (start_angle config - n * sweep_angle config))"
    using assms by (simp add: value_to_angle_def py_truediv_def n_def Let_def)
  have between: "min (radians (start_angle config - sweep_angle config)) (radians (start_angle config))
        \<le> radians (start_angle config - n * sweep_angle config)
      \<and> radians (start_angle config - n * sweep_angle config)
        \<le> max (radians (start_angle config - sweep_angle config)) (radians (start_angle config))"
  proof (cases "0 \<le> sweep_angle config")
    case True
    then have "n * sweep_angle config \<le> sweep_angle config" "0 \<le> n * sweep_angle config"
      using n01 by (simp_all add: mult_left_le_one_le)
    then have "radians (start_angle config - sweep_angle config)
                 \<le> radians (start_angle config - n * sweep_angle config)"
      and "radians (start_angle config - n * sweep_angle config) \<le> radians (start_angle config)"
      by (auto intro!: radians_mono)
    then show ?thesis by (simp add: min_le_iff_disj le_max_iff_disj)
  next
    case False
    then have neg: "sweep_angle config \<le> 0" by simp
    have "sweep_angle config \<le> n * sweep_angle config"
      using mult_right_mono_neg [OF n01(2) neg] by simp
    moreover have "n * sweep_angle config \<le> 0"
      using n01(1) neg by (simp add: mult_nonneg_nonpos)
    ultimately have "radians (start_angle config - n * sweep_angle config)
                 \<le> radians (start_angle config - sweep_angle config)"
      and "radians (start_angle config) \<le> radians (start_angle config - n * sweep_angle config)"
      by (auto intro!: radians_mono)
    then show ?thesis by (simp add: min_le_iff_disj le_max_iff_disj)
  qed
  show ?thesis
    unfolding Let_def n_def [symmetric] using val between by simp
qed

theorem value_to_angle_clamped_interpolation_witness:
  "min_value GaugeConfig < max_value GaugeConfig
   \<and> value_to_angle 400 GaugeConfig = Inr (pi / 2)
   \<and> radians (-45) \<le> pi / 2 \<and> pi / 2 \<le> radians 225"
proof -
  have h: "min_value GaugeConfig < max_value GaugeConfig"
    by (simp add: GaugeConfig_def)
  have r90: "radians 90 = pi / 2"
    by (simp add: radians_def)
  have lo: "radians (-45) \<le> radians 90" and hi: "radians 90 \<le> radians 225"
    by (rule radians_mono, simp)+
  have "value_to_angle 400 GaugeConfig = Inr (radians 90)"
    using value_to_angle_clamped_interpolation [OF h, of 400]
    by (simp add: GaugeConfig_def Let_def)
  then show ?thesis
    using h lo hi by (simp only: r90)
qed

text \<open>
  C6. With \<open>max_value \<noteq> min_value\<close> both conversions return a value; with
  \<open>max_value = min_value\<close> both raise, and the only error either can raise at all is the
  \<open>ZeroDivisionError\<close> of the division by \<open>max_value - min_value\<close>.
\<close>

theorem value_conversion_total_unless_zero_span:
  "(max_value gc \<noteq> min_value gc \<longrightarrow> (\<exists>a. value_to_angle v gc = Inr a))
   \<and> (max_value bc \<noteq> min_value bc \<longrightarrow> (\<exists>n. value_to_normalized v bc = Inr n))
   \<and> (max_value gc = min_value gc \<longrightarrow> value_to_angle v gc = Inl (ZeroDivisionError TrueDiv))
   \<and> (max_value bc = min_value bc \<longrightarrow> value_to_normalized v bc = Inl (ZeroDivisionError TrueDiv))
   \<and> (\<forall>e. value_to_angle v gc = Inl e \<longrightarrow>
          e = ZeroDivisionError TrueDiv \<and> max_value gc = min_value gc)
   \<and> (\<forall>e. value_to_normalized v bc = Inl e \<longrightarrow>
          e = ZeroDivisionError TrueDiv \<and> max_value bc = min_value bc)"
proof -
  have a: "value_to_angle v gc =
      (if max_value gc = min_value gc then Inl (ZeroDivisionError TrueDiv)
       else Inr (radians (start_angle gc
              - max 0 (min 1 ((v - min_value gc) / (max_value gc - min_value gc)))
                * sweep_angle gc)))"
    by (simp add: value_to_angle_def py_truediv_def Let_def)
  have n: "value_to_normalized v bc =
      (if max_value bc = min_value bc then Inl (ZeroDivisionError TrueDiv)
       else Inr (max 0 (min 1 ((v - min_value bc) / (max_value bc - min_value bc)))))"
    by (simp add: value_to_normalized_def py_truediv_def)
  show ?thesis
    unfolding a n by simp
qed

theorem value_conversion_total_unless_zero_span_witness:
  "max_value GaugeConfig \<noteq> min_value GaugeConfig
   \<and> max_value BarGaugeConfig \<noteq> min_value BarGaugeConfig
   \<and> (\<exists>a. value_to_angle 400 GaugeConfig = Inr a)
   \<and> (\<exists>n. value_to_normalized 400 BarGaugeConfig = Inr n)
   \<and> value_to_angle 400 (GaugeConfig\<lparr>max_value := 100\<rparr>) = Inl (ZeroDivisionError TrueDiv)
   \<and> value_to_normalized 400 (BarGaugeConfig\<lparr>max_value := 100\<rparr>)
       = Inl (ZeroDivisionError TrueDiv)"
proof -
  have g: "max_value GaugeConfig \<noteq> min_value GaugeConfig"
    and b: "max_value BarGaugeConfig \<noteq> min_value BarGaugeConfig"
    by (simp_all add: GaugeConfig_def BarGaugeConfig_def)
  have g0: "max_value (GaugeConfig\<lparr>max_value := 100\<rparr>)
              = min_value (GaugeConfig\<lparr>max_value := 100\<rparr>)"
    and b0: "max_value (BarGaugeConfig\<lparr>max_value := 100\<rparr>)
              = min_value (BarGaugeConfig\<lparr>max_value := 100\<rparr>)"
    by (simp_all add: GaugeConfig_def BarGaugeConfig_def)
  note ok = value_conversion_total_unless_zero_span [of GaugeConfig 400 BarGaugeConfig]
  note bad = value_conversion_total_unless_zero_span
               [of "GaugeConfig\<lparr>max_value := 100\<rparr>" 400
                   "BarGaugeConfig\<lparr>max_value := 100\<rparr>"]
  from ok g b have "\<exists>a. value_to_angle 400 GaugeConfig = Inr a"
    and "\<exists>n. value_to_normalized 400 BarGaugeConfig = Inr n"
    by blast+
  moreover from bad g0 b0
  have "value_to_angle 400 (GaugeConfig\<lparr>max_value := 100\<rparr>)
          = Inl (ZeroDivisionError TrueDiv)"
    and "value_to_normalized 400 (BarGaugeConfig\<lparr>max_value := 100\<rparr>)
          = Inl (ZeroDivisionError TrueDiv)"
    by blast+
  ultimately show ?thesis
    using g b by blast
qed

section \<open>The scale loops\<close>

text \<open>
  With a positive step the loop ends and is the run of its body over the values it
  visits; with a step that is not positive, and a body that does not raise, it never
  ends.
\<close>

lemma scale_count_step:
  assumes "0 < step" "v \<le> limit"
  shows "scale_count limit step v = Suc (scale_count limit step (v + step))"
proof (cases "v + step \<le> limit")
  case True
  have "(limit - v) / step = (limit - (v + step)) / step + 1"
    using assms by (simp add: field_simps)
  moreover have "0 \<le> (limit - (v + step)) / step" using True assms by simp
  ultimately show ?thesis using assms True
    by (simp add: scale_count_def nat_add_distrib)
next
  case False
  then have "(limit - v) / step < 1" using assms by (simp add: field_simps)
  moreover have "0 \<le> (limit - v) / step" using assms by simp
  ultimately have "\<lfloor>(limit - v) / step\<rfloor> = 0" by linarith
  then show ?thesis using assms False by (simp add: scale_count_def)
qed


lemma scale_values_empty: "\<not> v \<le> limit \<Longrightarrow> scale_values limit step v = []"
  by (simp add: scale_values_def scale_count_def)

lemma scale_values_step:
  assumes "0 < step" "v \<le> limit"
  shows "scale_values limit step v = v # scale_values limit step (v + step)"
proof -
  have "map (\<lambda>k. v + real k * step) [0..<Suc n] = v # map (\<lambda>k. v + step + real k * step) [0..<n]" for n
    by (simp add: map_upt_Suc del: upt_Suc) (simp add: algebra_simps)
  then show ?thesis
    unfolding scale_values_def scale_count_step [OF assms] by simp
qed



lemma set_scale_values: "v' \<in> set (scale_values limit step v) \<Longrightarrow> \<exists>j. v' = v + real j * step"
  by (auto simp: scale_values_def)


lemma while_value_unroll:
  assumes "0 < step"
  shows "while_value body limit step v idx = Some (run_bodies body (scale_values limit step v) idx)"
proof -
  have "scale_count limit step v = n \<Longrightarrow>
         while_value body limit step v idx = Some (run_bodies body (scale_values limit step v) idx)" for n
  proof (induction n arbitrary: v idx)
    case 0
    then have nle: "\<not> v \<le> limit" by (simp add: scale_count_def split: if_splits)
    then show ?case by (subst while_value.simps) (simp add: scale_values_empty)
  next
    case (Suc n)
    then have le: "v \<le> limit" by (simp add: scale_count_def split: if_splits)
    from scale_count_step [OF assms le] Suc.prems
    have "scale_count limit step (v + step) = n" by simp
    note IH = Suc.IH [OF this]
    show ?case
      by (subst while_value.simps)
         (simp add: le IH scale_values_step [OF assms le] split: sum.splits prod.splits)
  qed
  then show ?thesis by simp
qed

lemma indexed_Nil [simp]: "indexed mk idx [] = []"
  by (simp add: indexed_def)

lemma indexed_Cons [simp]: "indexed mk idx (v # vs) = mk v idx # indexed mk (Suc idx) vs"
  by (simp add: indexed_def upt_conv_Cons del: upt_Suc)

lemma length_indexed [simp]: "length (indexed mk idx vs) = length vs"
  by (simp add: indexed_def)


lemma set_indexed: "ob \<in> set (indexed mk idx vs) \<Longrightarrow> \<exists>v \<in> set vs. \<exists>i. ob = mk v i"
  by (auto simp: indexed_def dest!: set_zip_rightD)

lemma run_bodies_filter:
  assumes "\<And>v i. v \<in> set vs \<Longrightarrow>
             body v i = (if G v then Inr ([mk v i], i + 1) else Inr ([], i))"
  shows "run_bodies body vs idx = Inr (indexed mk idx (filter G vs))"
  using assms
proof (induction vs arbitrary: idx)
  case Nil
  then show ?case by simp
next
  case (Cons v vs)
  have b: "body v idx = (if G v then Inr ([mk v idx], idx + 1) else Inr ([], idx))"
    by (rule Cons.prems) simp
  have IH: "run_bodies body vs i = Inr (indexed mk i (filter G vs))" for i
    by (rule Cons.IH) (simp add: Cons.prems)
  show ?case by (simp add: b IH)
qed

lemma run_bodies_all:
  assumes "\<And>v i. v \<in> set vs \<Longrightarrow> body v i = Inr ([mk v i], i + 1)"
  shows "run_bodies body vs idx = Inr (indexed mk idx vs)"
  using run_bodies_filter [of vs body "\<lambda>_. True" mk idx] assms by simp

lemma value_to_angle_the_angle:
  "max_value config \<noteq> min_value config \<Longrightarrow> value_to_angle v config = Inr (the_angle config v)"
  by (simp add: the_angle_def value_to_angle_def py_truediv_def Let_def)

lemma value_to_y_position_the_y_pos:
  "max_value config \<noteq> min_value config \<Longrightarrow>
     value_to_y_position v config (bar_tube_height config)
       = Inr (the_y_pos config v - bar_tube_bottom_y config)"
  by (simp add: the_y_pos_def value_to_y_position_def value_to_normalized_def py_truediv_def)

lemma minor_tick_guard_cases:
  "major \<noteq> 0 \<Longrightarrow> minor_tick_guard v lo major = Inr (guard_holds lo major v)"
  by (simp add: guard_holds_def minor_tick_guard_def py_mod_def)

lemma gauge_major_loop:
  assumes "max_value config \<noteq> min_value config" "0 < step"
  shows "while_value (gauge_major_tick config) limit step v idx =
           Some (Inr (indexed (\<lambda>v. gauge_major_tick_obj config (the_angle config v)) idx
                        (scale_values limit step v)))"
  unfolding while_value_unroll [OF assms(2)]
  by (simp add: run_bodies_all gauge_major_tick_def value_to_angle_the_angle [OF assms(1)])

lemma gauge_number_loop:
  assumes "max_value config \<noteq> min_value config" "0 < step"
  shows "while_value (gauge_number config) limit step v idx =
           Some (Inr (indexed (\<lambda>v. gauge_number_obj config v (the_angle config v)) idx
                        (scale_values limit step v)))"
  unfolding while_value_unroll [OF assms(2)]
  by (simp add: run_bodies_all gauge_number_def value_to_angle_the_angle [OF assms(1)])

lemma gauge_minor_loop:
  assumes "max_value config \<noteq> min_value config" "0 < step" "major_tick_interval config \<noteq> 0"
  shows "while_value (gauge_minor_tick config) limit step v idx =
           Some (Inr (indexed (\<lambda>v. gauge_minor_tick_obj config (the_angle config v)) idx
                        (filter (guard_holds (min_value config) (major_tick_interval config))
                           (scale_values limit step v))))"
  unfolding while_value_unroll [OF assms(2)]
  by (rule arg_cong [where f = Some], rule run_bodies_filter)
     (simp add: gauge_minor_tick_def value_to_angle_the_angle [OF assms(1)]
                minor_tick_guard_cases [OF assms(3)])

lemma bar_major_loop:
  assumes "max_value config \<noteq> min_value config" "0 < step"
  shows "while_value (bar_major_tick config) limit step v idx =
           Some (Inr (indexed (\<lambda>v. bar_major_tick_obj config (the_y_pos config v)) idx
                        (scale_values limit step v)))"
  unfolding while_value_unroll [OF assms(2)]
  by (simp add: run_bodies_all bar_major_tick_def value_to_y_position_the_y_pos [OF assms(1)])

lemma bar_number_loop:
  assumes "max_value config \<noteq> min_value config" "0 < step"
  shows "while_value (bar_number config) limit step v idx =
           Some (Inr (indexed (\<lambda>v. bar_number_obj config v (the_y_pos config v)) idx
                        (scale_values limit step v)))"
  unfolding while_value_unroll [OF assms(2)]
  by (simp add: run_bodies_all bar_number_def value_to_y_position_the_y_pos [OF assms(1)])

lemma bar_minor_loop:
  assumes "max_value config \<noteq> min_value config" "0 < step" "major_tick_interval config \<noteq> 0"
  shows "while_value (bar_minor_tick config) limit step v idx =
           Some (Inr (indexed (\<lambda>v. bar_minor_tick_obj config (the_y_pos config v)) idx
                        (filter (guard_holds (min_value config) (major_tick_interval config))
                           (scale_values limit step v))))"
  unfolding while_value_unroll [OF assms(2)]
  by (rule arg_cong [where f = Some], rule run_bodies_filter)
     (simp add: bar_minor_tick_def value_to_y_position_the_y_pos [OF assms(1)]
                minor_tick_guard_cases [OF assms(3)])

lemma children_of_append [simp]: "children_of p (xs @ ys) = children_of p xs @ children_of p ys"
  by (simp add: children_of_def)

lemma children_of_Nil [simp]: "children_of p [] = []"
  by (simp add: children_of_def)

lemma children_of_Cons [simp]:
  "children_of p (x # xs) = (if obj_parent x = Some p then x # children_of p xs else children_of p xs)"
  by (simp add: children_of_def)

lemma children_of_same:
  assumes "\<And>ob. ob \<in> set xs \<Longrightarrow> obj_parent ob = Some q"
  shows "children_of p xs = (if p = q then xs else [])"
  using assms by (induction xs) auto

lemma children_of_indexed:
  assumes "\<And>v i. obj_parent (mk v i) = Some q"
  shows "children_of p (indexed mk idx vs) = (if p = q then indexed mk idx vs else [])"
  by (rule children_of_same) (auto simp: indexed_def assms)

lemma gauge_zone_result:
  assumes "max_value config \<noteq> min_value config"
  shows "\<exists>zs. gauge_zone config nm zone material = Inr zs
           \<and> map obj_name zs = (if has_band zone then [nm] else [])
           \<and> (\<forall>ob \<in> set zs. obj_parent ob = Some ''Zones'')"
  by (cases zone)
     (auto simp: gauge_zone_def has_band_def Let_def create_arc_mesh_def new_object_def
                 value_to_angle_the_angle [OF assms])

lemma gauge_zones_result:
  assumes "max_value config \<noteq> min_value config"
  shows "\<exists>zs. gauge_zones config = Inr zs
           \<and> map obj_name zs = map fst (filter (\<lambda>z. has_band (snd z))
                 [(''Zone_Normal'', zone_normal config), (''Zone_Warning'', zone_warning config),
                  (''Zone_Danger'', zone_danger config)])
           \<and> (\<forall>ob \<in> set zs. obj_parent ob = Some ''Zones'')"
proof -
  from gauge_zone_result [OF assms, of "''Zone_Normal''" "zone_normal config" "''zone_normal''"]
  obtain zn where zn: "gauge_zone config ''Zone_Normal'' (zone_normal config) ''zone_normal'' = Inr zn"
    "map obj_name zn = (if has_band (zone_normal config) then [''Zone_Normal''] else [])"
    "\<forall>ob \<in> set zn. obj_parent ob = Some ''Zones''" by blast
  from gauge_zone_result [OF assms, of "''Zone_Warning''" "zone_warning config" "''zone_warning''"]
  obtain zw where zw: "gauge_zone config ''Zone_Warning'' (zone_warning config) ''zone_warning'' = Inr zw"
    "map obj_name zw = (if has_band (zone_warning config) then [''Zone_Warning''] else [])"
    "\<forall>ob \<in> set zw. obj_parent ob = Some ''Zones''" by blast
  from gauge_zone_result [OF assms, of "''Zone_Danger''" "zone_danger config" "''zone_danger''"]
  obtain zd where zd: "gauge_zone config ''Zone_Danger'' (zone_danger config) ''zone_danger'' = Inr zd"
    "map obj_name zd = (if has_band (zone_danger config) then [''Zone_Danger''] else [])"
    "\<forall>ob \<in> set zd. obj_parent ob = Some ''Zones''" by blast
  have "gauge_zones config = Inr (zn @ zw @ zd)"
    by (simp add: gauge_zones_def zn(1) zw(1) zd(1))
  moreover have "map obj_name (zn @ zw @ zd) = map fst (filter (\<lambda>z. has_band (snd z))
                 [(''Zone_Normal'', zone_normal config), (''Zone_Warning'', zone_warning config),
                  (''Zone_Danger'', zone_danger config)])"
    by (simp add: zn(2) zw(2) zd(2))
  moreover have "\<forall>ob \<in> set (zn @ zw @ zd). obj_parent ob = Some ''Zones''"
    using zn(3) zw(3) zd(3) by auto
  ultimately show ?thesis by blast
qed

lemma gauge_obj_parents [simp]:
  "obj_parent (gauge_major_tick_obj config a i) = Some ''MajorTicks''"
  "obj_parent (gauge_minor_tick_obj config a i) = Some ''MinorTicks''"
  "obj_parent (gauge_number_obj config v a i) = Some ''Numbers''"
  by (simp_all add: gauge_major_tick_obj_def gauge_minor_tick_obj_def gauge_number_obj_def Let_def)

lemma gauge_needle_result:
  assumes "max_value config \<noteq> min_value config"
  shows "\<exists>nd. gauge_needle config = Inr nd \<and> obj_parent nd = Some (''Gauge_'' @ cfg_name config)"
  by (simp add: gauge_needle_def Let_def value_to_angle_the_angle [OF assms])

lemma create_gauge_scale:
  assumes "min_value config < max_value config"
    and "0 < major_tick_interval config" and "0 < minor_tick_interval config"
  shows "\<exists>objs. create_gauge config = Some (Inr objs)
     \<and> children_of ''MajorTicks'' objs
         = indexed (\<lambda>v. gauge_major_tick_obj config (the_angle config v)) 0
             (scale_values (max_value config + 0.001) (major_tick_interval config) (min_value config))
     \<and> children_of ''Numbers'' objs
         = indexed (\<lambda>v. gauge_number_obj config v (the_angle config v)) 0
             (scale_values (max_value config + 0.001) (major_tick_interval config) (min_value config))
     \<and> map obj_name (children_of ''Zones'' objs)
         = map fst (filter (\<lambda>z. has_band (snd z))
             [(''Zone_Normal'', zone_normal config), (''Zone_Warning'', zone_warning config),
              (''Zone_Danger'', zone_danger config)])"
proof -
  have ne: "max_value config \<noteq> min_value config" and m0: "major_tick_interval config \<noteq> 0"
    using assms by simp_all
  obtain zs where zs: "gauge_zones config = Inr zs"
    "map obj_name zs = map fst (filter (\<lambda>z. has_band (snd z))
             [(''Zone_Normal'', zone_normal config), (''Zone_Warning'', zone_warning config),
              (''Zone_Danger'', zone_danger config)])"
    "\<forall>ob \<in> set zs. obj_parent ob = Some ''Zones''"
    using gauge_zones_result [OF ne] by blast
  obtain nd where nd: "gauge_needle config = Inr nd"
    "obj_parent nd = Some (''Gauge_'' @ cfg_name config)"
    using gauge_needle_result [OF ne] by blast
  have zc: "children_of p zs = (if p = ''Zones'' then zs else [])" for p
    by (rule children_of_same) (simp add: zs(3))
  show ?thesis
    unfolding create_gauge_def Let_def
      gauge_major_loop [OF ne assms(2)] gauge_minor_loop [OF ne assms(3) m0]
      gauge_number_loop [OF ne assms(2)] zs(1) nd(1) then_run_def
    by (simp add: children_of_indexed zc zs(2) nd(2) new_object_def create_arc_mesh_def
                  create_disk_def create_text_object_def)
qed

lemma bar_obj_parents [simp]:
  "obj_parent (bar_major_tick_obj config y i) = Some ''MajorTicks''"
  "obj_parent (bar_minor_tick_obj config y i) = Some ''MinorTicks''"
  "obj_parent (bar_number_obj config v y i) = Some ''Numbers''"
  by (simp_all add: bar_major_tick_obj_def bar_minor_tick_obj_def bar_number_obj_def Let_def)

lemma create_zone_result:
  assumes "max_value config \<noteq> min_value config"
  shows "\<exists>zs. create_zone config nm zone material = Inr zs
           \<and> map obj_name zs = (if has_band zone then [nm] else [])
           \<and> (\<forall>ob \<in> set zs. obj_parent ob = Some ''Zones'')"
  by (cases zone)
     (auto simp: create_zone_def has_band_def Let_def create_box_mesh_def new_object_def
                 value_to_y_position_the_y_pos [OF assms])

lemma bar_zones_result:
  assumes "max_value config \<noteq> min_value config"
  shows "\<exists>zs. bar_zones config = Inr zs
           \<and> map obj_name zs = map fst (filter (\<lambda>z. has_band (snd z))
                 [(''Zone_Normal'', zone_normal config), (''Zone_Warning'', zone_warning config),
                  (''Zone_Danger'', zone_danger config)])
           \<and> (\<forall>ob \<in> set zs. obj_parent ob = Some ''Zones'')"
proof -
  from create_zone_result [OF assms, of "''Zone_Normal''" "zone_normal config" "''zone_normal''"]
  obtain zn where zn: "create_zone config ''Zone_Normal'' (zone_normal config) ''zone_normal'' = Inr zn"
    "map obj_name zn = (if has_band (zone_normal config) then [''Zone_Normal''] else [])"
    "\<forall>ob \<in> set zn. obj_parent ob = Some ''Zones''" by blast
  from create_zone_result [OF assms, of "''Zone_Warning''" "zone_warning config" "''zone_warning''"]
  obtain zw where zw: "create_zone config ''Zone_Warning'' (zone_warning config) ''zone_warning'' = Inr zw"
    "map obj_name zw = (if has_band (zone_warning config) then [''Zone_Warning''] else [])"
    "\<forall>ob \<in> set zw. obj_parent ob = Some ''Zones''" by blast
  from create_zone_result [OF assms, of "''Zone_Danger''" "zone_danger config" "''zone_danger''"]
  obtain zd where zd: "create_zone config ''Zone_Danger'' (zone_danger config) ''zone_danger'' = Inr zd"
    "map obj_name zd = (if has_band (zone_danger config) then [''Zone_Danger''] else [])"
    "\<forall>ob \<in> set zd. obj_parent ob = Some ''Zones''" by blast
  have "bar_zones config = Inr (zn @ zw @ zd)"
    by (simp add: bar_zones_def zn(1) zw(1) zd(1))
  moreover have "map obj_name (zn @ zw @ zd) = map fst (filter (\<lambda>z. has_band (snd z))
                 [(''Zone_Normal'', zone_normal config), (''Zone_Warning'', zone_warning config),
                  (''Zone_Danger'', zone_danger config)])"
    by (simp add: zn(2) zw(2) zd(2))
  moreover have "\<forall>ob \<in> set (zn @ zw @ zd). obj_parent ob = Some ''Zones''"
    using zn(3) zw(3) zd(3) by auto
  ultimately show ?thesis by blast
qed

lemma create_bar_gauge_scale:
  assumes "min_value config < max_value config"
    and "0 < major_tick_interval config" and "0 < minor_tick_interval config"
  shows "\<exists>objs. create_bar_gauge config = Some (Inr objs)
     \<and> children_of ''MajorTicks'' objs
         = indexed (\<lambda>v. bar_major_tick_obj config (the_y_pos config v)) 0
             (scale_values (max_value config + 0.001) (major_tick_interval config) (min_value config))
     \<and> children_of ''Numbers'' objs
         = indexed (\<lambda>v. bar_number_obj config v (the_y_pos config v)) 0
             (scale_values (max_value config + 0.001) (major_tick_interval config) (min_value config))
     \<and> map obj_name (children_of ''Zones'' objs)
         = map fst (filter (\<lambda>z. has_band (snd z))
             [(''Zone_Normal'', zone_normal config), (''Zone_Warning'', zone_warning config),
              (''Zone_Danger'', zone_danger config)])"
proof -
  have ne: "max_value config \<noteq> min_value config" and m0: "major_tick_interval config \<noteq> 0"
    using assms by simp_all
  obtain zs where zs: "bar_zones config = Inr zs"
    "map obj_name zs = map fst (filter (\<lambda>z. has_band (snd z))
             [(''Zone_Normal'', zone_normal config), (''Zone_Warning'', zone_warning config),
              (''Zone_Danger'', zone_danger config)])"
    "\<forall>ob \<in> set zs. obj_parent ob = Some ''Zones''"
    using bar_zones_result [OF ne] by blast
  have zc: "children_of p zs = (if p = ''Zones'' then zs else [])" for p
    by (rule children_of_same) (simp add: zs(3))
  show ?thesis
    unfolding create_bar_gauge_def Let_def
      bar_major_loop [OF ne assms(2)] bar_minor_loop [OF ne assms(3) m0]
      bar_number_loop [OF ne assms(2)] zs(1) then_run_def
    by (simp add: children_of_indexed zc zs(2) new_object_def create_box_mesh_def
                  create_rounded_box_def create_tube_outline_def create_sphere_mesh_def
                  create_text_object_def)
qed









section \<open>Minor ticks and major positions\<close>

lemma py_mod_multiple:
  "major \<noteq> 0 \<Longrightarrow> py_mod (of_int k * major) major = Inr 0"
  by (simp add: py_mod_def)

lemma guard_at_major_position:
  "major \<noteq> 0 \<Longrightarrow> minor_tick_guard (lo + of_int k * major) lo major = Inr False"
  by (simp add: minor_tick_guard_def py_mod_multiple)

lemma py_mod_visited:
  assumes "0 < minor" "0 < m"
  shows "py_mod (real j * minor) (real m * minor) = Inr (real (j mod m) * minor)"
proof -
  have ne: "real m * minor \<noteq> 0" using assms by simp
  have "real j * minor / (real m * minor) = real j / real m"
    using assms by simp
  then have fl: "\<lfloor>real j * minor / (real m * minor)\<rfloor> = int (j div m)"
    by (simp only: floor_divide_of_nat_eq)
  have "real j = real m * real (j div m) + real (j mod m)"
    by (metis mult_div_mod_eq of_nat_add of_nat_mult)
  then have "real j * minor - real m * minor * real (j div m) = real (j mod m) * minor"
    by (simp add: algebra_simps)
  then have "real j * minor - real m * minor * of_int (int (j div m)) = real (j mod m) * minor"
    by simp
  then show ?thesis
    unfolding py_mod_def fl using ne by simp
qed

lemma guard_at_visited:
  assumes "0 < minor" "0 < m"
  shows "minor_tick_guard (lo + real j * minor) lo (real m * minor)
           = Inr (0.001 < real (j mod m) * minor)"
  using assms by (simp add: minor_tick_guard_def py_mod_visited)

lemma major_position_iff:
  assumes "0 < minor" "0 < m"
  shows "(\<exists>k::int. lo + real j * minor = lo + of_int k * (real m * minor)) = (m dvd j)"
proof
  assume "\<exists>k::int. lo + real j * minor = lo + of_int k * (real m * minor)"
  then obtain k :: int where "real j * minor = of_int k * (real m * minor)" by auto
  then have "real j = of_int k * real m" using assms by simp
  then have "int j = k * int m" by (metis of_int_of_nat_eq of_int_mult of_int_eq_iff)
  then have "int m dvd int j" by simp
  then show "m dvd j" by (simp only: int_dvd_int_iff)
next
  assume "m dvd j"
  then obtain q where "j = m * q" by (auto simp: dvd_def)
  then have "lo + real j * minor = lo + of_int (int q) * (real m * minor)" by simp
  then show "\<exists>k::int. lo + real j * minor = lo + of_int k * (real m * minor)" by blast
qed

lemma guard_false_iff_major_position:
  assumes "0.001 < minor" "0 < m"
  shows "(minor_tick_guard (lo + real j * minor) lo (real m * minor) = Inr False)
           = (\<exists>k::int. lo + real j * minor = lo + of_int k * (real m * minor))"
proof -
  have pos: "0 < minor" using assms by simp
  have "(0.001 < real (j mod m) * minor) = (\<not> m dvd j)"
  proof (cases "m dvd j")
    case True
    then show ?thesis by simp
  next
    case False
    then have "1 \<le> j mod m" by (simp add: dvd_eq_mod_eq_0)
    then have "1 \<le> real (j mod m)" by simp
    then have "1 * minor \<le> real (j mod m) * minor"
      using pos by (intro mult_right_mono) simp_all
    then have "minor \<le> real (j mod m) * minor" by (simp only: mult_1)
    then have "0.001 < real (j mod m) * minor" by (rule less_le_trans [OF assms(1)])
    with False show ?thesis by simp
  qed
  then show ?thesis
    unfolding guard_at_visited [OF pos assms(2)] major_position_iff [OF pos assms(2)]
    by simp
qed

lemma create_gauge_minor_children:
  assumes "max_value config \<noteq> min_value config"
    and "0 < major_tick_interval config" and "0 < minor_tick_interval config"
  shows "\<exists>objs. create_gauge config = Some (Inr objs)
     \<and> children_of ''MinorTicks'' objs
         = indexed (\<lambda>v. gauge_minor_tick_obj config (the_angle config v)) 0
             (filter (guard_holds (min_value config) (major_tick_interval config))
                (scale_values (max_value config + 0.001) (minor_tick_interval config)
                   (min_value config)))"
proof -
  have m0: "major_tick_interval config \<noteq> 0"
    using assms by simp
  note ne = assms(1)
  obtain zs where zs: "gauge_zones config = Inr zs"
    "\<forall>ob \<in> set zs. obj_parent ob = Some ''Zones''"
    using gauge_zones_result [OF ne] by blast
  obtain nd where nd: "gauge_needle config = Inr nd"
    "obj_parent nd = Some (''Gauge_'' @ cfg_name config)"
    using gauge_needle_result [OF ne] by blast
  have zc: "children_of p zs = (if p = ''Zones'' then zs else [])" for p
    by (rule children_of_same) (simp add: zs(2))
  show ?thesis
    unfolding create_gauge_def Let_def
      gauge_major_loop [OF ne assms(2)] gauge_minor_loop [OF ne assms(3) m0]
      gauge_number_loop [OF ne assms(2)] zs(1) nd(1) then_run_def
    by (simp add: children_of_indexed zc nd(2) new_object_def create_arc_mesh_def
                  create_disk_def create_text_object_def)
qed

lemma create_bar_gauge_minor_children:
  assumes "max_value config \<noteq> min_value config"
    and "0 < major_tick_interval config" and "0 < minor_tick_interval config"
  shows "\<exists>objs. create_bar_gauge config = Some (Inr objs)
     \<and> children_of ''MinorTicks'' objs
         = indexed (\<lambda>v. bar_minor_tick_obj config (the_y_pos config v)) 0
             (filter (guard_holds (min_value config) (major_tick_interval config))
                (scale_values (max_value config + 0.001) (minor_tick_interval config)
                   (min_value config)))"
proof -
  have m0: "major_tick_interval config \<noteq> 0"
    using assms by simp
  note ne = assms(1)
  obtain zs where zs: "bar_zones config = Inr zs"
    "\<forall>ob \<in> set zs. obj_parent ob = Some ''Zones''"
    using bar_zones_result [OF ne] by blast
  have zc: "children_of p zs = (if p = ''Zones'' then zs else [])" for p
    by (rule children_of_same) (simp add: zs(2))
  show ?thesis
    unfolding create_bar_gauge_def Let_def
      bar_major_loop [OF ne assms(2)] bar_minor_loop [OF ne assms(3) m0]
      bar_number_loop [OF ne assms(2)] zs(1) then_run_def
    by (simp add: children_of_indexed zc new_object_def create_box_mesh_def
                  create_rounded_box_def create_tube_outline_def create_sphere_mesh_def
                  create_text_object_def)
qed

lemma create_gauge_zero_span:
  assumes "max_value config = min_value config"
  shows "create_gauge config = Some (Inl (ZeroDivisionError TrueDiv))"
proof -
  have "while_value (gauge_major_tick config) (max_value config + 0.001)
          (major_tick_interval config) (min_value config) 0
        = Some (Inl (ZeroDivisionError TrueDiv))"
    by (subst while_value.simps)
       (simp add: assms gauge_major_tick_def value_to_angle_def py_truediv_def)
  then show ?thesis
    by (simp add: create_gauge_def Let_def then_run_def)
qed

lemma create_bar_gauge_zero_span:
  assumes "max_value config = min_value config"
  shows "create_bar_gauge config = Some (Inl (ZeroDivisionError TrueDiv))"
proof -
  have "while_value (bar_major_tick config) (max_value config + 0.001)
          (major_tick_interval config) (min_value config) 0
        = Some (Inl (ZeroDivisionError TrueDiv))"
    by (subst while_value.simps)
       (simp add: assms bar_major_tick_def value_to_y_position_def value_to_normalized_def
                  py_truediv_def)
  then show ?thesis
    by (simp add: create_bar_gauge_def Let_def then_run_def)
qed

lemma guard_holds_not_major:
  assumes "major \<noteq> 0" "guard_holds lo major v"
  shows "\<not> (\<exists>k::int. v = lo + of_int k * major)"
  using assms guard_at_major_position [OF assms(1), of lo]
  by (auto simp: guard_holds_def)

lemma gauge_minor_ticks_not_major:
  assumes "0 < minor_tick_interval gc" "0 < major_tick_interval gc"
  shows "\<exists>r. create_gauge gc = Some r
          \<and> (\<forall>objs. r = Inr objs \<longrightarrow>
               (\<forall>t \<in> set (children_of ''MinorTicks'' objs). \<exists>j a.
                   (\<forall>k::int. min_value gc + real j * minor_tick_interval gc
                               \<noteq> min_value gc + of_int k * major_tick_interval gc)
                 \<and> value_to_angle (min_value gc + real j * minor_tick_interval gc) gc = Inr a
                 \<and> tick_angle t = Some a))"
proof (cases "max_value gc = min_value gc")
  case True
  show ?thesis unfolding create_gauge_zero_span [OF True] by simp
next
  case False
  have m0: "major_tick_interval gc \<noteq> 0" using assms by simp
  from create_gauge_minor_children [OF False assms(2) assms(1)]
  obtain objs where objs: "create_gauge gc = Some (Inr objs)"
    "children_of ''MinorTicks'' objs
         = indexed (\<lambda>v. gauge_minor_tick_obj gc (the_angle gc v)) 0
             (filter (guard_holds (min_value gc) (major_tick_interval gc))
                (scale_values (max_value gc + 0.001) (minor_tick_interval gc) (min_value gc)))"
    by blast
  have "\<exists>j a. (\<forall>k::int. min_value gc + real j * minor_tick_interval gc
                               \<noteq> min_value gc + of_int k * major_tick_interval gc)
                 \<and> value_to_angle (min_value gc + real j * minor_tick_interval gc) gc = Inr a
                 \<and> tick_angle t = Some a"
    if "t \<in> set (children_of ''MinorTicks'' objs)" for t
  proof -
    from that obtain v i where v: "v \<in> set (scale_values (max_value gc + 0.001)
                                       (minor_tick_interval gc) (min_value gc))"
      "guard_holds (min_value gc) (major_tick_interval gc) v"
      "t = gauge_minor_tick_obj gc (the_angle gc v) i"
      unfolding objs(2) by (auto dest!: set_indexed)
    from set_scale_values [OF v(1)] obtain j
      where j: "v = min_value gc + real j * minor_tick_interval gc" by blast
    have "\<forall>k::int. v \<noteq> min_value gc + of_int k * major_tick_interval gc"
      using guard_holds_not_major [OF m0 v(2)] by blast
    moreover have "value_to_angle v gc = Inr (the_angle gc v)"
      by (rule value_to_angle_the_angle [OF False])
    moreover have "tick_angle t = Some (the_angle gc v)"
      by (simp add: v(3) tick_angle_def gauge_minor_tick_obj_def Let_def create_tick_mark_def
                    new_object_def)
    ultimately show ?thesis unfolding j by blast
  qed
  with objs(1) show ?thesis by simp
qed

lemma bar_minor_ticks_not_major:
  assumes "0 < minor_tick_interval bc" "0 < major_tick_interval bc"
  shows "\<exists>r. create_bar_gauge bc = Some r
          \<and> (\<forall>objs. r = Inr objs \<longrightarrow>
               (\<forall>t \<in> set (children_of ''MinorTicks'' objs). \<exists>j y.
                   (\<forall>k::int. min_value bc + real j * minor_tick_interval bc
                               \<noteq> min_value bc + of_int k * major_tick_interval bc)
                 \<and> value_to_y_position (min_value bc + real j * minor_tick_interval bc) bc
                       (bar_tube_height bc) = Inr y
                 \<and> loc_y t = bar_tube_bottom_y bc + y))"
proof (cases "max_value bc = min_value bc")
  case True
  show ?thesis unfolding create_bar_gauge_zero_span [OF True] by simp
next
  case False
  have m0: "major_tick_interval bc \<noteq> 0" using assms by simp
  from create_bar_gauge_minor_children [OF False assms(2) assms(1)]
  obtain objs where objs: "create_bar_gauge bc = Some (Inr objs)"
    "children_of ''MinorTicks'' objs
         = indexed (\<lambda>v. bar_minor_tick_obj bc (the_y_pos bc v)) 0
             (filter (guard_holds (min_value bc) (major_tick_interval bc))
                (scale_values (max_value bc + 0.001) (minor_tick_interval bc) (min_value bc)))"
    by blast
  have "\<exists>j y. (\<forall>k::int. min_value bc + real j * minor_tick_interval bc
                               \<noteq> min_value bc + of_int k * major_tick_interval bc)
                 \<and> value_to_y_position (min_value bc + real j * minor_tick_interval bc) bc
                       (bar_tube_height bc) = Inr y
                 \<and> loc_y t = bar_tube_bottom_y bc + y"
    if "t \<in> set (children_of ''MinorTicks'' objs)" for t
  proof -
    from that obtain v i where v: "v \<in> set (scale_values (max_value bc + 0.001)
                                       (minor_tick_interval bc) (min_value bc))"
      "guard_holds (min_value bc) (major_tick_interval bc) v"
      "t = bar_minor_tick_obj bc (the_y_pos bc v) i"
      unfolding objs(2) by (auto dest!: set_indexed)
    from set_scale_values [OF v(1)] obtain j
      where j: "v = min_value bc + real j * minor_tick_interval bc" by blast
    have "\<forall>k::int. v \<noteq> min_value bc + of_int k * major_tick_interval bc"
      using guard_holds_not_major [OF m0 v(2)] by blast
    moreover have "value_to_y_position v bc (bar_tube_height bc)
                     = Inr (the_y_pos bc v - bar_tube_bottom_y bc)"
      by (rule value_to_y_position_the_y_pos [OF False])
    moreover have "loc_y t = bar_tube_bottom_y bc + (the_y_pos bc v - bar_tube_bottom_y bc)"
      by (simp add: v(3) loc_y_def bar_minor_tick_obj_def Let_def create_box_mesh_def
                    new_object_def)
    ultimately show ?thesis unfolding j by blast
  qed
  with objs(1) show ?thesis by simp
qed

lemma minor_tick_skipped:
  assumes "major_tick_interval gc \<noteq> 0" "major_tick_interval bc \<noteq> 0"
  shows "minor_tick_guard (min_value gc + of_int k * major_tick_interval gc)
            (min_value gc) (major_tick_interval gc) = Inr False
       \<and> gauge_minor_tick gc (min_value gc + of_int k * major_tick_interval gc) idx = Inr ([], idx)
       \<and> minor_tick_guard (min_value bc + of_int k * major_tick_interval bc)
            (min_value bc) (major_tick_interval bc) = Inr False
       \<and> bar_minor_tick bc (min_value bc + of_int k * major_tick_interval bc) idx = Inr ([], idx)"
  by (simp add: gauge_minor_tick_def bar_minor_tick_def guard_at_major_position assms)

text \<open>
  C10 (as amended). When \<open>minor_tick_interval > 0\<close> and \<open>major_tick_interval\<close> is a
  positive whole multiple of it, then in both scripts, at every value
  \<open>min_value + k * major_tick_interval\<close> (\<open>k\<close> any integer) the guard of the minor tick
  loop is false and the body of the loop creates no tick and does not advance the tick
  index; the script returns (possibly with an exception), and every minor tick of the
  scene it builds is placed at a value \<open>min_value + j * minor_tick_interval\<close> that is not
  of the form \<open>min_value + k * major_tick_interval\<close>. The guard is false at exactly the
  major positions among the values \<open>min_value + j * minor_tick_interval\<close> only when
  \<open>minor_tick_interval > 0.001\<close>.
\<close>

theorem minor_ticks_skip_major_positions:
  assumes "0 < minor_tick_interval gc" and "0 < m"
    and "major_tick_interval gc = real m * minor_tick_interval gc"
    and "0 < minor_tick_interval bc" and "0 < n"
    and "major_tick_interval bc = real n * minor_tick_interval bc"
  shows "(\<forall>(k::int) idx.
            minor_tick_guard (min_value gc + of_int k * major_tick_interval gc)
              (min_value gc) (major_tick_interval gc) = Inr False
          \<and> gauge_minor_tick gc (min_value gc + of_int k * major_tick_interval gc) idx = Inr ([], idx)
          \<and> minor_tick_guard (min_value bc + of_int k * major_tick_interval bc)
              (min_value bc) (major_tick_interval bc) = Inr False
          \<and> bar_minor_tick bc (min_value bc + of_int k * major_tick_interval bc) idx = Inr ([], idx))
     \<and> (\<exists>r. create_gauge gc = Some r
          \<and> (\<forall>objs. r = Inr objs \<longrightarrow>
               (\<forall>t \<in> set (children_of ''MinorTicks'' objs). \<exists>j a.
                   (\<forall>k::int. min_value gc + real j * minor_tick_interval gc
                               \<noteq> min_value gc + of_int k * major_tick_interval gc)
                 \<and> value_to_angle (min_value gc + real j * minor_tick_interval gc) gc = Inr a
                 \<and> tick_angle t = Some a)))
     \<and> (\<exists>r. create_bar_gauge bc = Some r
          \<and> (\<forall>objs. r = Inr objs \<longrightarrow>
               (\<forall>t \<in> set (children_of ''MinorTicks'' objs). \<exists>j y.
                   (\<forall>k::int. min_value bc + real j * minor_tick_interval bc
                               \<noteq> min_value bc + of_int k * major_tick_interval bc)
                 \<and> value_to_y_position (min_value bc + real j * minor_tick_interval bc) bc
                       (bar_tube_height bc) = Inr y
                 \<and> loc_y t = bar_tube_bottom_y bc + y)))
     \<and> (0.001 < minor_tick_interval gc \<longrightarrow>
          (\<forall>j::nat. (minor_tick_guard (min_value gc + real j * minor_tick_interval gc)
                        (min_value gc) (major_tick_interval gc) = Inr False)
                   = (\<exists>k::int. min_value gc + real j * minor_tick_interval gc
                               = min_value gc + of_int k * major_tick_interval gc)))
     \<and> (0.001 < minor_tick_interval bc \<longrightarrow>
          (\<forall>j::nat. (minor_tick_guard (min_value bc + real j * minor_tick_interval bc)
                        (min_value bc) (major_tick_interval bc) = Inr False)
                   = (\<exists>k::int. min_value bc + real j * minor_tick_interval bc
                               = min_value bc + of_int k * major_tick_interval bc)))"
proof -
  have gpos: "0 < major_tick_interval gc" and bpos: "0 < major_tick_interval bc"
    using assms by simp_all
  then have g0: "major_tick_interval gc \<noteq> 0" and b0: "major_tick_interval bc \<noteq> 0"
    by simp_all
  note skip = minor_tick_skipped [OF g0 b0]
  note arc = gauge_minor_ticks_not_major [OF assms(1) gpos]
  note bar = bar_minor_ticks_not_major [OF assms(4) bpos]
  have gx: "0.001 < minor_tick_interval gc \<longrightarrow>
          (\<forall>j::nat. (minor_tick_guard (min_value gc + real j * minor_tick_interval gc)
                        (min_value gc) (major_tick_interval gc) = Inr False)
                   = (\<exists>k::int. min_value gc + real j * minor_tick_interval gc
                               = min_value gc + of_int k * major_tick_interval gc))"
    unfolding assms(3) using guard_false_iff_major_position [OF _ assms(2)] by blast
  have bx: "0.001 < minor_tick_interval bc \<longrightarrow>
          (\<forall>j::nat. (minor_tick_guard (min_value bc + real j * minor_tick_interval bc)
                        (min_value bc) (major_tick_interval bc) = Inr False)
                   = (\<exists>k::int. min_value bc + real j * minor_tick_interval bc
                               = min_value bc + of_int k * major_tick_interval bc))"
    unfolding assms(6) using guard_false_iff_major_position [OF _ assms(5)] by blast
  have sk: "\<forall>(k::int) idx.
            minor_tick_guard (min_value gc + of_int k * major_tick_interval gc)
              (min_value gc) (major_tick_interval gc) = Inr False
          \<and> gauge_minor_tick gc (min_value gc + of_int k * major_tick_interval gc) idx = Inr ([], idx)
          \<and> minor_tick_guard (min_value bc + of_int k * major_tick_interval bc)
              (min_value bc) (major_tick_interval bc) = Inr False
          \<and> bar_minor_tick bc (min_value bc + of_int k * major_tick_interval bc) idx = Inr ([], idx)"
    using skip by blast
  show ?thesis
    by (intro conjI) (rule sk, rule arc, rule bar, rule gx, rule bx)
qed

theorem minor_ticks_skip_major_positions_witness:
  "0 < minor_tick_interval GaugeConfig \<and> (0::nat) < 5
   \<and> major_tick_interval GaugeConfig = real 5 * minor_tick_interval GaugeConfig
   \<and> 0 < minor_tick_interval BarGaugeConfig
   \<and> major_tick_interval BarGaugeConfig = real 5 * minor_tick_interval BarGaugeConfig
   \<and> gauge_minor_tick GaugeConfig 400 7 = Inr ([], 7)
   \<and> bar_minor_tick BarGaugeConfig 400 7 = Inr ([], 7)
   \<and> (\<exists>r. create_gauge GaugeConfig = Some r)
   \<and> (\<exists>r. create_bar_gauge BarGaugeConfig = Some r)"
proof -
  have h: "0 < minor_tick_interval GaugeConfig" "(0::nat) < 5"
    "major_tick_interval GaugeConfig = real 5 * minor_tick_interval GaugeConfig"
    "0 < minor_tick_interval BarGaugeConfig" "(0::nat) < 5"
    "major_tick_interval BarGaugeConfig = real 5 * minor_tick_interval BarGaugeConfig"
    by (simp_all add: GaugeConfig_def BarGaugeConfig_def)
  note t = minor_ticks_skip_major_positions [OF h]
  from t have "\<forall>(k::int) idx.
       gauge_minor_tick GaugeConfig
         (min_value GaugeConfig + of_int k * major_tick_interval GaugeConfig) idx = Inr ([], idx)
     \<and> bar_minor_tick BarGaugeConfig
         (min_value BarGaugeConfig + of_int k * major_tick_interval BarGaugeConfig) idx = Inr ([], idx)"
    by blast
  from this [rule_format, of 3 7]
  have a: "gauge_minor_tick GaugeConfig 400 7 = Inr ([], 7)"
    and b: "bar_minor_tick BarGaugeConfig 400 7 = Inr ([], 7)"
    by (simp_all add: GaugeConfig_def BarGaugeConfig_def)
  from t have c: "\<exists>r. create_gauge GaugeConfig = Some r"
    and d: "\<exists>r. create_bar_gauge BarGaugeConfig = Some r"
    by blast+
  from h a b c d show ?thesis by (intro conjI)
qed

text \<open>
  C10 as stated fails in its last part: with \<open>minor_tick_interval = 0.0005\<close> and
  \<open>major_tick_interval = 0.001\<close> the guard is false, and no tick is created, at the
  value \<open>min_value + minor_tick_interval\<close>, which is no major position.
\<close>

theorem minor_tick_guard_small_interval_counterexample:
  "let c = GaugeConfig\<lparr>min_value := 0, max_value := 0.01,
                        major_tick_interval := 0.001, minor_tick_interval := 0.0005\<rparr>
   in 0 < minor_tick_interval c
    \<and> major_tick_interval c = real 2 * minor_tick_interval c
    \<and> minor_tick_guard (min_value c + real 1 * minor_tick_interval c)
         (min_value c) (major_tick_interval c) = Inr False
    \<and> gauge_minor_tick c (min_value c + real 1 * minor_tick_interval c) 0 = Inr ([], 0)
    \<and> (\<forall>k::int. min_value c + real 1 * minor_tick_interval c
                  \<noteq> min_value c + of_int k * major_tick_interval c)"
proof -
  have g: "minor_tick_guard 0.0005 0 0.001 = Inr False"
    by (simp add: minor_tick_guard_def py_mod_def)
  have np: "(0.0005::real) \<noteq> of_int k * 0.001" for k :: int
  proof
    assume "(0.0005::real) = of_int k * 0.001"
    then have "of_int (2 * k) = (1::real)" by simp
    then have "2 * k = 1" by (simp only: of_int_eq_1_iff)
    then show False by presburger
  qed
  show ?thesis
    using g np by (simp add: Let_def GaugeConfig_def gauge_minor_tick_def)
qed

section \<open>The bezels and the anchors of the operator panel\<close>

lemma box_faces:
  "x_faces (create_box nm x y z w h d material bevel parent)
     = (x + w / 2 - \<bar>w\<bar> / 2, x + w / 2 + \<bar>w\<bar> / 2)"
  "y_faces (create_box nm x y z w h d material bevel parent)
     = (y + h / 2 - \<bar>h\<bar> / 2, y + h / 2 + \<bar>h\<bar> / 2)"
  "z_faces (create_box nm x y z w h d material bevel parent)
     = (z + d / 2 - \<bar>d\<bar> / 2, z + d / 2 + \<bar>d\<bar> / 2)"
  by (simp_all add: x_faces_def y_faces_def z_faces_def create_box_def new_object_def)

lemma box_faces_nonneg:
  "0 \<le> w \<Longrightarrow> x_faces (create_box nm x y z w h d material bevel parent) = (x, x + w)"
  "0 \<le> h \<Longrightarrow> y_faces (create_box nm x y z w h d material bevel parent) = (y, y + h)"
  "0 \<le> d \<Longrightarrow> z_faces (create_box nm x y z w h d material bevel parent) = (z, z + d)"
  by (simp_all add: box_faces)

text \<open>
  C7, for bezels at least as wide and as high as two frame widths. With
  \<open>frame_w = 0.04\<close>, \<open>2 * frame_w \<le> width\<close> and \<open>2 * frame_w \<le> height\<close>, the bezel of
  \<open>create_bezel\<close> is a raised frame around a recessed display: it consists of four
  bars and a display box; each bar extends in \<open>z\<close> from 0 to \<open>BEZEL_DEPTH\<close>, above the
  panel surface \<open>z = 0\<close>; the display box extends in \<open>z\<close> from \<open>- RECESS_DEPTH\<close> to 0,
  below it; the display box extends over
  \<open>[x + frame_w, x + width - frame_w]\<close> by \<open>[y + frame_w, y + height - frame_w]\<close>,
  which lies inside the outer rectangle \<open>[x, x + width]\<close> by \<open>[y, y + height]\<close> of the
  frame, whose bars run along its four sides.
\<close>

theorem bezel_raised_frame_recessed_display:
  assumes "2 * 0.04 \<le> w" and "2 * 0.04 \<le> h"
  shows "\<exists>top bot left right display.
     create_bezel nm x y w h material parent = [top, bot, left, right, display]
   \<and> z_faces top = (0, BEZEL_DEPTH) \<and> z_faces bot = (0, BEZEL_DEPTH)
   \<and> z_faces left = (0, BEZEL_DEPTH) \<and> z_faces right = (0, BEZEL_DEPTH)
   \<and> 0 < BEZEL_DEPTH
   \<and> z_faces display = (- RECESS_DEPTH, 0) \<and> - RECESS_DEPTH < 0
   \<and> x_faces display = (x + 0.04, x + w - 0.04)
   \<and> y_faces display = (y + 0.04, y + h - 0.04)
   \<and> x \<le> x + 0.04 \<and> x + 0.04 \<le> x + w - 0.04 \<and> x + w - 0.04 \<le> x + w
   \<and> y \<le> y + 0.04 \<and> y + 0.04 \<le> y + h - 0.04 \<and> y + h - 0.04 \<le> y + h
   \<and> x_faces top = (x, x + w) \<and> y_faces top = (y + h - 0.04, y + h)
   \<and> x_faces bot = (x, x + w) \<and> y_faces bot = (y, y + 0.04)
   \<and> x_faces left = (x, x + 0.04) \<and> y_faces left = (y, y + h)
   \<and> x_faces right = (x + w - 0.04, x + w) \<and> y_faces right = (y, y + h)"
  using assms
  by (simp add: create_bezel_def create_recessed_area_def box_faces Let_def
                BEZEL_DEPTH_def RECESS_DEPTH_def)

theorem bezel_raised_frame_recessed_display_witness:
  "2 * 0.04 \<le> (1::real) \<and> 2 * 0.04 \<le> (0.5::real)
   \<and> (\<exists>top bot left right display.
         create_bezel ''Gauge'' 0 0 1 0.5 None None = [top, bot, left, right, display]
       \<and> z_faces top = (0, BEZEL_DEPTH) \<and> z_faces display = (- RECESS_DEPTH, 0)
       \<and> x_faces display = (0.04, 0.96) \<and> y_faces display = (0.04, 0.46)
       \<and> x_faces top = (0, 1) \<and> y_faces top = (0.46, 0.5))"
proof -
  have h: "2 * 0.04 \<le> (1::real)" "2 * 0.04 \<le> (0.5::real)" by simp_all
  note t = bezel_raised_frame_recessed_display [OF h, of "''Gauge''" 0 0 None None]
  have "\<exists>top bot left right display.
         create_bezel ''Gauge'' 0 0 1 0.5 None None = [top, bot, left, right, display]
       \<and> z_faces top = (0, BEZEL_DEPTH) \<and> z_faces display = (- RECESS_DEPTH, 0)
       \<and> x_faces display = (0.04, 0.96) \<and> y_faces display = (0.04, 0.46)
       \<and> x_faces top = (0, 1) \<and> y_faces top = (0.46, 0.5)"
    using t by (elim exE conjE) (intro exI conjI; simp)
  with h show ?thesis by (intro conjI)
qed

text \<open>
  C7 as stated, for every bezel, fails for a narrow one. At the width 0.02 the display
  box is resized by the negative factor \<open>0.02 - 2 * frame_w\<close>: it extends in \<open>x\<close> from
  \<open>- 0.02\<close> to 0.04, on both sides beyond the outer rectangle of the frame, which the
  top bar spans from 0 to 0.02.
\<close>

theorem narrow_bezel_display_counterexample:
  "obj_name (create_bezel ''Gauge'' 0 0 0.02 1 None None ! 4) = ''Gauge_display''
   \<and> x_faces (create_bezel ''Gauge'' 0 0 0.02 1 None None ! 4) = (- 0.02, 0.04)
   \<and> x_faces (create_bezel ''Gauge'' 0 0 0.02 1 None None ! 0) = (0, 0.02)
   \<and> (- 0.02 :: real) < 0 \<and> (0.02 :: real) < 0.04"
proof -
  have n: "obj_name (create_box nm x y z w h d material bevel parent) = nm"
    for nm x y z w h d material bevel parent
    by (simp add: create_box_def new_object_def)
  show ?thesis
    by (simp add: create_bezel_def create_recessed_area_def box_faces n Let_def)
qed









lemma fl_height: "fl 10.80 = 6079859496950170 / 2 ^ 49"
  by (subst fl_pos_scaled [where k = 49]) (simp_all add: round_half_even_def Let_def)





section \<open>Applying the modifiers\<close>






lemma after_modifiers_one:
  "is_mesh ob \<Longrightarrow> obj_modifiers ob = [m] \<Longrightarrow>
     after_modifiers apply ob = (case apply ob (fst m) of Inl e \<Rightarrow> ob | Inr ob' \<Rightarrow> ob')"
  by (simp add: after_modifiers_def)
















section \<open>The output directory of the render\<close>

lemma try_candidates_member: "try_candidates env ps = Some d \<Longrightarrow> d \<in> set ps"
  by (induction ps) (auto split: if_splits)

text \<open>
  C9. \<open>find_output_dir\<close> always returns \<open>True\<close> and leaves \<open>OUTPUT_DIR\<close> set to
  a path: one of the candidates, the directory of the open file, or the desktop. So the
  branch of \<open>render_panel\<close> for a failed \<open>find_output_dir\<close> is never taken, and
  \<open>render_panel\<close> returns \<open>False\<close> exactly when the scene has no object named
  \<open>ReactorOperatorPanel\<close>.
\<close>

theorem find_output_dir_always_true:
  "(\<exists>d. find_output_dir env = (True, Some d)
        \<and> (d \<in> set (candidates env) \<or> d = os_dirname env (data_filepath env)
             \<or> d = os_join env [os_home env, ''Desktop'']))
   \<and> ((\<exists>s. render_panel env render_ok scene = Inr (False, s))
        = (find (\<lambda>ob. obj_name ob = ''ReactorOperatorPanel'') scene = None))
   \<and> ((\<exists>s. render_panel env render_ok scene = Inr (False, s))
        = (''ReactorOperatorPanel'' \<notin> obj_name ` set scene))"
proof -
  have a: "\<exists>d. find_output_dir env = (True, Some d)
        \<and> (d \<in> set (candidates env) \<or> d = os_dirname env (data_filepath env)
             \<or> d = os_join env [os_home env, ''Desktop''])"
    by (auto simp: find_output_dir_def split: option.splits dest: try_candidates_member)
  then obtain d where d: "find_output_dir env = (True, Some d)" by blast
  have b: "(\<exists>s. render_panel env render_ok scene = Inr (False, s))
        = (find (\<lambda>ob. obj_name ob = ''ReactorOperatorPanel'') scene = None)"
    by (cases "find (\<lambda>ob. obj_name ob = ''ReactorOperatorPanel'') scene")
       (simp_all add: render_panel_def d Let_def)
  have c: "(find (\<lambda>ob. obj_name ob = ''ReactorOperatorPanel'') scene = None)
        = (''ReactorOperatorPanel'' \<notin> obj_name ` set scene)"
    unfolding find_None_iff by force
  from a b c show ?thesis by simp
qed

section \<open>The piping of the primary loop\<close>

lemma straight_pipe_ends:
  fixes ax ay az bx "by" bz :: real
  assumes "(ax, ay, az) \<noteq> (bx, by, bz)"
  defines "len \<equiv> sqrt ((bx - ax) * (bx - ax) + (by - ay) * (by - ay) + (bz - az) * (bz - az))"
  shows "axis_point ((ax + bx) / 2, (ay + by) / 2, (az + bz) / 2)
           (RotationDifference (0, 0, 1) (normalized (bx - ax, by - ay, bz - az))) (- len / 2)
         = (ax, ay, az)"
    and "axis_point ((ax + bx) / 2, (ay + by) / 2, (az + bz) / 2)
           (RotationDifference (0, 0, 1) (normalized (bx - ax, by - ay, bz - az))) (len / 2)
         = (bx, by, bz)"
proof -
  have "(bx - ax) * (bx - ax) + (by - ay) * (by - ay) + (bz - az) * (bz - az) \<noteq> 0"
    using assms(1) by (auto simp: add_nonneg_eq_0_iff)
  then have l0: "len \<noteq> 0" by (simp add: len_def)
  have n: "normalized (bx - ax, by - ay, bz - az) = ((bx - ax) / len, (by - ay) / len, (bz - az) / len)"
    using l0 by (simp add: normalized_def len_def Let_def)
  have u: "normalized (0, 0, 1) = (0, 0, 1)"
    by (simp add: normalized_def)
  have unit: "((bx - ax) / len) * ((bx - ax) / len) + ((by - ay) / len) * ((by - ay) / len)
              + ((bz - az) / len) * ((bz - az) / len) = 1"
  proof -
    have sq: "len * len = (bx - ax) * (bx - ax) + (by - ay) * (by - ay) + (bz - az) * (bz - az)"
      unfolding len_def by (simp add: add_nonneg_nonneg)
    have "((bx - ax) / len) * ((bx - ax) / len) + ((by - ay) / len) * ((by - ay) / len)
              + ((bz - az) / len) * ((bz - az) / len)
          = ((bx - ax) * (bx - ax) + (by - ay) * (by - ay) + (bz - az) * (bz - az)) / (len * len)"
      by (simp add: add_divide_distrib)
    also have "\<dots> = 1" using l0 by (simp only: sq [symmetric]) simp
    finally show ?thesis .
  qed
  have nn: "normalized ((bx - ax) / len, (by - ay) / len, (bz - az) / len)
              = ((bx - ax) / len, (by - ay) / len, (bz - az) / len)"
    using unit by (simp add: normalized_def Let_def)
  show "axis_point ((ax + bx) / 2, (ay + by) / 2, (az + bz) / 2)
           (RotationDifference (0, 0, 1) (normalized (bx - ax, by - ay, bz - az))) (- len / 2)
         = (ax, ay, az)"
    using l0 by (simp add: axis_point_def local_z_axis_def u n nn vadd_def smul_def field_simps)
  show "axis_point ((ax + bx) / 2, (ay + by) / 2, (az + bz) / 2)
           (RotationDifference (0, 0, 1) (normalized (bx - ax, by - ay, bz - az))) (len / 2)
         = (bx, by, bz)"
    using l0 by (simp add: axis_point_def local_z_axis_def u n nn vadd_def smul_def field_simps)
qed

lemma pipe_object_ends:
  fixes ax ay az bx "by" bz :: real
  assumes "(ax, ay, az) \<noteq> (bx, by, bz)"
  shows "cyl_start ((create_cylinder nm r
             (sqrt ((bx - ax) * (bx - ax) + (by - ay) * (by - ay) + (bz - az) * (bz - az))) n
             ((ax + bx) / 2, (ay + by) / 2, (az + bz) / 2))
           \<lparr>obj_rotation := RotationDifference (0, 0, 1) (normalized (bx - ax, by - ay, bz - az)),
            obj_materials := ms\<rparr>) = (ax, ay, az)"
    and "cyl_end ((create_cylinder nm r
             (sqrt ((bx - ax) * (bx - ax) + (by - ay) * (by - ay) + (bz - az) * (bz - az))) n
             ((ax + bx) / 2, (ay + by) / 2, (az + bz) / 2))
           \<lparr>obj_rotation := RotationDifference (0, 0, 1) (normalized (bx - ax, by - ay, bz - az)),
            obj_materials := ms\<rparr>) = (bx, by, bz)"
  using straight_pipe_ends [OF assms]
  by (simp_all add: cyl_start_def cyl_end_def create_cylinder_def new_object_def scaled_def
                    SCALE_def shape_depth_def)

lemma cyl_ends_parent [simp]:
  "cyl_start (ob\<lparr>obj_parent := p\<rparr>) = cyl_start ob"
  "cyl_end (ob\<lparr>obj_parent := p\<rparr>) = cyl_end ob"
  by (simp_all add: cyl_start_def cyl_end_def split: obj_data.splits)

lemma cos_sin_not_both_zero: "cos a = 0 \<Longrightarrow> sin a \<noteq> (0::real)"
  using sin_cos_squared_add [of a] by auto

lemma hot_leg_ends:
  "cyl_start (create_hot_leg n a) = (cos a * (RV_RADIUS + 2), sin a * (RV_RADIUS + 2), RV_NOZZLE_HEIGHT + 2)"
  "cyl_end (create_hot_leg n a) = (cos a * LOOP_RADIUS, sin a * LOOP_RADIUS, SG_INLET_HEIGHT)"
proof -
  have ne: "(cos a * (RV_RADIUS + 2), sin a * (RV_RADIUS + 2), RV_NOZZLE_HEIGHT + 2)
              \<noteq> (cos a * LOOP_RADIUS, sin a * LOOP_RADIUS, SG_INLET_HEIGHT)"
    using cos_sin_not_both_zero [of a] by (auto simp: RV_RADIUS_def LOOP_RADIUS_def)
  show "cyl_start (create_hot_leg n a) = (cos a * (RV_RADIUS + 2), sin a * (RV_RADIUS + 2), RV_NOZZLE_HEIGHT + 2)"
    unfolding create_hot_leg_def Let_def by (rule pipe_object_ends(1) [OF ne])
  show "cyl_end (create_hot_leg n a) = (cos a * LOOP_RADIUS, sin a * LOOP_RADIUS, SG_INLET_HEIGHT)"
    unfolding create_hot_leg_def Let_def by (rule pipe_object_ends(2) [OF ne])
qed

lemma crossover_leg_ends:
  assumes "pz \<noteq> SG_LOWER_RADIUS + 2"
  shows "cyl_start (create_crossover_leg n a (px, py, pz))
           = (cos a * LOOP_RADIUS, sin a * LOOP_RADIUS, SG_LOWER_RADIUS + 2)"
    and "cyl_end (create_crossover_leg n a (px, py, pz)) = (px, py, pz)"
proof -
  have ne: "(cos a * LOOP_RADIUS, sin a * LOOP_RADIUS, SG_LOWER_RADIUS + 2) \<noteq> (px, py, pz)"
    using assms by auto
  show "cyl_start (create_crossover_leg n a (px, py, pz))
           = (cos a * LOOP_RADIUS, sin a * LOOP_RADIUS, SG_LOWER_RADIUS + 2)"
    unfolding create_crossover_leg_def Let_def prod.case by (rule pipe_object_ends(1) [OF ne])
  show "cyl_end (create_crossover_leg n a (px, py, pz)) = (px, py, pz)"
    unfolding create_crossover_leg_def Let_def prod.case by (rule pipe_object_ends(2) [OF ne])
qed

lemma cold_leg_ends:
  assumes "pz + RCP_BODY_HEIGHT / 2 \<noteq> RV_NOZZLE_HEIGHT"
  shows "cyl_start (create_cold_leg n a (px, py, pz)) = (px, py, pz + RCP_BODY_HEIGHT / 2)"
    and "cyl_end (create_cold_leg n a (px, py, pz))
           = (cos (a + radians 45) * (RV_RADIUS + 2), sin (a + radians 45) * (RV_RADIUS + 2),
              RV_NOZZLE_HEIGHT)"
proof -
  have ne: "(px, py, pz + RCP_BODY_HEIGHT / 2)
             \<noteq> (cos (a + radians 45) * (RV_RADIUS + 2), sin (a + radians 45) * (RV_RADIUS + 2),
              RV_NOZZLE_HEIGHT)"
    using assms by auto
  show "cyl_start (create_cold_leg n a (px, py, pz)) = (px, py, pz + RCP_BODY_HEIGHT / 2)"
    unfolding create_cold_leg_def Let_def prod.case by (rule pipe_object_ends(1) [OF ne])
  show "cyl_end (create_cold_leg n a (px, py, pz))
           = (cos (a + radians 45) * (RV_RADIUS + 2), sin (a + radians 45) * (RV_RADIUS + 2),
              RV_NOZZLE_HEIGHT)"
    unfolding create_cold_leg_def Let_def prod.case by (rule pipe_object_ends(2) [OF ne])
qed

lemma basic_not_torus: "basic_primitive s \<Longrightarrow> \<not> is_torus s"
  by (cases s) (simp_all add: basic_primitive_def is_torus_def)

lemma only_basic_no_torus: "only_basic_primitives ob \<Longrightarrow> \<not> has_torus ob"
  by (cases "obj_data ob")
     (auto simp: only_basic_primitives_def has_torus_def list_all_iff list_ex_iff
           dest: basic_not_torus)

lemma position_of_create_rcp:
  "position_of ((create_rcp n a)\<lparr>obj_parent := p\<rparr>)
     = Inr (cos (a + radians 25) * (LOOP_RADIUS * 0.6), sin (a + radians 25) * (LOOP_RADIUS * 0.6),
            RCP_HEIGHT)"
  by (simp add: position_of_def get_prop_def create_rcp_def Let_def)

lemma position_of_create_pressurizer:
  "\<exists>pos. position_of (create_pressurizer\<lparr>obj_parent := p\<rparr>) = Inr pos"
proof -
  have "position_of (create_pressurizer\<lparr>obj_parent := p\<rparr>)
          = Inr (cos (radians (135 + 30)) * (LOOP_RADIUS * 0.5),
                 sin (radians (135 + 30)) * (LOOP_RADIUS * 0.5), PZR_ELEVATION)"
    by (simp add: position_of_def get_prop_def create_pressurizer_def Let_def)
  then show ?thesis by blast
qed

lemma loop_components_result:
  "loop_components js scene rps
     = Inr (scene @ concat (map (\<lambda>i.
               [(create_steam_generator (i + 1) (loop_angle i))\<lparr>obj_parent := Some ''Components''\<rparr>,
                (create_rcp (i + 1) (loop_angle i))\<lparr>obj_parent := Some ''Components''\<rparr>]) js),
            rps @ map rcp_position js)"
  by (induction js arbitrary: scene rps)
     (simp_all add: Let_def position_of_create_rcp rcp_position_def)

lemma loop_piping_result:
  "(\<And>i. i \<in> set js \<Longrightarrow> i < length rps) \<Longrightarrow>
   loop_piping js rps scene
     = Inr (scene @ concat (map (\<lambda>i.
               [(create_hot_leg (i + 1) (loop_angle i))\<lparr>obj_parent := Some ''Piping''\<rparr>,
                (create_crossover_leg (i + 1) (loop_angle i) (rps ! i))\<lparr>obj_parent := Some ''Piping''\<rparr>,
                (create_cold_leg (i + 1) (loop_angle i) (rps ! i))\<lparr>obj_parent := Some ''Piping''\<rparr>]) js))"
  by (induction js arbitrary: scene) (simp_all add: Let_def)

lemma map_nth_upt: "map (\<lambda>i. f (map g [0..<n] ! i)) [0..<n] = map (\<lambda>i. f (g i)) [0..<n]"
  by (rule map_cong) simp_all

lemma rcs_main_result:
  "\<exists>pzr_pos. position_of (create_pressurizer\<lparr>obj_parent := Some ''Components''\<rparr>) = Inr pzr_pos
    \<and> rcs_main scene = Inr
     ([create_empty ''RCS_Primary_Loop'' (0, 0, 0),
       (create_empty ''Components'' (0, 0, 0))\<lparr>obj_parent := Some ''RCS_Primary_Loop''\<rparr>,
       (create_empty ''Piping'' (0, 0, 0))\<lparr>obj_parent := Some ''RCS_Primary_Loop''\<rparr>,
       (create_empty ''FlowArrows'' (0, 0, 0))\<lparr>obj_parent := Some ''RCS_Primary_Loop''\<rparr>,
       (create_empty ''Labels'' (0, 0, 0))\<lparr>obj_parent := Some ''RCS_Primary_Loop''\<rparr>,
       create_reactor_vessel\<lparr>obj_parent := Some ''Components''\<rparr>]
      @ concat (map (\<lambda>i.
               [(create_steam_generator (i + 1) (loop_angle i))\<lparr>obj_parent := Some ''Components''\<rparr>,
                (create_rcp (i + 1) (loop_angle i))\<lparr>obj_parent := Some ''Components''\<rparr>]) [0..<4])
      @ [create_pressurizer\<lparr>obj_parent := Some ''Components''\<rparr>]
      @ concat (map (\<lambda>i.
               [(create_hot_leg (i + 1) (loop_angle i))\<lparr>obj_parent := Some ''Piping''\<rparr>,
                (create_crossover_leg (i + 1) (loop_angle i) (rcp_position i))\<lparr>obj_parent := Some ''Piping''\<rparr>,
                (create_cold_leg (i + 1) (loop_angle i) (rcp_position i))\<lparr>obj_parent := Some ''Piping''\<rparr>])
             [0..<4])
      @ [(create_surge_line pzr_pos)\<lparr>obj_parent := Some ''Piping''\<rparr>]
      @ map (\<lambda>arrow. arrow\<lparr>obj_parent := Some ''FlowArrows''\<rparr>) create_flow_arrows
      @ map (\<lambda>label. label\<lparr>obj_parent := Some ''Labels''\<rparr>) create_loop_labels
      @ [(new_object ''Sun'' (LightData SunLight 3.0))\<lparr>obj_location := (50, 50, 100)\<rparr>,
         (new_object ''Camera'' CameraData)
            \<lparr>obj_location := (100, - 100, 80),
             obj_rotation := Euler (radians 60) 0 (radians 45)\<rparr>])"
proof -
  obtain pzr_pos where pz: "position_of (create_pressurizer\<lparr>obj_parent := Some ''Components''\<rparr>) = Inr pzr_pos"
    using position_of_create_pressurizer by blast
  have pip: "loop_piping [0..<4] (map rcp_position [0..<4]) sc
     = Inr (sc @ concat (map (\<lambda>i.
               [(create_hot_leg (i + 1) (loop_angle i))\<lparr>obj_parent := Some ''Piping''\<rparr>,
                (create_crossover_leg (i + 1) (loop_angle i) (rcp_position i))\<lparr>obj_parent := Some ''Piping''\<rparr>,
                (create_cold_leg (i + 1) (loop_angle i) (rcp_position i))\<lparr>obj_parent := Some ''Piping''\<rparr>])
             [0..<4]))" for sc
  proof -
    have "concat (map (\<lambda>i.
               [(create_hot_leg (i + 1) (loop_angle i))\<lparr>obj_parent := Some ''Piping''\<rparr>,
                (create_crossover_leg (i + 1) (loop_angle i) (map rcp_position [0..<4] ! i))\<lparr>obj_parent := Some ''Piping''\<rparr>,
                (create_cold_leg (i + 1) (loop_angle i) (map rcp_position [0..<4] ! i))\<lparr>obj_parent := Some ''Piping''\<rparr>])
             [0..<4])
        = concat (map (\<lambda>i.
               [(create_hot_leg (i + 1) (loop_angle i))\<lparr>obj_parent := Some ''Piping''\<rparr>,
                (create_crossover_leg (i + 1) (loop_angle i) (rcp_position i))\<lparr>obj_parent := Some ''Piping''\<rparr>,
                (create_cold_leg (i + 1) (loop_angle i) (rcp_position i))\<lparr>obj_parent := Some ''Piping''\<rparr>])
             [0..<4])"
      by (rule arg_cong [where f = concat], rule map_cong) simp_all
    then show ?thesis
      by (subst loop_piping_result) simp_all
  qed
  show ?thesis
    by (rule exI [of _ pzr_pos])
       (simp add: pz rcs_main_def clear_scene_def Let_def loop_components_result pip)
qed

lemma upt4: "[0..<4] = [0, 1, 2, 3::nat]"
  by (simp add: upt_conv_Cons numeral_eq_Suc)

lemma less4_cases: "(i::nat) < 4 \<Longrightarrow> i = 0 \<or> i = 1 \<or> i = 2 \<or> i = 3"
  by auto

lemma as_part_rv_nozzles:
  "concat (map as_part (rv_nozzles i)) = [outlet_nozzle_part i, inlet_nozzle_part i]"
  by (simp add: outlet_nozzle_part_def inlet_nozzle_part_def rv_nozzles_def Let_def as_part_def
                create_cylinder_def new_object_def)

lemma reactor_vessel_nozzles:
  assumes "i < 4"
  shows "parts_of (create_reactor_vessel\<lparr>obj_parent := p\<rparr>) ! (3 + 2 * i) = outlet_nozzle_part i"
    and "parts_of (create_reactor_vessel\<lparr>obj_parent := p\<rparr>) ! (4 + 2 * i) = inlet_nozzle_part i"
proof -
  have "\<exists>b bh th. parts_of (create_reactor_vessel\<lparr>obj_parent := p\<rparr>)
          = [b, bh, th, outlet_nozzle_part 0, inlet_nozzle_part 0,
             outlet_nozzle_part 1, inlet_nozzle_part 1,
             outlet_nozzle_part 2, inlet_nozzle_part 2,
             outlet_nozzle_part 3, inlet_nozzle_part 3]"
    by (simp add: parts_of_def create_reactor_vessel_def Let_def join_def upt4 as_part_rv_nozzles)
       (simp add: as_part_def create_cylinder_def create_sphere_def flatten_z_def new_object_def)
  then obtain b bh th where ps: "parts_of (create_reactor_vessel\<lparr>obj_parent := p\<rparr>)
          = [b, bh, th, outlet_nozzle_part 0, inlet_nozzle_part 0,
             outlet_nozzle_part 1, inlet_nozzle_part 1,
             outlet_nozzle_part 2, inlet_nozzle_part 2,
             outlet_nozzle_part 3, inlet_nozzle_part 3]" by blast
  from less4_cases [OF assms]
  show "parts_of (create_reactor_vessel\<lparr>obj_parent := p\<rparr>) ! (3 + 2 * i) = outlet_nozzle_part i"
    unfolding ps by (elim disjE) (simp_all add: numeral_eq_Suc)
  from less4_cases [OF assms]
  show "parts_of (create_reactor_vessel\<lparr>obj_parent := p\<rparr>) ! (4 + 2 * i) = inlet_nozzle_part i"
    unfolding ps by (elim disjE) (simp_all add: numeral_eq_Suc)
qed

lemma outlet_nozzle_part_props:
  "part_name (outlet_nozzle_part i) = ''RV_Outlet_Nozzle_'' @ str_nat (i + 1)"
  "part_shape (outlet_nozzle_part i) = CylinderPrim (HOT_LEG_RADIUS * SCALE) (3 * SCALE) 16"
  "part_axis_point (outlet_nozzle_part i) 0.5
     = (cos (loop_angle i) * (RV_RADIUS + 2), sin (loop_angle i) * (RV_RADIUS + 2),
        RV_NOZZLE_HEIGHT + 2)"
  by (simp_all add: outlet_nozzle_part_def rv_nozzles_def Let_def as_part_def create_cylinder_def
                    new_object_def part_axis_point_def axis_point_def local_z_axis_def
                    vadd_def smul_def scaled_def SCALE_def algebra_simps)

lemma inlet_nozzle_part_props:
  "part_name (inlet_nozzle_part i) = ''RV_Inlet_Nozzle_'' @ str_nat (i + 1)"
  "part_shape (inlet_nozzle_part i) = CylinderPrim (COLD_LEG_RADIUS * SCALE) (3 * SCALE) 16"
  "part_axis_point (inlet_nozzle_part i) 0.5
     = (cos (loop_angle i + radians 45) * (RV_RADIUS + 2),
        sin (loop_angle i + radians 45) * (RV_RADIUS + 2), RV_NOZZLE_HEIGHT)"
  by (simp_all add: inlet_nozzle_part_def rv_nozzles_def Let_def as_part_def create_cylinder_def
                    new_object_def part_axis_point_def axis_point_def local_z_axis_def
                    vadd_def smul_def scaled_def SCALE_def algebra_simps)

lemma steam_generator_lower_shell:
  "part_name (parts_of ((create_steam_generator n a)\<lparr>obj_parent := p\<rparr>) ! 0)
     = ''SG'' @ str_nat n @ ''_LowerShell''"
  "part_shape (parts_of ((create_steam_generator n a)\<lparr>obj_parent := p\<rparr>) ! 0)
     = CylinderPrim (SG_LOWER_RADIUS * SCALE) (SG_TRANSITION_HEIGHT * SCALE) DETAIL_LEVEL"
  "part_axis_point (parts_of ((create_steam_generator n a)\<lparr>obj_parent := p\<rparr>) ! 0) t
     = (cos a * LOOP_RADIUS, sin a * LOOP_RADIUS, SG_TRANSITION_HEIGHT / 2 + t)"
  by (simp_all add: parts_of_def create_steam_generator_def Let_def join_def as_part_def
                    create_cylinder_def new_object_def part_axis_point_def axis_point_def
                    local_z_axis_def vadd_def smul_def scaled_def SCALE_def)

lemma rcp_casing:
  "part_name (parts_of ((create_rcp n a)\<lparr>obj_parent := p\<rparr>) ! 0) = ''RCP'' @ str_nat n @ ''_Casing''"
  "part_shape (parts_of ((create_rcp n a)\<lparr>obj_parent := p\<rparr>) ! 0)
     = CylinderPrim (RCP_BODY_RADIUS * SCALE) (RCP_BODY_HEIGHT * SCALE) DETAIL_LEVEL"
  "part_axis_point (parts_of ((create_rcp n a)\<lparr>obj_parent := p\<rparr>) ! 0) t
     = (cos (a + radians 25) * (LOOP_RADIUS * 0.6), sin (a + radians 25) * (LOOP_RADIUS * 0.6),
        RCP_HEIGHT + RCP_BODY_HEIGHT / 2 + t)"
  by (simp_all add: parts_of_def create_rcp_def Let_def join_def as_part_def
                    create_cylinder_def new_object_def part_axis_point_def axis_point_def
                    local_z_axis_def vadd_def smul_def scaled_def SCALE_def)

lemma only_basic_parent [simp]:
  "only_basic_primitives (ob\<lparr>obj_parent := p\<rparr>) = only_basic_primitives ob"
  by (simp add: only_basic_primitives_def)

lemma only_basic_empty: "only_basic_primitives (create_empty nm loc)"
  by (simp add: only_basic_primitives_def create_empty_def new_object_def)

lemma only_basic_reactor_vessel: "only_basic_primitives create_reactor_vessel"
  by (simp add: only_basic_primitives_def create_reactor_vessel_def Let_def join_def upt4
                rv_nozzles_def as_part_def create_cylinder_def create_sphere_def flatten_z_def
                new_object_def basic_primitive_def)

lemma only_basic_steam_generator: "only_basic_primitives (create_steam_generator n a)"
  by (simp add: only_basic_primitives_def create_steam_generator_def Let_def join_def
                as_part_def create_cylinder_def create_sphere_def create_cone_def flatten_z_def
                new_object_def basic_primitive_def)

lemma only_basic_rcp: "only_basic_primitives (create_rcp n a)"
  by (simp add: only_basic_primitives_def create_rcp_def Let_def join_def
                as_part_def create_cylinder_def new_object_def basic_primitive_def)

lemma only_basic_pressurizer: "only_basic_primitives create_pressurizer"
  by (simp add: only_basic_primitives_def create_pressurizer_def Let_def join_def
                as_part_def create_cylinder_def create_sphere_def flatten_z_def
                new_object_def basic_primitive_def)

lemma only_basic_hot_leg: "only_basic_primitives (create_hot_leg n a)"
  by (simp add: only_basic_primitives_def create_hot_leg_def Let_def
                create_cylinder_def new_object_def basic_primitive_def)

lemma only_basic_crossover_leg: "only_basic_primitives (create_crossover_leg n a pos)"
  by (cases pos)
     (simp add: only_basic_primitives_def create_crossover_leg_def Let_def
                create_cylinder_def new_object_def basic_primitive_def)

lemma only_basic_cold_leg: "only_basic_primitives (create_cold_leg n a pos)"
  by (cases pos)
     (simp add: only_basic_primitives_def create_cold_leg_def Let_def
                create_cylinder_def new_object_def basic_primitive_def)

lemma only_basic_surge_line: "only_basic_primitives (create_surge_line pos)"
  by (cases pos)
     (simp add: only_basic_primitives_def create_surge_line_def Let_def
                create_cylinder_def new_object_def basic_primitive_def)

lemma only_basic_arrow: "only_basic_primitives ((create_arrow nm len r loc rot)\<lparr>obj_materials := ms\<rparr>)"
  by (cases rot)
     (simp add: only_basic_primitives_def create_arrow_def Let_def join_def as_part_def
                new_object_def basic_primitive_def)

lemma only_basic_flow_arrows: "list_all only_basic_primitives create_flow_arrows"
  by (simp add: create_flow_arrows_def Let_def upt4 only_basic_arrow)

lemma only_basic_loop_labels: "list_all only_basic_primitives create_loop_labels"
  by (simp add: create_loop_labels_def Let_def upt4 only_basic_primitives_def new_object_def)

lemma list_all_map_parent:
  "list_all only_basic_primitives (map (\<lambda>ob. ob\<lparr>obj_parent := p\<rparr>) obs)
     = list_all only_basic_primitives obs"
  by (induction obs) simp_all

lemma rcs_main_members:
  assumes "i < 4"
  shows "\<exists>final. rcs_main scene = Inr final
           \<and> list_all only_basic_primitives final
           \<and> create_reactor_vessel\<lparr>obj_parent := Some ''Components''\<rparr> \<in> set final
           \<and> (create_steam_generator (i + 1) (loop_angle i))\<lparr>obj_parent := Some ''Components''\<rparr>
                \<in> set final
           \<and> (create_rcp (i + 1) (loop_angle i))\<lparr>obj_parent := Some ''Components''\<rparr> \<in> set final
           \<and> (create_hot_leg (i + 1) (loop_angle i))\<lparr>obj_parent := Some ''Piping''\<rparr> \<in> set final
           \<and> (create_crossover_leg (i + 1) (loop_angle i) (rcp_position i))
                \<lparr>obj_parent := Some ''Piping''\<rparr> \<in> set final
           \<and> (create_cold_leg (i + 1) (loop_angle i) (rcp_position i))
                \<lparr>obj_parent := Some ''Piping''\<rparr> \<in> set final"
  using rcs_main_result [of scene] assms
  apply (elim exE conjE)
  apply (rule exI, rule conjI, assumption)
  apply (intro conjI)
  subgoal
    by (simp add: upt4 list_all_map_parent only_basic_empty only_basic_reactor_vessel
                  only_basic_steam_generator only_basic_rcp only_basic_pressurizer
                  only_basic_hot_leg only_basic_crossover_leg only_basic_cold_leg
                  only_basic_surge_line only_basic_flow_arrows only_basic_loop_labels
                  new_object_def)
       (simp add: only_basic_primitives_def)
  subgoal by simp
  subgoal by (simp only: set_append set_concat set_map Un_iff) auto
  subgoal by (simp only: set_append set_concat set_map Un_iff) auto
  subgoal by (simp only: set_append set_concat set_map Un_iff) auto
  subgoal by (simp only: set_append set_concat set_map Un_iff) auto
  subgoal by (simp only: set_append set_concat set_map Un_iff) auto
  done

lemma torus_has_torus: "has_torus (create_torus nm major_radius minor_radius loc rot)"
  by (cases rot) (simp add: has_torus_def create_torus_def new_object_def is_torus_def)

lemma pipe_shapes:
  "\<exists>len. obj_data ((create_hot_leg n a)\<lparr>obj_parent := p\<rparr>)
           = Mesh (CylinderPrim (HOT_LEG_RADIUS * SCALE) (len * SCALE) DETAIL_LEVEL)"
  "\<exists>len. obj_data ((create_crossover_leg n a pos)\<lparr>obj_parent := p\<rparr>)
           = Mesh (CylinderPrim (CROSSOVER_RADIUS * SCALE) (len * SCALE) DETAIL_LEVEL)"
  "\<exists>len. obj_data ((create_cold_leg n a pos)\<lparr>obj_parent := p\<rparr>)
           = Mesh (CylinderPrim (COLD_LEG_RADIUS * SCALE) (len * SCALE) DETAIL_LEVEL)"
  by (cases pos; simp add: create_hot_leg_def create_crossover_leg_def create_cold_leg_def
                Let_def create_cylinder_def new_object_def)+

text \<open>
  C2, with cones in the place of tori. \<open>main\<close> of the RCS script returns, and every
  mesh it leaves is made of cylinder, sphere and cone primitives only. For each loop
  \<open>i < 4\<close>, at the angle \<open>45 + i * 90\<close> degrees, the scene holds the reactor vessel,
  the steam generator, the pump and the three pipes of the loop, each pipe a cylinder,
  and
  \<^item> the hot leg runs from a point on the axis of the outlet nozzle of the vessel for
    that loop to a point on the axis of the lower shell of the steam generator, at the
    height \<open>SG_INLET_HEIGHT\<close>;
  \<^item> the crossover leg runs from the point on that axis at the height
    \<open>SG_LOWER_RADIUS + 2\<close> to the position the pump recorded, the lower end of its
    casing;
  \<^item> the cold leg runs from the centre of the pump casing to a point on the axis of
    the inlet nozzle of the vessel for that loop.
\<close>

theorem rcs_loop_piping_chain:
  assumes "i < 4"
  shows "\<exists>final pos. rcs_main scene = Inr final
     \<and> list_all only_basic_primitives final
     \<and> (let a = loop_angle i;
            n = i + 1;
            rv = create_reactor_vessel\<lparr>obj_parent := Some ''Components''\<rparr>;
            sg = (create_steam_generator n a)\<lparr>obj_parent := Some ''Components''\<rparr>;
            rcp = (create_rcp n a)\<lparr>obj_parent := Some ''Components''\<rparr>;
            hot = (create_hot_leg n a)\<lparr>obj_parent := Some ''Piping''\<rparr>;
            cross = (create_crossover_leg n a pos)\<lparr>obj_parent := Some ''Piping''\<rparr>;
            cold = (create_cold_leg n a pos)\<lparr>obj_parent := Some ''Piping''\<rparr>;
            nozzle_out = parts_of rv ! (3 + 2 * i);
            nozzle_in = parts_of rv ! (4 + 2 * i);
            lower_shell = parts_of sg ! 0;
            casing = parts_of rcp ! 0
        in a = radians (45 + real i * 90)
         \<and> rv \<in> set final \<and> sg \<in> set final \<and> rcp \<in> set final
         \<and> hot \<in> set final \<and> cross \<in> set final \<and> cold \<in> set final
         \<and> position_of rcp = Inr pos
         \<and> part_name nozzle_out = ''RV_Outlet_Nozzle_'' @ str_nat n
         \<and> part_name nozzle_in = ''RV_Inlet_Nozzle_'' @ str_nat n
         \<and> part_name lower_shell = ''SG'' @ str_nat n @ ''_LowerShell''
         \<and> part_name casing = ''RCP'' @ str_nat n @ ''_Casing''
         \<and> (\<exists>len. obj_data hot
                     = Mesh (CylinderPrim (HOT_LEG_RADIUS * SCALE) (len * SCALE) DETAIL_LEVEL))
         \<and> (\<exists>len. obj_data cross
                     = Mesh (CylinderPrim (CROSSOVER_RADIUS * SCALE) (len * SCALE) DETAIL_LEVEL))
         \<and> (\<exists>len. obj_data cold
                     = Mesh (CylinderPrim (COLD_LEG_RADIUS * SCALE) (len * SCALE) DETAIL_LEVEL))
         \<and> cyl_start hot = (cos a * (RV_RADIUS + 2), sin a * (RV_RADIUS + 2), RV_NOZZLE_HEIGHT + 2)
         \<and> cyl_start hot = part_axis_point nozzle_out 0.5
         \<and> cyl_end hot = (cos a * LOOP_RADIUS, sin a * LOOP_RADIUS, SG_INLET_HEIGHT)
         \<and> cyl_end hot = part_axis_point lower_shell (SG_INLET_HEIGHT - SG_TRANSITION_HEIGHT / 2)
         \<and> cyl_start cross = (cos a * LOOP_RADIUS, sin a * LOOP_RADIUS, SG_LOWER_RADIUS + 2)
         \<and> cyl_start cross
             = part_axis_point lower_shell (SG_LOWER_RADIUS + 2 - SG_TRANSITION_HEIGHT / 2)
         \<and> cyl_end cross = pos
         \<and> pos = part_axis_point casing (- RCP_BODY_HEIGHT / 2)
         \<and> cyl_start cold = part_axis_point casing 0
         \<and> cyl_end cold
             = (cos (a + radians 45) * (RV_RADIUS + 2), sin (a + radians 45) * (RV_RADIUS + 2),
                RV_NOZZLE_HEIGHT)
         \<and> cyl_end cold = part_axis_point nozzle_in 0.5)"
proof -
  let ?a = "loop_angle i"
  let ?rv = "create_reactor_vessel\<lparr>obj_parent := Some ''Components''\<rparr>"
  let ?sg = "(create_steam_generator (i + 1) ?a)\<lparr>obj_parent := Some ''Components''\<rparr>"
  let ?rcp = "(create_rcp (i + 1) ?a)\<lparr>obj_parent := Some ''Components''\<rparr>"
  let ?hot = "(create_hot_leg (i + 1) ?a)\<lparr>obj_parent := Some ''Piping''\<rparr>"
  let ?cross = "(create_crossover_leg (i + 1) ?a (rcp_position i))\<lparr>obj_parent := Some ''Piping''\<rparr>"
  let ?cold = "(create_cold_leg (i + 1) ?a (rcp_position i))\<lparr>obj_parent := Some ''Piping''\<rparr>"
  from rcs_main_members [OF assms, of scene]
  obtain final where f: "rcs_main scene = Inr final"
    and b: "list_all only_basic_primitives final"
    and m: "?rv \<in> set final" "?sg \<in> set final" "?rcp \<in> set final"
           "?hot \<in> set final" "?cross \<in> set final" "?cold \<in> set final"
    by blast
  have a: "?a = radians (45 + real i * 90)"
    by (simp add: loop_angle_def)
  have p: "position_of ?rcp = Inr (rcp_position i)"
    by (simp add: position_of_create_rcp rcp_position_def)
  note no = reactor_vessel_nozzles [OF assms, of "Some ''Components''"]
  have n1: "part_name (parts_of ?rv ! (3 + 2 * i)) = ''RV_Outlet_Nozzle_'' @ str_nat (i + 1)"
    by (simp only: no outlet_nozzle_part_props)
  have n2: "part_name (parts_of ?rv ! (4 + 2 * i)) = ''RV_Inlet_Nozzle_'' @ str_nat (i + 1)"
    by (simp only: no inlet_nozzle_part_props)
  have n3: "part_name (parts_of ?sg ! 0) = ''SG'' @ str_nat (i + 1) @ ''_LowerShell''"
    by (rule steam_generator_lower_shell)
  have n4: "part_name (parts_of ?rcp ! 0) = ''RCP'' @ str_nat (i + 1) @ ''_Casing''"
    by (rule rcp_casing)
  note s1 = pipe_shapes(1) [where n = "i + 1" and a = ?a and p = "Some ''Piping''"]
  note s2 = pipe_shapes(2) [where n = "i + 1" and a = ?a and pos = "rcp_position i"
                              and p = "Some ''Piping''"]
  note s3 = pipe_shapes(3) [where n = "i + 1" and a = ?a and pos = "rcp_position i"
                              and p = "Some ''Piping''"]
  have h1: "cyl_start ?hot = (cos ?a * (RV_RADIUS + 2), sin ?a * (RV_RADIUS + 2), RV_NOZZLE_HEIGHT + 2)"
    by (simp add: hot_leg_ends)
  have h2: "cyl_start ?hot = part_axis_point (parts_of ?rv ! (3 + 2 * i)) 0.5"
    by (simp only: h1 no outlet_nozzle_part_props)
  have h3: "cyl_end ?hot = (cos ?a * LOOP_RADIUS, sin ?a * LOOP_RADIUS, SG_INLET_HEIGHT)"
    by (simp add: hot_leg_ends)
  have h4: "cyl_end ?hot = part_axis_point (parts_of ?sg ! 0) (SG_INLET_HEIGHT - SG_TRANSITION_HEIGHT / 2)"
    by (simp only: h3 steam_generator_lower_shell) simp
  have z1: "RCP_HEIGHT \<noteq> SG_LOWER_RADIUS + 2"
    by (simp add: RCP_HEIGHT_def SG_LOWER_RADIUS_def)
  have z2: "RCP_HEIGHT + RCP_BODY_HEIGHT / 2 \<noteq> RV_NOZZLE_HEIGHT"
    by (simp add: RCP_HEIGHT_def RCP_BODY_HEIGHT_def RV_NOZZLE_HEIGHT_def)
  have c1: "cyl_start ?cross = (cos ?a * LOOP_RADIUS, sin ?a * LOOP_RADIUS, SG_LOWER_RADIUS + 2)"
    unfolding rcp_position_def cyl_ends_parent by (rule crossover_leg_ends(1) [OF z1])
  have c2: "cyl_start ?cross
             = part_axis_point (parts_of ?sg ! 0) (SG_LOWER_RADIUS + 2 - SG_TRANSITION_HEIGHT / 2)"
    by (simp only: c1 steam_generator_lower_shell) simp
  have c3: "cyl_end ?cross = rcp_position i"
    unfolding rcp_position_def cyl_ends_parent by (rule crossover_leg_ends(2) [OF z1])
  have c4: "rcp_position i = part_axis_point (parts_of ?rcp ! 0) (- RCP_BODY_HEIGHT / 2)"
    by (simp only: rcp_casing) (simp add: rcp_position_def)
  have d1: "cyl_start ?cold = part_axis_point (parts_of ?rcp ! 0) 0"
    unfolding rcp_position_def cyl_ends_parent rcp_casing
    by (simp add: cold_leg_ends(1) [OF z2])
  have d2: "cyl_end ?cold
             = (cos (?a + radians 45) * (RV_RADIUS + 2), sin (?a + radians 45) * (RV_RADIUS + 2),
                RV_NOZZLE_HEIGHT)"
    unfolding rcp_position_def cyl_ends_parent by (rule cold_leg_ends(2) [OF z2])
  have d3: "cyl_end ?cold = part_axis_point (parts_of ?rv ! (4 + 2 * i)) 0.5"
    by (simp only: d2 no inlet_nozzle_part_props)
  show ?thesis
    unfolding Let_def
    apply (rule exI [of _ final], rule exI [of _ "rcp_position i"])
    apply (intro conjI)
    apply (rule f b a m p n1 n2 n3 n4 s1 s2 s3 h1 h2 h3 h4 c1 c2 c3 c4 d1 d2 d3)+
    done
qed

theorem rcs_loop_piping_chain_witness:
  "(0::nat) < 4
   \<and> loop_angle 0 = radians 45
   \<and> (\<exists>final. rcs_main [] = Inr final
         \<and> list_all only_basic_primitives final
         \<and> (create_hot_leg (0 + 1) (loop_angle 0))\<lparr>obj_parent := Some ''Piping''\<rparr> \<in> set final)
   \<and> cyl_start ((create_hot_leg (0 + 1) (loop_angle 0))\<lparr>obj_parent := Some ''Piping''\<rparr>)
       = (cos (loop_angle 0) * (RV_RADIUS + 2), sin (loop_angle 0) * (RV_RADIUS + 2),
          RV_NOZZLE_HEIGHT + 2)
   \<and> cyl_end ((create_hot_leg (0 + 1) (loop_angle 0))\<lparr>obj_parent := Some ''Piping''\<rparr>)
       = (cos (loop_angle 0) * LOOP_RADIUS, sin (loop_angle 0) * LOOP_RADIUS, SG_INLET_HEIGHT)"
proof -
  have h: "(0::nat) < 4" by simp
  have a: "loop_angle 0 = radians 45" by (simp add: loop_angle_def)
  note t = rcs_loop_piping_chain [OF h, of "[]", unfolded Let_def]
  have e: "\<exists>final. rcs_main [] = Inr final
         \<and> list_all only_basic_primitives final
         \<and> (create_hot_leg (0 + 1) (loop_angle 0))\<lparr>obj_parent := Some ''Piping''\<rparr> \<in> set final"
    using t by (elim exE conjE) (intro exI conjI; assumption)
  have s: "cyl_start ((create_hot_leg (0 + 1) (loop_angle 0))\<lparr>obj_parent := Some ''Piping''\<rparr>)
       = (cos (loop_angle 0) * (RV_RADIUS + 2), sin (loop_angle 0) * (RV_RADIUS + 2),
          RV_NOZZLE_HEIGHT + 2)"
    using t by (elim exE conjE)
  have f: "cyl_end ((create_hot_leg (0 + 1) (loop_angle 0))\<lparr>obj_parent := Some ''Piping''\<rparr>)
       = (cos (loop_angle 0) * LOOP_RADIUS, sin (loop_angle 0) * LOOP_RADIUS, SG_INLET_HEIGHT)"
    using t by (elim exE conjE)
  from h a e s f show ?thesis by (intro conjI)
qed

text \<open>
  C2 as stated names torus primitives among the parts of the loops. \<open>create_torus\<close>
  makes a torus, but nothing calls it: no object of the scene \<open>main\<close> leaves has a
  torus.
\<close>

theorem rcs_no_torus_counterexample:
  "has_torus (create_torus ''Elbow'' 2 0.5 (0, 0, 0) (0, 0, 0))
   \<and> (\<exists>final. rcs_main [] = Inr final \<and> final \<noteq> [] \<and> filter has_torus final = [])"
proof -
  have h: "(0::nat) < 4" by simp
  from rcs_main_members [OF h, of "[]"]
  obtain final where f: "rcs_main [] = Inr final" and b: "list_all only_basic_primitives final"
    and m: "create_reactor_vessel\<lparr>obj_parent := Some ''Components''\<rparr> \<in> set final"
    by blast
  from m have ne: "final \<noteq> []" by auto
  from b have nt: "filter has_torus final = []"
    by (auto simp: filter_empty_conv list_all_iff dest: only_basic_no_torus)
  from f ne nt have "\<exists>final. rcs_main [] = Inr final \<and> final \<noteq> [] \<and> filter has_torus final = []"
    by blast
  with torus_has_torus show ?thesis by (intro conjI)
qed

section \<open>Clearing the scene\<close>

lemma build_panel_clears: "build_panel host scene = build_panel host []"
  by (simp add: build_panel_def clear_scene_def)

lemma rcs_main_clears: "rcs_main scene = rcs_main []"
  by (simp add: rcs_main_def clear_scene_def)

lemma arc_gauge_main_keeps:
  "\<exists>gauge. create_gauge GaugeConfig = Some (Inr gauge)
          \<and> arc_gauge_main scene = Some (Inr (scene @ gauge))"
proof -
  have "\<exists>objs. create_gauge GaugeConfig = Some (Inr objs)"
    using create_gauge_scale [of GaugeConfig] by (auto simp: GaugeConfig_def)
  then obtain objs where o: "create_gauge GaugeConfig = Some (Inr objs)" by blast
  then show ?thesis by (simp add: arc_gauge_main_def then_run_def)
qed

lemma bar_gauge_main_keeps:
  "\<exists>gauge. create_bar_gauge BarGaugeConfig = Some (Inr gauge)
          \<and> bar_gauge_main scene = Some (Inr (scene @ gauge))"
proof -
  have "\<exists>objs. create_bar_gauge BarGaugeConfig = Some (Inr objs)"
    using create_bar_gauge_scale [of BarGaugeConfig] by (auto simp: BarGaugeConfig_def)
  then obtain objs where o: "create_bar_gauge BarGaugeConfig = Some (Inr objs)" by blast
  then show ?thesis by (simp add: bar_gauge_main_def then_run_def)
qed

lemma render_panel_keeps:
  "(\<exists>e. render_panel env render_ok scene = Inl e)
   \<or> (\<exists>b after. render_panel env render_ok scene = Inr (b, after)
         \<and> filter (\<lambda>ob. \<not> is_camera ob) after = filter (\<lambda>ob. \<not> is_camera ob) scene)"
  by (auto simp: render_panel_def setup_camera_def is_camera_def new_object_def Let_def
           split: option.splits bool.splits prod.splits)

text \<open>
  C3, for the scripts it holds of. \<open>build_panel\<close> and \<open>main\<close> of the RCS script
  clear the scene first: what they leave does not depend on the scene they start from.
  The two gauge scripts do not clear: they return the scene they found followed by the
  gauge. The render script does not clear either: when it returns, every object of the
  scene that is not a camera is still there.
\<close>

theorem scene_cleared_by_panel_and_rcs_scripts:
  "build_panel host scene = build_panel host []
   \<and> rcs_main scene = rcs_main []
   \<and> (\<exists>gauge. create_gauge GaugeConfig = Some (Inr gauge)
         \<and> arc_gauge_main scene = Some (Inr (scene @ gauge)))
   \<and> (\<exists>gauge. create_bar_gauge BarGaugeConfig = Some (Inr gauge)
         \<and> bar_gauge_main scene = Some (Inr (scene @ gauge)))
   \<and> ((\<exists>e. render_panel env render_ok scene = Inl e)
       \<or> (\<exists>b after. render_panel env render_ok scene = Inr (b, after)
             \<and> filter (\<lambda>ob. \<not> is_camera ob) after = filter (\<lambda>ob. \<not> is_camera ob) scene))"
  by (intro conjI)
     (rule build_panel_clears, rule rcs_main_clears, rule arc_gauge_main_keeps,
      rule bar_gauge_main_keeps, rule render_panel_keeps)

text \<open>
  C3 as stated fails for the gauge scripts: run in a scene that holds a cube, each of
  them leaves the cube in the scene.
\<close>

theorem gauge_main_keeps_scene_counterexample:
  "(\<exists>gauge. arc_gauge_main [new_object ''Cube'' (Mesh (CubePrim 2 (1, 1, 1)))]
       = Some (Inr (new_object ''Cube'' (Mesh (CubePrim 2 (1, 1, 1))) # gauge)))
   \<and> (\<exists>gauge. bar_gauge_main [new_object ''Cube'' (Mesh (CubePrim 2 (1, 1, 1)))]
       = Some (Inr (new_object ''Cube'' (Mesh (CubePrim 2 (1, 1, 1))) # gauge)))"
proof -
  have a: "\<exists>gauge. arc_gauge_main [new_object ''Cube'' (Mesh (CubePrim 2 (1, 1, 1)))]
       = Some (Inr (new_object ''Cube'' (Mesh (CubePrim 2 (1, 1, 1))) # gauge))"
    using arc_gauge_main_keeps [of "[new_object ''Cube'' (Mesh (CubePrim 2 (1, 1, 1)))]"]
    by auto
  have b: "\<exists>gauge. bar_gauge_main [new_object ''Cube'' (Mesh (CubePrim 2 (1, 1, 1)))]
       = Some (Inr (new_object ''Cube'' (Mesh (CubePrim 2 (1, 1, 1))) # gauge))"
    using bar_gauge_main_keeps [of "[new_object ''Cube'' (Mesh (CubePrim 2 (1, 1, 1)))]"]
    by auto
  from a b show ?thesis by (intro conjI)
qed

end
